theory Spec2Isabelle
  imports Complex_Main "HOL-Library.Word" "HOL-Library.Signed_Division"
begin

section \<open>Host-side orchestration of fused attention (csrc/flash\_attn/fmha\_api.cpp)\<close>

text \<open>
  The file under study is the host code that validates the tensors of a call, derives the
  tiling parameters, allocates and pre-fills buffers, fills the parameter struct, reserves
  a segment of the random stream and dispatches the tile kernels. The development embeds
  that host code; the tile kernels, which live in other translation units, enter as
  parameters.
\<close>

subsection \<open>C integers\<close>

text \<open>
  A C \<open>int\<close> is held as an \<open>int\<close> of HOL together with the wrap-around of a 32-bit
  two's complement value, written \<open>int32\<close>, at the places where a result is stored in an
  \<open>int\<close>. Division and remainder of C truncate towards zero: they are \<open>sdiv\<close> and
  \<open>smod\<close>. A name that the source writes with a trailing underscore
  (\<open>max_seqlen_k_\<close>, \<open>zero_\<close>) carries a prime here (\<open>max_seqlen_k'\<close>, \<open>zero'\<close>).
\<close>

definition int32 :: "int \<Rightarrow> int" where
  "int32 x = signed_take_bit 31 x"

subsection \<open>Derivation of the tiling parameters\<close>

text \<open>
  \<open>mha_fwd\<close>, lines 255 to 264, and \<open>mha_bwd\<close>, lines 425 to 433. The two entry points
  differ in the tile size only; the rounding of the two maximal lengths and the loop flag
  are the same expressions in both.
\<close>

definition blocksize_c_fwd :: "int \<Rightarrow> int" where
  "blocksize_c_fwd head_size = (if head_size > 64 then 128 else 256)"

definition blocksize_c_bwd :: "bool \<Rightarrow> int \<Rightarrow> int" where
  "blocksize_c_bwd is_sm75 head_size =
     (if head_size > 64 \<or> (is_sm75 \<and> head_size > 32) then 128 else 256)"

definition round_multiple :: "int \<Rightarrow> int \<Rightarrow> int" where
  "round_multiple x m = int32 (int32 (int32 (x + m - 1) sdiv m) * m)"

definition max_seqlen_k_of :: "int \<Rightarrow> int \<Rightarrow> int" where
  "max_seqlen_k_of blocksize_c max_seqlen_k' =
     (if max_seqlen_k' \<le> 128 then 128
      else if max_seqlen_k' \<le> 256 then 256
      else round_multiple max_seqlen_k' blocksize_c)"

definition max_seqlen_q_of :: "int \<Rightarrow> int" where
  "max_seqlen_q_of max_seqlen_q' = round_multiple max_seqlen_q' 16"

definition loop_of :: "int \<Rightarrow> int \<Rightarrow> bool" where
  "loop_of blocksize_c max_seqlen_k = (max_seqlen_k > blocksize_c)"

text \<open>Rounding up to a multiple, as the specification words it: the least multiple of
  \<open>m\<close> that is not below \<open>x\<close>.\<close>

definition is_round_up :: "int \<Rightarrow> int \<Rightarrow> int \<Rightarrow> bool" where
  "is_round_up m x y = (m dvd y \<and> x \<le> y \<and> y < x + m)"

subsection \<open>Tensors, device memory and the random generator\<close>

text \<open>
  A tensor argument is a handle. Its metadata (element type, residency, size and stride
  of every dimension; a size is never negative) is the record \<open>tensor\<close>; its elements live in device memory, a map
  from buffer names to element lists in row-major order (for the caller's LogSumExp, the
  one tensor of which a call takes a slice, the buffer holds the storage as it lies, and
  the strides say where an element is). The buffers of a call are named
  after the parameters and local variables of the source; distinct names are distinct
  buffers. Element values are idealised: the rounding of a conversion between floating
  formats is not represented. \<open>Uninit\<close> is the content of memory that \<open>torch::empty\<close>
  hands out.
\<close>

datatype dtype = kFloat16 | kBFloat16 | kFloat | kInt32 | kOtherType

datatype scalar = Num real | NegInf | Uninit

datatype buf =
    B_q | B_k | B_v | B_out | B_cu_seqlens_q | B_cu_seqlens_k | B_blockmask
  | B_dout | B_softmax_lse_arg | B_dq | B_dk | B_dv
  | B_o | B_o_tmp | B_softmax_lse | B_s | B_softmax_d | B_dq_tmp

type_synonym mem = "buf \<Rightarrow> scalar list"

record tensor =
  dtype :: dtype
  is_cuda :: bool
  dims :: "(nat \<times> int) list"

record dprops =
  dprops_major :: int
  dprops_minor :: int

datatype error = TorchCheck nat | LibraryError nat

definition sizes :: "tensor \<Rightarrow> int list" where
  "sizes t = map (\<lambda>d. int (fst d)) (dims t)"

definition numel :: "tensor \<Rightarrow> int" where
  "numel t = prod_list (sizes t)"

text \<open>\<open>t.size(i)\<close> and \<open>t.stride(i)\<close> count a negative index from the end and raise when
  the index is out of range.\<close>

definition dim_index :: "tensor \<Rightarrow> int \<Rightarrow> nat option" where
  "dim_index t i =
     (let n = int (length (dims t)); j = (if i < 0 then n + i else i)
      in if 0 \<le> j \<and> j < n then Some (nat j) else None)"

definition tsize :: "tensor \<Rightarrow> int \<Rightarrow> int option" where
  "tsize t i = map_option (\<lambda>j. int (fst (dims t ! j))) (dim_index t i)"

definition stride :: "tensor \<Rightarrow> int \<Rightarrow> int option" where
  "stride t i = map_option (\<lambda>j. snd (dims t ! j)) (dim_index t i)"

definition or0 :: "int option \<Rightarrow> int" where
  "or0 x = (case x of None \<Rightarrow> 0 | Some y \<Rightarrow> y)"

text \<open>\<open>sizes[i]\<close> on the array of sizes is an unchecked read in the source. Past the rank
  the model reads 0; whatever a run reads there, the \<open>CHECK_SHAPE\<close> that follows fails,
  because the ranks differ.\<close>

definition sizes_at :: "tensor \<Rightarrow> nat \<Rightarrow> int" where
  "sizes_at t i = (if i < length (dims t) then int (fst (dims t ! i)) else 0)"

text \<open>Contiguity as the tensor library computes it: an empty tensor is contiguous;
  otherwise, from the innermost dimension outwards, every dimension of size other than 1
  has the stride of a dense row-major layout.\<close>

fun dense_from :: "int \<Rightarrow> (nat \<times> int) list \<Rightarrow> bool" where
  "dense_from z [] = True"
| "dense_from z ((sz, st) # r) =
     (if sz = 1 then dense_from z r else st = z \<and> dense_from (z * int sz) r)"

definition is_contiguous :: "tensor \<Rightarrow> bool" where
  "is_contiguous t = (numel t = 0 \<or> dense_from 1 (rev (dims t)))"

fun dense_strides :: "nat list \<Rightarrow> int list" where
  "dense_strides [] = []"
| "dense_strides (n # ns) = int (prod_list (map (max 1) ns)) # dense_strides ns"

text \<open>The handle of a freshly allocated tensor of the given sizes, on the device. The
  callers have checked that no size is negative.\<close>

definition new_tensor :: "dtype \<Rightarrow> int list \<Rightarrow> tensor" where
  "new_tensor dt ns =
     \<lparr>dtype = dt, is_cuda = True, dims = zip (map nat ns) (dense_strides (map nat ns))\<rparr>"

text \<open>Modelled from the spec: the packed layout is \<open>[total_tokens, num_heads, head_dim]\<close>.
  The constants \<open>TOTAL_DIM\<close>, \<open>H_DIM\<close> and \<open>D_DIM\<close> that index it are declared in
  \<open>fmha.h\<close>, which is not among the sources at hand.\<close>

definition TOTAL_DIM :: nat where "TOTAL_DIM = 0"
definition H_DIM :: nat where "H_DIM = 1"
definition D_DIM :: nat where "D_DIM = 2"

subsection \<open>The parameter struct\<close>

text \<open>
  \<open>FMHA_fprop_params\<close> and \<open>FMHA_dgrad_params\<close>, which derives from it, are declared in
  \<open>fmha.h\<close>. One record holds the fields that \<open>fmha_api.cpp\<close> assigns, \<open>params.b\<close> being
  \<open>params_b\<close>; the fields of the derived struct are null in a forward call. A pointer
  field names the buffer it points to, \<open>None\<close> being the null pointer. The dimension
  fields are read as C \<open>int\<close>s. Three fields are left out, because the helpers that
  compute them (\<open>set_alpha\<close>, \<open>get_size_in_bytes\<close>) are outside this file:
  \<open>scale_bmm1\<close>, \<open>scale_dropout\<close> and \<open>s_stride_in_bytes\<close>.
\<close>

record params =
  params_is_bf16 :: bool
  params_q_ptr :: "buf option"
  params_k_ptr :: "buf option"
  params_v_ptr :: "buf option"
  params_q_row_stride_in_elts :: int
  params_k_row_stride_in_elts :: int
  params_v_row_stride_in_elts :: int
  params_q_head_stride_in_elts :: int
  params_k_head_stride_in_elts :: int
  params_v_head_stride_in_elts :: int
  params_o_ptr :: "buf option"
  params_o_row_stride_in_elts :: int
  params_o_head_stride_in_elts :: int
  params_o_tmp_ptr :: "buf option"
  params_o_tmp_row_stride_in_elts :: int
  params_o_tmp_head_stride_in_elts :: int
  params_cu_seqlens_q :: "buf option"
  params_cu_seqlens_k :: "buf option"
  params_s_ptr :: "buf option"
  params_softmax_lse_ptr :: "buf option"
  params_b :: int
  params_h :: int
  params_seqlen_q :: int
  params_seqlen_k :: int
  params_d :: int
  params_scale_bmm1f :: real
  params_p_dropout :: real
  params_p_dropout_in_uint :: "32 word"
  params_p_dropout_in_uint16_t :: "16 word"
  params_rp_dropout :: real
  params_scale_bmm1_rp_dropout :: real
  params_is_causal :: bool
  params_num_splits :: int
  params_philox_args :: "int \<times> int"
  params_blockmask :: "buf option"
  params_dq_ptr :: "buf option"
  params_dk_ptr :: "buf option"
  params_dv_ptr :: "buf option"
  params_dq_row_stride_in_elts :: int
  params_dk_row_stride_in_elts :: int
  params_dv_row_stride_in_elts :: int
  params_dq_head_stride_in_elts :: int
  params_dk_head_stride_in_elts :: int
  params_dv_head_stride_in_elts :: int
  params_do_ptr :: "buf option"
  params_dsoftmax_sum :: "buf option"

text \<open>\<open>memset(&params, 0, sizeof(params))\<close>.\<close>

definition params_zero :: params where
  "params_zero =
     \<lparr>params_is_bf16 = False, params_q_ptr = None, params_k_ptr = None, params_v_ptr = None,
      params_q_row_stride_in_elts = 0, params_k_row_stride_in_elts = 0,
      params_v_row_stride_in_elts = 0, params_q_head_stride_in_elts = 0,
      params_k_head_stride_in_elts = 0, params_v_head_stride_in_elts = 0,
      params_o_ptr = None, params_o_row_stride_in_elts = 0, params_o_head_stride_in_elts = 0,
      params_o_tmp_ptr = None, params_o_tmp_row_stride_in_elts = 0,
      params_o_tmp_head_stride_in_elts = 0, params_cu_seqlens_q = None,
      params_cu_seqlens_k = None, params_s_ptr = None, params_softmax_lse_ptr = None,
      params_b = 0, params_h = 0, params_seqlen_q = 0, params_seqlen_k = 0, params_d = 0,
      params_scale_bmm1f = 0, params_p_dropout = 0, params_p_dropout_in_uint = 0,
      params_p_dropout_in_uint16_t = 0, params_rp_dropout = 0,
      params_scale_bmm1_rp_dropout = 0, params_is_causal = False, params_num_splits = 0,
      params_philox_args = (0, 0), params_blockmask = None,
      params_dq_ptr = None, params_dk_ptr = None, params_dv_ptr = None,
      params_dq_row_stride_in_elts = 0, params_dk_row_stride_in_elts = 0,
      params_dv_row_stride_in_elts = 0, params_dq_head_stride_in_elts = 0,
      params_dk_head_stride_in_elts = 0, params_dv_head_stride_in_elts = 0,
      params_do_ptr = None, params_dsoftmax_sum = None\<rparr>"

text \<open>The keep probability and its two fixed-point forms, lines 109 to 114. The
  probabilities are real numbers here: the model leaves the rounding of \<open>float\<close> and
  \<open>double\<close> arithmetic out. The casts to \<open>uint32_t\<close> and \<open>uint16_t\<close> keep the low bits.\<close>

definition p_dropout_in_uint_of :: "real \<Rightarrow> 32 word" where
  "p_dropout_in_uint_of p_keep = word_of_int \<lfloor>p_keep * 4294967295\<rfloor>"

definition p_dropout_in_uint16_t_of :: "real \<Rightarrow> 16 word" where
  "p_dropout_in_uint16_t_of p_keep = word_of_int \<lfloor>p_keep * 65535\<rfloor>"

text \<open>\<open>set_params_fprop\<close>, lines 38 to 122. The tensors \<open>q\<close>, \<open>k\<close>, \<open>v\<close> are the buffers of
  those names; \<open>out_ptr\<close> names the buffer of the tensor passed as \<open>out\<close>. The callers
  have checked that the tensors have three dimensions, so the reads of \<open>stride(0)\<close> and
  \<open>stride(1)\<close> are in range (\<open>or0\<close> unwraps them). The only exit by exception is the
  check of line 117, which stands after the assignments.\<close>

definition set_params_fprop ::
  "int \<Rightarrow> int \<Rightarrow> int \<Rightarrow> int \<Rightarrow> int \<Rightarrow> tensor \<Rightarrow> tensor \<Rightarrow> tensor \<Rightarrow> tensor \<Rightarrow> buf
   \<Rightarrow> buf option \<Rightarrow> buf option \<Rightarrow> buf option \<Rightarrow> buf option \<Rightarrow> buf option
   \<Rightarrow> real \<Rightarrow> real \<Rightarrow> bool \<Rightarrow> int \<Rightarrow> error + params" where
  "set_params_fprop b seqlen_q seqlen_k h d q k v out out_ptr cu_seqlens_q_d cu_seqlens_k_d
     o_tmp_d s_d softmax_lse_d p_dropout softmax_scale is_causal num_splits =
   (let params = params_zero
        \<lparr>params_is_bf16 := (dtype q = kBFloat16),
         params_q_ptr := Some B_q,
         params_k_ptr := Some B_k,
         params_v_ptr := Some B_v,
         params_q_row_stride_in_elts := or0 (stride q 0),
         params_k_row_stride_in_elts := or0 (stride k 0),
         params_v_row_stride_in_elts := or0 (stride v 0),
         params_q_head_stride_in_elts := or0 (stride q 1),
         params_k_head_stride_in_elts := or0 (stride k 1),
         params_v_head_stride_in_elts := or0 (stride v 1),
         params_o_ptr := Some out_ptr,
         params_o_row_stride_in_elts := or0 (stride out 0),
         params_o_head_stride_in_elts := or0 (stride out 1),
         params_o_tmp_ptr := o_tmp_d,
         params_o_tmp_row_stride_in_elts := h * d,
         params_o_tmp_head_stride_in_elts := d,
         params_cu_seqlens_q := cu_seqlens_q_d,
         params_cu_seqlens_k := cu_seqlens_k_d,
         params_s_ptr := s_d,
         params_softmax_lse_ptr := softmax_lse_d,
         params_b := b,
         params_h := h,
         params_seqlen_q := seqlen_q,
         params_seqlen_k := seqlen_k,
         params_d := d,
         params_scale_bmm1f := softmax_scale,
         params_p_dropout := 1 - p_dropout,
         params_p_dropout_in_uint := p_dropout_in_uint_of (1 - p_dropout),
         params_p_dropout_in_uint16_t := p_dropout_in_uint16_t_of (1 - p_dropout),
         params_rp_dropout := 1 / (1 - p_dropout),
         params_scale_bmm1_rp_dropout := (1 / (1 - p_dropout)) * softmax_scale\<rparr>
    in if \<not> p_dropout < 1 then Inl (TorchCheck 117)
       else Inr (params\<lparr>params_is_causal := is_causal, params_num_splits := num_splits\<rparr>))"

text \<open>\<open>set_params_dgrad\<close>, lines 124 to 177: the pointer to \<open>dq_tmp\<close> travels in
  \<open>o_tmp_ptr\<close>, and \<open>s_d\<close> is null.\<close>

definition set_params_dgrad ::
  "int \<Rightarrow> int \<Rightarrow> int \<Rightarrow> int \<Rightarrow> int \<Rightarrow> tensor \<Rightarrow> tensor \<Rightarrow> tensor \<Rightarrow> tensor
   \<Rightarrow> tensor \<Rightarrow> tensor \<Rightarrow> tensor
   \<Rightarrow> buf option \<Rightarrow> buf option \<Rightarrow> buf option \<Rightarrow> buf option \<Rightarrow> buf option \<Rightarrow> buf option
   \<Rightarrow> real \<Rightarrow> real \<Rightarrow> bool \<Rightarrow> int \<Rightarrow> error + params" where
  "set_params_dgrad b seqlen_q seqlen_k h d q k v out dq dk dv cu_seqlens_q_d cu_seqlens_k_d
     dq_tmp_d do_packed_d softmax_lse_d dsoftmax_sum_d p_dropout softmax_scale is_causal
     num_splits =
   (case set_params_fprop b seqlen_q seqlen_k h d q k v out B_out cu_seqlens_q_d
           cu_seqlens_k_d dq_tmp_d None softmax_lse_d p_dropout softmax_scale is_causal
           num_splits of
      Inl e \<Rightarrow> Inl e
    | Inr params \<Rightarrow> Inr (params
        \<lparr>params_dq_ptr := Some B_dq,
         params_dk_ptr := Some B_dk,
         params_dv_ptr := Some B_dv,
         params_dq_row_stride_in_elts := or0 (stride dq 0),
         params_dk_row_stride_in_elts := or0 (stride dk 0),
         params_dv_row_stride_in_elts := or0 (stride dv 0),
         params_dq_head_stride_in_elts := or0 (stride dq 1),
         params_dk_head_stride_in_elts := or0 (stride dk 1),
         params_dv_head_stride_in_elts := or0 (stride dv 1),
         params_do_ptr := do_packed_d,
         params_dsoftmax_sum := dsoftmax_sum_d\<rparr>))"

subsection \<open>The world of a call: memory, generator, dispatched kernels\<close>

text \<open>
  A call runs in a world: the device memory, the state of the random generator in use
  (the caller's, or the default one), and the trace of what the call has done to the
  outside so far, in order. \<open>Launch kid configure params m\<close> is a call of the kernel
  entry \<open>kid\<close> with that \<open>configure\<close> flag, parameter struct and device memory;
  \<open>Philox n\<close> is the call \<open>gen->philox_cuda_state(n)\<close>.

  An exception leaves the world as it is then: the result of an entry point is the pair
  of what it returns, or the error, and the world at that moment.
\<close>

datatype kernel =
    Fmha_fwd_hdim32 | Fmha_fwd_hdim64 | Fmha_fwd_hdim128
  | Fmha_bwd_hdim32 | Fmha_bwd_hdim64 | Fmha_bwd_hdim128
  | Fmha_block_fp16_sm80 | Fmha_block_dgrad_fp16_sm80

datatype event = Launch kernel bool params mem | Philox int

record world =
  mem :: mem
  gen_seed :: int
  gen_offset :: int
  trace :: "event list"

record launch_params =
  launch_params_params :: params
  launch_params_is_dropout :: bool
  launch_params_return_softmax :: bool
  launch_params_elts_per_thread :: int

text \<open>
  \<open>Launch_params\<close> is declared in \<open>fmha.h\<close>; \<open>fmha_api.cpp\<close> constructs it from the device
  properties, the stream and the two flags, and reads \<open>elts_per_thread\<close> only after the plan
  call of \<open>mha_fwd_block\<close>. The field starts at 0 here.

  The kernel entries (\<open>run_fmha_fwd_hdim32\<close> and the others) are defined outside
  \<open>fmha_api.cpp\<close>. A call runs against an arbitrary environment of them: what an execute
  call writes (\<open>fwd_run\<close>, \<open>bwd_run\<close>), the split count that the plan call of a backward
  kernel settles on, and the \<open>elts_per_thread\<close> that the plan call of the block-sparse
  forward kernel settles on.
\<close>

record kernels =
  fwd_run :: "kernel \<Rightarrow> launch_params \<Rightarrow> mem \<Rightarrow> mem"
  bwd_run :: "kernel \<Rightarrow> params \<Rightarrow> mem \<Rightarrow> mem"
  configure_num_splits :: "kernel \<Rightarrow> params \<Rightarrow> int"
  configure_elts_per_thread :: "launch_params \<Rightarrow> int"

text \<open>Modelled from the spec: the reach of a tile kernel, which is outside the sources at
  hand. A plan (\<open>configure\<close>) call determines resource requirements without performing
  arithmetic: it leaves device memory alone and changes the planned field of the
  parameters only. An execute call works from the plan and leaves the parameters as they
  are; of a forward kernel it may write the output, the LogSumExp, the probability matrix
  and the temporary accumulator (\<open>fwd_outputs\<close>); of a backward kernel it may write the
  three gradients, \<open>dSoftmaxSum\<close> and the temporary accumulator (\<open>bwd_outputs\<close>), the
  LogSumExp being consumed read-only. A kernel reaches device memory through the pointers
  of its parameter struct only (\<open>pointed\<close>): it is run on the part of memory that those
  pointers make \<open>visible\<close>. The LogSumExp of a kernel is one float per batch entry, head
  and padded query position: through \<open>softmax_lse_ptr\<close> it reaches the first
  \<open>b * h * seqlen_q\<close> elements and no more.\<close>

primrec targets :: "buf option list \<Rightarrow> buf list" where
  "targets [] = []"
| "targets (x # xs) = (case x of None \<Rightarrow> targets xs | Some b \<Rightarrow> b # targets xs)"

definition fwd_outputs :: "params \<Rightarrow> buf list" where
  "fwd_outputs p =
     targets [params_o_ptr p, params_softmax_lse_ptr p, params_s_ptr p, params_o_tmp_ptr p]"

definition bwd_outputs :: "params \<Rightarrow> buf list" where
  "bwd_outputs p =
     targets [params_dq_ptr p, params_dk_ptr p, params_dv_ptr p, params_dsoftmax_sum p,
              params_o_tmp_ptr p]"

definition pointed :: "params \<Rightarrow> buf list" where
  "pointed p =
     targets [params_q_ptr p, params_k_ptr p, params_v_ptr p, params_o_ptr p,
              params_o_tmp_ptr p, params_cu_seqlens_q p, params_cu_seqlens_k p,
              params_s_ptr p, params_softmax_lse_ptr p, params_blockmask p,
              params_dq_ptr p, params_dk_ptr p, params_dv_ptr p, params_do_ptr p,
              params_dsoftmax_sum p]"

definition visible :: "params \<Rightarrow> mem \<Rightarrow> mem" where
  "visible p m =
     (\<lambda>b. if b \<in> set (pointed p)
          then (if params_softmax_lse_ptr p = Some b
                then take (nat (params_b p * params_h p * params_seqlen_q p)) (m b)
                else m b)
          else [])"

definition device_write :: "buf list \<Rightarrow> mem \<Rightarrow> mem \<Rightarrow> mem" where
  "device_write bs m m' = (\<lambda>b. if b \<in> set bs then m' b else m b)"

definition launch_fwd :: "kernels \<Rightarrow> kernel \<Rightarrow> launch_params \<Rightarrow> world \<Rightarrow> world" where
  "launch_fwd K kid lp w =
     w\<lparr>mem := device_write (fwd_outputs (launch_params_params lp)) (mem w)
                (fwd_run K kid lp (visible (launch_params_params lp) (mem w))),
       trace := trace w @ [Launch kid False (launch_params_params lp) (mem w)]\<rparr>"

definition launch_bwd ::
  "kernels \<Rightarrow> kernel \<Rightarrow> params \<Rightarrow> bool \<Rightarrow> world \<Rightarrow> params \<times> world" where
  "launch_bwd K kid p configure w =
     (if configure
      then (p\<lparr>params_num_splits := configure_num_splits K kid p\<rparr>,
            w\<lparr>trace := trace w @ [Launch kid True p (mem w)]\<rparr>)
      else (p, w\<lparr>mem := device_write (bwd_outputs p) (mem w)
                          (bwd_run K kid p (visible p (mem w))),
                 trace := trace w @ [Launch kid False p (mem w)]\<rparr>))"

text \<open>\<open>run_fmha_fwd\<close>, lines 179 to 187, and \<open>run_fmha_bwd\<close>, lines 327 to 335: the
  dispatch on the head dimension. Above 128 no kernel is called.\<close>

definition run_fmha_fwd :: "kernels \<Rightarrow> launch_params \<Rightarrow> world \<Rightarrow> world" where
  "run_fmha_fwd K lp w =
     (if params_d (launch_params_params lp) \<le> 32 then launch_fwd K Fmha_fwd_hdim32 lp w
      else if params_d (launch_params_params lp) \<le> 64 then launch_fwd K Fmha_fwd_hdim64 lp w
      else if params_d (launch_params_params lp) \<le> 128 then launch_fwd K Fmha_fwd_hdim128 lp w
      else w)"

definition run_fmha_bwd :: "kernels \<Rightarrow> params \<Rightarrow> bool \<Rightarrow> world \<Rightarrow> params \<times> world" where
  "run_fmha_bwd K p configure w =
     (if params_d p \<le> 32 then launch_bwd K Fmha_bwd_hdim32 p configure w
      else if params_d p \<le> 64 then launch_bwd K Fmha_bwd_hdim64 p configure w
      else if params_d p \<le> 128 then launch_bwd K Fmha_bwd_hdim128 p configure w
      else (p, w))"

text \<open>The block-sparse entries \<open>run_fmha_block_fp16_sm80\<close> (with its \<open>configure\<close> flag) and
  \<open>run_fmha_block_dgrad_fp16_sm80\<close>.\<close>

definition run_fmha_block_fp16_sm80 ::
  "kernels \<Rightarrow> launch_params \<Rightarrow> bool \<Rightarrow> world \<Rightarrow> launch_params \<times> world" where
  "run_fmha_block_fp16_sm80 K lp configure w =
     (if configure
      then (lp\<lparr>launch_params_elts_per_thread := configure_elts_per_thread K lp\<rparr>,
            w\<lparr>trace := trace w @ [Launch Fmha_block_fp16_sm80 True (launch_params_params lp)
                                   (mem w)]\<rparr>)
      else (lp, launch_fwd K Fmha_block_fp16_sm80 lp w))"

definition run_fmha_block_dgrad_fp16_sm80 :: "kernels \<Rightarrow> params \<Rightarrow> world \<Rightarrow> world" where
  "run_fmha_block_dgrad_fp16_sm80 K p w =
     snd (launch_bwd K Fmha_block_dgrad_fp16_sm80 p False w)"

text \<open>The operations of the tensor library that touch the world. \<open>philox_cuda_state\<close>
  hands out the current seed and offset of the generator and advances the offset by the
  increment, rounded up to a multiple of four.\<close>

definition torch_empty :: "buf \<Rightarrow> int list \<Rightarrow> world \<Rightarrow> world" where
  "torch_empty b ns w = w\<lparr>mem := (mem w)(b := replicate (nat (prod_list ns)) Uninit)\<rparr>"

definition torch_zeros :: "buf \<Rightarrow> int list \<Rightarrow> world \<Rightarrow> world" where
  "torch_zeros b ns w = w\<lparr>mem := (mem w)(b := replicate (nat (prod_list ns)) (Num 0))\<rparr>"

definition fill' :: "buf \<Rightarrow> scalar \<Rightarrow> world \<Rightarrow> world" where
  "fill' b x w = w\<lparr>mem := (mem w)(b := map (\<lambda>y. x) (mem w b))\<rparr>"

definition zero' :: "buf \<Rightarrow> world \<Rightarrow> world" where
  "zero' b w = fill' b (Num 0) w"

definition copy' :: "buf \<Rightarrow> buf \<Rightarrow> world \<Rightarrow> world" where
  "copy' dst src w = w\<lparr>mem := (mem w)(dst := mem w src)\<rparr>"

definition philox_cuda_state :: "int \<Rightarrow> world \<Rightarrow> (int \<times> int) \<times> world" where
  "philox_cuda_state increment w =
     ((gen_seed w, gen_offset w),
      w\<lparr>gen_offset := gen_offset w + ((increment + 3) div 4) * 4,
        trace := trace w @ [Philox increment]\<rparr>)"

text \<open>The reservation of a segment of the random stream, written alike in the four
  entry points (lines 314 to 318, 492 to 496, 620 to 624 and 769 to 773): with dropout,
  under the lock of the generator, \<open>params.philox_args = gen->philox_cuda_state(counter_offset)\<close>;
  without dropout the generator is not called.\<close>

definition reserve_philox :: "bool \<Rightarrow> int \<Rightarrow> params \<Rightarrow> world \<Rightarrow> params \<times> world" where
  "reserve_philox is_dropout counter_offset params w =
     (if is_dropout
      then (let (philox_args, w') = philox_cuda_state counter_offset w
            in (params\<lparr>params_philox_args := philox_args\<rparr>, w'))
      else (params, w))"

subsection \<open>Precondition checks\<close>

text \<open>\<open>TORCH_CHECK\<close> raises when its condition is false; the error carries the line of
  the check. A list of checks is run in order and stops at the first that raises.\<close>

definition check :: "nat \<Rightarrow> bool \<Rightarrow> error option" where
  "check line c = (if c then None else Some (TorchCheck line))"

fun first_error :: "error option list \<Rightarrow> error option" where
  "first_error [] = None"
| "first_error (None # cs) = first_error cs"
| "first_error (Some e # cs) = Some e"

definition stride_is :: "nat \<Rightarrow> tensor \<Rightarrow> int \<Rightarrow> int \<Rightarrow> error option" where
  "stride_is line t i x =
     (case stride t i of None \<Rightarrow> Some (LibraryError line) | Some st \<Rightarrow> check line (st = x))"

definition size_ok :: "nat \<Rightarrow> tensor \<Rightarrow> int \<Rightarrow> error option" where
  "size_ok line t i = (case tsize t i of None \<Rightarrow> Some (LibraryError line) | Some n \<Rightarrow> None)"

definition CHECK_SHAPE :: "nat \<Rightarrow> tensor \<Rightarrow> int list \<Rightarrow> error option" where
  "CHECK_SHAPE line x ns = check line (sizes x = ns)"

text \<open>An allocation raises when a requested size is negative.\<close>

definition alloc_ok :: "nat \<Rightarrow> int list \<Rightarrow> error option" where
  "alloc_ok line ns = (if list_all (\<lambda>n. 0 \<le> n) ns then None else Some (LibraryError line))"

subsection \<open>Forward pass: \<open>mha_fwd\<close>, lines 189 to 325\<close>

text \<open>The checks of lines 206 to 253, in the order of the source. \<open>k.size(TOTAL_DIM)\<close> of
  line 244 raises on a tensor without dimensions.\<close>

definition mha_fwd_validate ::
  "dprops \<Rightarrow> tensor \<Rightarrow> tensor \<Rightarrow> tensor \<Rightarrow> tensor \<Rightarrow> tensor \<Rightarrow> tensor \<Rightarrow> error option" where
  "mha_fwd_validate dprops q k v out cu_seqlens_q cu_seqlens_k =
   (let is_sm75 = (dprops_major dprops = 7 \<and> dprops_minor dprops = 5);
        is_sm8x = (dprops_major dprops = 8 \<and> dprops_minor dprops \<ge> 0);
        is_sm90 = (dprops_major dprops = 9 \<and> dprops_minor dprops = 0);
        q_dtype = dtype q;
        batch_size = int32 (numel cu_seqlens_q - 1);
        total_q = int32 (sizes_at q TOTAL_DIM);
        num_heads = int32 (sizes_at q H_DIM);
        head_size = int32 (sizes_at q D_DIM);
        total_k = int32 (or0 (tsize k (int TOTAL_DIM)))
    in first_error
      [check 211 (is_sm90 \<or> is_sm8x \<or> is_sm75),
       check 217 (q_dtype = kFloat16 \<or> ((is_sm8x \<or> is_sm90) \<and> q_dtype = kBFloat16)),
       check 218 (dtype k = q_dtype),
       check 219 (dtype v = q_dtype),
       check 220 (dtype out = q_dtype),
       check 221 (dtype cu_seqlens_q = kInt32),
       check 222 (dtype cu_seqlens_k = kInt32),
       check 224 (is_cuda q),
       check 225 (is_cuda k),
       check 226 (is_cuda v),
       check 227 (is_cuda out),
       check 228 (is_cuda cu_seqlens_q),
       check 229 (is_cuda cu_seqlens_k),
       stride_is 231 q (- 1) 1,
       stride_is 232 k (- 1) 1,
       stride_is 233 v (- 1) 1,
       stride_is 234 out (- 1) 1,
       check 235 (is_contiguous cu_seqlens_q),
       check 236 (is_contiguous cu_seqlens_k),
       size_ok 244 k (int TOTAL_DIM),
       check 245 (batch_size > 0),
       check 246 (head_size smod 8 = 0 \<and> head_size \<le> 128),
       CHECK_SHAPE 248 q [total_q, num_heads, head_size],
       CHECK_SHAPE 249 k [total_k, num_heads, head_size],
       CHECK_SHAPE 250 v [total_k, num_heads, head_size],
       CHECK_SHAPE 251 out [total_q, num_heads, head_size],
       CHECK_SHAPE 252 cu_seqlens_q [int32 (batch_size + 1)],
       CHECK_SHAPE 253 cu_seqlens_k [int32 (batch_size + 1)]])"

text \<open>
  The body after the checks, in three parts. \<open>mha_fwd_alloc\<close>: the temporaries \<open>o_tmp\<close>,
  \<open>softmax_lse\<close> and \<open>s\<close> are allocated (lines 274 to 281; the sizes of \<open>o_tmp\<close> are those of
  \<open>q\<close>, so only the two allocations that involve a padded length can raise, which
  \<open>mha_fwd\<close> tests beforehand) and the buffers are pre-filled on request (lines 283 to
  287). Then the parameter struct is set (line 292). \<open>mha_fwd_launch\<close>: the counter offset
  is computed and, with dropout, reserved (lines 312 to 318), and the kernel is dispatched
  (line 320). The call returns the handles of \<open>softmax_lse\<close> and, on request, of \<open>s\<close>.
\<close>

definition mha_fwd_alloc ::
  "bool \<Rightarrow> bool \<Rightarrow> bool \<Rightarrow> int \<Rightarrow> int \<Rightarrow> int \<Rightarrow> int \<Rightarrow> int \<Rightarrow> int \<Rightarrow> world \<Rightarrow> world" where
  "mha_fwd_alloc loop return_softmax zero_tensors batch_size total_q num_heads head_size
     max_seqlen_q max_seqlen_k w =
   (let w1 = (if loop then torch_empty B_o_tmp [total_q, num_heads, head_size] w else w);
        w2 = torch_empty B_softmax_lse [batch_size, num_heads, max_seqlen_q] w1;
        w3 = (if return_softmax
              then torch_empty B_s [batch_size, num_heads, max_seqlen_q, max_seqlen_k] w2
              else w2)
    in if zero_tensors
       then (let wa = zero' B_out w3; wb = fill' B_softmax_lse NegInf wa
             in if return_softmax then zero' B_s wb else wb)
       else w3)"

definition mha_fwd_launch :: "kernels \<Rightarrow> bool \<Rightarrow> bool \<Rightarrow> params \<Rightarrow> world \<Rightarrow> world" where
  "mha_fwd_launch K is_dropout return_softmax params w =
   (let counter_offset = int32 (int32 (params_b params * params_h params) * 32);
        (params, w5) = reserve_philox is_dropout counter_offset params w;
        launch_params =
          \<lparr>launch_params_params = params, launch_params_is_dropout = is_dropout,
           launch_params_return_softmax = return_softmax, launch_params_elts_per_thread = 0\<rparr>
    in run_fmha_fwd K launch_params w5)"

definition mha_fwd ::
  "kernels \<Rightarrow> dprops \<Rightarrow> tensor \<Rightarrow> tensor \<Rightarrow> tensor \<Rightarrow> tensor \<Rightarrow> tensor \<Rightarrow> tensor
   \<Rightarrow> int \<Rightarrow> int \<Rightarrow> real \<Rightarrow> real \<Rightarrow> bool \<Rightarrow> bool \<Rightarrow> bool \<Rightarrow> int
   \<Rightarrow> world \<Rightarrow> (error + (buf \<times> tensor) list) \<times> world" where
  "mha_fwd K dprops q k v out cu_seqlens_q cu_seqlens_k max_seqlen_q' max_seqlen_k'
     p_dropout softmax_scale zero_tensors is_causal return_softmax num_splits w =
   (case mha_fwd_validate dprops q k v out cu_seqlens_q cu_seqlens_k of
      Some e \<Rightarrow> (Inl e, w)
    | None \<Rightarrow>
   (let is_dropout = (p_dropout > 0);
        batch_size = int32 (numel cu_seqlens_q - 1);
        total_q = int32 (sizes_at q TOTAL_DIM);
        num_heads = int32 (sizes_at q H_DIM);
        head_size = int32 (sizes_at q D_DIM);
        blocksize_c = blocksize_c_fwd head_size;
        max_seqlen_k = max_seqlen_k_of blocksize_c max_seqlen_k';
        max_seqlen_q = max_seqlen_q_of max_seqlen_q';
        loop = loop_of blocksize_c max_seqlen_k
    in case first_error
         [alloc_ok 277 [batch_size, num_heads, max_seqlen_q],
          if return_softmax
          then alloc_ok 281 [batch_size, num_heads, max_seqlen_q, max_seqlen_k] else None] of
      Some e \<Rightarrow> (Inl e, w)
    | None \<Rightarrow>
   (let softmax_lse = new_tensor kFloat [batch_size, num_heads, max_seqlen_q];
        s = new_tensor (dtype q) [batch_size, num_heads, max_seqlen_q, max_seqlen_k];
        w4 = mha_fwd_alloc loop return_softmax zero_tensors batch_size total_q num_heads
               head_size max_seqlen_q max_seqlen_k w
    in case set_params_fprop batch_size max_seqlen_q max_seqlen_k num_heads head_size
              q k v out B_out (Some B_cu_seqlens_q) (Some B_cu_seqlens_k)
              (if loop then Some B_o_tmp else None)
              (if return_softmax then Some B_s else None)
              (Some B_softmax_lse) p_dropout softmax_scale is_causal num_splits of
      Inl e \<Rightarrow> (Inl e, w4)
    | Inr params \<Rightarrow>
        (Inr ((B_softmax_lse, softmax_lse) # (if return_softmax then [(B_s, s)] else [])),
         mha_fwd_launch K is_dropout return_softmax params w4))))"

subsection \<open>Backward pass: \<open>mha_bwd\<close>, lines 337 to 505\<close>

text \<open>
  Line 440 indexes \<open>softmax_lse_\<close> with two full slices and the slice \<open>[:max_seqlen_q]\<close>
  of the third dimension, and makes the result contiguous. The index raises on a tensor
  of fewer than three dimensions. Otherwise it yields a view: the storage and the strides
  of the tensor, with the third size cut. A slice with a stop \<open>n\<close> keeps the first \<open>n\<close>
  positions, all of them when there are fewer; a negative stop counts from the end.

  \<open>contiguous()\<close> hands back the view itself when the view is contiguous, and then
  \<open>softmax_lse.data_ptr()\<close> points into the storage of the caller's tensor; otherwise it
  hands back a dense copy, in a buffer of its own (\<open>B_softmax_lse\<close>).

  The source does not check the layout of \<open>softmax_lse_\<close>. The buffer \<open>B_softmax_lse_arg\<close>
  therefore holds the storage of the caller's tensor from its data pointer on, and an
  element is found there through the strides (\<open>offsets\<close> lists the places of the elements
  in row-major order of their indices). The tensor library makes no tensor that reaches
  past its storage; \<open>storage_at\<close> reads \<open>Uninit\<close> there.
\<close>

definition slice_len :: "int \<Rightarrow> int \<Rightarrow> int" where
  "slice_len len stop = (if stop < 0 then max 0 (len + stop) else min len stop)"

definition index_ok :: "nat \<Rightarrow> tensor \<Rightarrow> error option" where
  "index_ok line t = (if 3 \<le> length (dims t) then None else Some (LibraryError line))"

definition index_slice_dim2 :: "tensor \<Rightarrow> int \<Rightarrow> tensor" where
  "index_slice_dim2 t stop =
     t\<lparr>dims := (dims t)[2 := (nat (slice_len (sizes_at t 2) stop), snd (dims t ! 2))]\<rparr>"

definition storage_at :: "scalar list \<Rightarrow> int \<Rightarrow> scalar" where
  "storage_at xs i = (if 0 \<le> i \<and> i < int (length xs) then xs ! nat i else Uninit)"

fun offsets :: "(nat \<times> int) list \<Rightarrow> int list" where
  "offsets [] = [0]"
| "offsets ((n, st) # r) =
     concat (map (\<lambda>i. map (\<lambda>x. int i * st + x) (offsets r)) [0..<n])"

definition elements :: "tensor \<Rightarrow> scalar list \<Rightarrow> scalar list" where
  "elements t xs = map (storage_at xs) (offsets (dims t))"

text \<open>\<open>t.contiguous()\<close> for a tensor \<open>t\<close> on the buffer \<open>src\<close>: the buffer on which the result
  lies, and what the call does to memory.\<close>

definition contiguous_buf :: "tensor \<Rightarrow> buf \<Rightarrow> buf \<Rightarrow> buf" where
  "contiguous_buf t src fresh = (if is_contiguous t then src else fresh)"

definition contiguous :: "tensor \<Rightarrow> buf \<Rightarrow> buf \<Rightarrow> world \<Rightarrow> world" where
  "contiguous t src fresh w =
     (if is_contiguous t then w
      else w\<lparr>mem := (mem w)(fresh := elements t (mem w src))\<rparr>)"

text \<open>\<open>softmax_lse.data_ptr()\<close> for the \<open>softmax_lse\<close> of line 440 (and of line 730).\<close>

definition softmax_lse_data_ptr :: "tensor \<Rightarrow> int \<Rightarrow> buf" where
  "softmax_lse_data_ptr softmax_lse' max_seqlen_q =
     contiguous_buf (index_slice_dim2 softmax_lse' max_seqlen_q) B_softmax_lse_arg B_softmax_lse"

definition mha_bwd_validate ::
  "dprops \<Rightarrow> tensor \<Rightarrow> tensor \<Rightarrow> tensor \<Rightarrow> tensor \<Rightarrow> tensor \<Rightarrow> tensor \<Rightarrow> tensor \<Rightarrow> tensor
   \<Rightarrow> tensor \<Rightarrow> tensor \<Rightarrow> tensor \<Rightarrow> error option" where
  "mha_bwd_validate dprops dout q k v out softmax_lse' dq dk dv cu_seqlens_q cu_seqlens_k =
   (let is_sm75 = (dprops_major dprops = 7 \<and> dprops_minor dprops = 5);
        is_sm80 = (dprops_major dprops = 8 \<and> dprops_minor dprops = 0);
        is_sm8x = (dprops_major dprops = 8 \<and> dprops_minor dprops \<ge> 0);
        is_sm90 = (dprops_major dprops = 9 \<and> dprops_minor dprops = 0);
        q_dtype = dtype q;
        batch_size = int32 (numel cu_seqlens_q - 1);
        total_q = int32 (sizes_at q TOTAL_DIM);
        num_heads = int32 (sizes_at q H_DIM);
        head_size = int32 (sizes_at q D_DIM);
        total_k = int32 (or0 (tsize k (int TOTAL_DIM)))
    in first_error
      [check 363 (is_sm90 \<or> is_sm8x \<or> is_sm75),
       check 370 (q_dtype = kFloat16 \<or> ((is_sm8x \<or> is_sm90) \<and> q_dtype = kBFloat16)),
       check 371 (dtype k = q_dtype),
       check 372 (dtype v = q_dtype),
       check 373 (dtype out = q_dtype),
       check 374 (dtype dout = q_dtype),
       check 375 (dtype dq = q_dtype),
       check 376 (dtype dk = q_dtype),
       check 377 (dtype dv = q_dtype),
       check 378 (dtype cu_seqlens_q = kInt32),
       check 379 (dtype cu_seqlens_k = kInt32),
       check 381 (is_cuda q),
       check 382 (is_cuda k),
       check 383 (is_cuda v),
       check 384 (is_cuda out),
       check 385 (is_cuda dout),
       check 386 (is_cuda softmax_lse'),
       check 387 (is_cuda cu_seqlens_q),
       check 388 (is_cuda cu_seqlens_k),
       stride_is 390 q (- 1) 1,
       stride_is 391 k (- 1) 1,
       stride_is 392 v (- 1) 1,
       check 393 (is_contiguous out),
       check 394 (is_contiguous dout),
       stride_is 395 dq (- 1) 1,
       stride_is 396 dk (- 1) 1,
       stride_is 397 dv (- 1) 1,
       check 398 (is_contiguous cu_seqlens_q),
       check 399 (is_contiguous cu_seqlens_k),
       size_ok 407 k (int TOTAL_DIM),
       check 408 (batch_size > 0),
       check 409 (head_size smod 8 = 0 \<and> head_size \<le> 128),
       if head_size > 64 then check 411 (is_sm80 \<or> is_sm90) else None,
       CHECK_SHAPE 414 q [total_q, num_heads, head_size],
       CHECK_SHAPE 415 k [total_k, num_heads, head_size],
       CHECK_SHAPE 416 v [total_k, num_heads, head_size],
       CHECK_SHAPE 417 out [total_q, num_heads, head_size],
       CHECK_SHAPE 418 dout [total_q, num_heads, head_size],
       CHECK_SHAPE 419 dq [total_q, num_heads, head_size],
       CHECK_SHAPE 420 dk [total_k, num_heads, head_size],
       CHECK_SHAPE 421 dv [total_k, num_heads, head_size],
       CHECK_SHAPE 422 cu_seqlens_q [int32 (batch_size + 1)],
       CHECK_SHAPE 423 cu_seqlens_k [int32 (batch_size + 1)]])"

text \<open>
  The body after the checks, in three parts. \<open>mha_bwd_alloc\<close>: the slice of the LogSumExp
  (line 440), the allocations of \<open>softmax_d\<close> and, when looping, of \<open>dq_tmp\<close> (lines 443 to
  445; \<open>mha_bwd\<close> tests beforehand whether the index or the first allocation raises), the
  pre-fill on request (lines 447 to 452). Then the parameter struct (line 456).
  \<open>mha_bwd_launch\<close>: the plan call (line 475), the zero-filled \<open>dq_tmp\<close> when the split
  count exceeds one (lines 477 to 484), the counter offset and its reservation (lines 490
  to 496), the execute call (line 498) and the copy of \<open>dq_tmp\<close> into \<open>dq\<close> (lines 500 to
  502). The tensor \<open>dq_tmp\<close> is defined at line 478
  exactly when the call loops.
\<close>

definition mha_bwd_alloc ::
  "tensor \<Rightarrow> bool \<Rightarrow> bool \<Rightarrow> int \<Rightarrow> int \<Rightarrow> int \<Rightarrow> int \<Rightarrow> int \<Rightarrow> world \<Rightarrow> world" where
  "mha_bwd_alloc softmax_lse' loop zero_tensors batch_size total_q num_heads head_size
     max_seqlen_q w =
   (let softmax_lse = index_slice_dim2 softmax_lse' max_seqlen_q;
        w1 = contiguous softmax_lse B_softmax_lse_arg B_softmax_lse w;
        w2 = torch_empty B_softmax_d [batch_size, num_heads, max_seqlen_q] w1;
        w3 = (if loop then torch_empty B_dq_tmp [total_q, num_heads, head_size] w2 else w2)
    in if zero_tensors
       then zero' B_softmax_d (zero' B_dv (zero' B_dk (zero' B_dq w3)))
       else w3)"

definition mha_bwd_launch ::
  "kernels \<Rightarrow> bool \<Rightarrow> bool \<Rightarrow> int \<Rightarrow> int \<Rightarrow> int \<Rightarrow> params \<Rightarrow> world \<Rightarrow> world" where
  "mha_bwd_launch K is_dropout loop total_q num_heads head_size params w =
   (let (params, w5) = run_fmha_bwd K params True w;
        (params, w6) =
          (if params_num_splits params > 1
           then (if \<not> loop
                 then (params\<lparr>params_o_tmp_ptr := Some B_dq_tmp\<rparr>,
                       torch_zeros B_dq_tmp [total_q, num_heads, head_size] w5)
                 else (params, zero' B_dq_tmp w5))
           else (params, w5));
        counter_offset = int32 (int32 (params_b params * params_h params) * 32);
        (params, w7) = reserve_philox is_dropout counter_offset params w6;
        (params, w8) = run_fmha_bwd K params False w7
    in if params_num_splits params > 1 then copy' B_dq B_dq_tmp w8 else w8)"

definition mha_bwd ::
  "kernels \<Rightarrow> dprops \<Rightarrow> tensor \<Rightarrow> tensor \<Rightarrow> tensor \<Rightarrow> tensor \<Rightarrow> tensor \<Rightarrow> tensor
   \<Rightarrow> tensor \<Rightarrow> tensor \<Rightarrow> tensor \<Rightarrow> tensor \<Rightarrow> tensor
   \<Rightarrow> int \<Rightarrow> int \<Rightarrow> real \<Rightarrow> real \<Rightarrow> bool \<Rightarrow> bool \<Rightarrow> int
   \<Rightarrow> world \<Rightarrow> (error + (buf \<times> tensor) list) \<times> world" where
  "mha_bwd K dprops dout q k v out softmax_lse' dq dk dv cu_seqlens_q cu_seqlens_k
     max_seqlen_q' max_seqlen_k' p_dropout softmax_scale zero_tensors is_causal num_splits w =
   (case mha_bwd_validate dprops dout q k v out softmax_lse' dq dk dv cu_seqlens_q
           cu_seqlens_k of
      Some e \<Rightarrow> (Inl e, w)
    | None \<Rightarrow>
   (let is_sm75 = (dprops_major dprops = 7 \<and> dprops_minor dprops = 5);
        is_dropout = (p_dropout > 0);
        batch_size = int32 (numel cu_seqlens_q - 1);
        total_q = int32 (sizes_at q TOTAL_DIM);
        num_heads = int32 (sizes_at q H_DIM);
        head_size = int32 (sizes_at q D_DIM);
        blocksize_c = blocksize_c_bwd is_sm75 head_size;
        max_seqlen_k = max_seqlen_k_of blocksize_c max_seqlen_k';
        max_seqlen_q = max_seqlen_q_of max_seqlen_q';
        loop = loop_of blocksize_c max_seqlen_k
    in case first_error
         [index_ok 440 softmax_lse',
          alloc_ok 443 [batch_size, num_heads, max_seqlen_q]] of
      Some e \<Rightarrow> (Inl e, w)
    | None \<Rightarrow>
   (let softmax_d = new_tensor kFloat [batch_size, num_heads, max_seqlen_q];
        w4 = mha_bwd_alloc softmax_lse' loop zero_tensors batch_size total_q num_heads
               head_size max_seqlen_q w
    in case set_params_dgrad batch_size max_seqlen_q max_seqlen_k num_heads head_size
              q k v out dq dk dv (Some B_cu_seqlens_q) (Some B_cu_seqlens_k)
              (if loop then Some B_dq_tmp else None) (Some B_dout)
              (Some (softmax_lse_data_ptr softmax_lse' max_seqlen_q)) (Some B_softmax_d)
              p_dropout softmax_scale is_causal num_splits of
      Inl e \<Rightarrow> (Inl e, w4)
    | Inr params \<Rightarrow>
        (Inr [(B_dq, dq), (B_dk, dk), (B_dv, dv), (B_softmax_d, softmax_d)],
         mha_bwd_launch K is_dropout loop total_q num_heads head_size params w4))))"

subsection \<open>Block-sparse forward pass: \<open>mha_fwd_block\<close>, lines 507 to 631\<close>

text \<open>The padded key length of the block-sparse entry points, lines 568 to 571 and 721 to
  724: the tile size is 256, and the comparison is on the rounded length.\<close>

definition max_seqlen_k_block :: "int \<Rightarrow> int" where
  "max_seqlen_k_block max_seqlen_k' =
     (let max_seqlen_k = round_multiple max_seqlen_k' 256
      in if max_seqlen_k \<le> 256 then 256 else max_seqlen_k)"

text \<open>Lines 548 and 549 both check \<open>cu_seqlens_k\<close>. The local tensor \<open>o\<close> of the source
  is \<open>o_new\<close> below, its buffer \<open>B_o\<close>.\<close>

definition mha_fwd_block_validate ::
  "dprops \<Rightarrow> tensor \<Rightarrow> tensor \<Rightarrow> tensor \<Rightarrow> tensor \<Rightarrow> tensor \<Rightarrow> tensor \<Rightarrow> int \<Rightarrow> int
   \<Rightarrow> error option" where
  "mha_fwd_block_validate dprops q k v cu_seqlens_q cu_seqlens_k blockmask max_seqlen_q'
     max_seqlen_k' =
   (let is_sm8x = (dprops_major dprops = 8 \<and> dprops_minor dprops \<ge> 0);
        is_sm90 = (dprops_major dprops = 9 \<and> dprops_minor dprops = 0);
        batch_size = int32 (numel cu_seqlens_q - 1);
        total_q = int32 (sizes_at q TOTAL_DIM);
        num_heads = int32 (sizes_at q H_DIM);
        head_size = int32 (sizes_at q D_DIM);
        total_k = int32 (or0 (tsize k (int TOTAL_DIM)));
        max_seqlen_k = max_seqlen_k_block max_seqlen_k';
        max_seqlen_q = max_seqlen_q_of max_seqlen_q'
    in first_error
      [check 526 (is_sm8x \<or> is_sm90),
       check 531 (dtype q = kFloat16),
       check 532 (dtype k = kFloat16),
       check 533 (dtype v = kFloat16),
       check 534 (dtype cu_seqlens_q = kInt32),
       check 535 (dtype cu_seqlens_k = kInt32),
       check 536 (dtype blockmask = kInt32),
       check 538 (is_cuda q),
       check 539 (is_cuda k),
       check 540 (is_cuda v),
       check 541 (is_cuda cu_seqlens_q),
       check 542 (is_cuda cu_seqlens_k),
       check 543 (is_cuda blockmask),
       stride_is 545 q (- 1) 1,
       stride_is 546 k (- 1) 1,
       stride_is 547 v (- 1) 1,
       check 548 (is_contiguous cu_seqlens_k),
       check 549 (is_contiguous cu_seqlens_k),
       check 550 (is_contiguous blockmask),
       size_ok 558 k (int TOTAL_DIM),
       check 559 (batch_size > 0),
       check 560 (head_size = 16 \<or> head_size = 32 \<or> head_size = 64 \<or> head_size = 128),
       CHECK_SHAPE 562 q [total_q, num_heads, head_size],
       CHECK_SHAPE 563 k [total_k, num_heads, head_size],
       CHECK_SHAPE 564 v [total_k, num_heads, head_size],
       CHECK_SHAPE 565 cu_seqlens_q [int32 (batch_size + 1)],
       CHECK_SHAPE 566 cu_seqlens_k [int32 (batch_size + 1)],
       CHECK_SHAPE 574 blockmask [max_seqlen_k sdiv 256, max_seqlen_q sdiv 16]])"

definition mha_fwd_block_alloc ::
  "bool \<Rightarrow> bool \<Rightarrow> int \<Rightarrow> int \<Rightarrow> int \<Rightarrow> int \<Rightarrow> int \<Rightarrow> int \<Rightarrow> world \<Rightarrow> world" where
  "mha_fwd_block_alloc loop return_softmax batch_size total_q num_heads head_size
     max_seqlen_q max_seqlen_k w =
   (let w1 = torch_zeros B_o [total_q, num_heads, head_size] w;
        w2 = (if loop then torch_empty B_o_tmp [total_q, num_heads, head_size] w1 else w1);
        w3 = torch_empty B_softmax_lse [batch_size, num_heads, max_seqlen_q] w2
    in if return_softmax
       then torch_zeros B_s [batch_size, num_heads, max_seqlen_q, max_seqlen_k] w3
       else w3)"

definition mha_fwd_block_launch ::
  "kernels \<Rightarrow> bool \<Rightarrow> bool \<Rightarrow> params \<Rightarrow> world \<Rightarrow> world" where
  "mha_fwd_block_launch K is_dropout return_softmax params w =
   (let launch_params =
          \<lparr>launch_params_params = params\<lparr>params_blockmask := Some B_blockmask\<rparr>,
           launch_params_is_dropout = is_dropout,
           launch_params_return_softmax = return_softmax, launch_params_elts_per_thread = 0\<rparr>;
        (launch_params, w5) = run_fmha_block_fp16_sm80 K launch_params True w;
        counter_offset = launch_params_elts_per_thread launch_params;
        (params, w6) =
          reserve_philox is_dropout counter_offset (launch_params_params launch_params) w5;
        launch_params = launch_params\<lparr>launch_params_params := params\<rparr>
    in snd (run_fmha_block_fp16_sm80 K launch_params False w6))"

definition mha_fwd_block ::
  "kernels \<Rightarrow> dprops \<Rightarrow> tensor \<Rightarrow> tensor \<Rightarrow> tensor \<Rightarrow> tensor \<Rightarrow> tensor \<Rightarrow> tensor
   \<Rightarrow> int \<Rightarrow> int \<Rightarrow> real \<Rightarrow> real \<Rightarrow> bool \<Rightarrow> bool
   \<Rightarrow> world \<Rightarrow> (error + (buf \<times> tensor) list) \<times> world" where
  "mha_fwd_block K dprops q k v cu_seqlens_q cu_seqlens_k blockmask max_seqlen_q'
     max_seqlen_k' p_dropout softmax_scale is_causal return_softmax w =
   (case mha_fwd_block_validate dprops q k v cu_seqlens_q cu_seqlens_k blockmask
           max_seqlen_q' max_seqlen_k' of
      Some e \<Rightarrow> (Inl e, w)
    | None \<Rightarrow>
   (let is_dropout = (p_dropout > 0);
        batch_size = int32 (numel cu_seqlens_q - 1);
        total_q = int32 (sizes_at q TOTAL_DIM);
        num_heads = int32 (sizes_at q H_DIM);
        head_size = int32 (sizes_at q D_DIM);
        max_seqlen_k = max_seqlen_k_block max_seqlen_k';
        max_seqlen_q = max_seqlen_q_of max_seqlen_q';
        loop = (max_seqlen_k > 256)
    in case first_error
         [alloc_ok 587 [batch_size, num_heads, max_seqlen_q],
          if return_softmax
          then alloc_ok 591 [batch_size, num_heads, max_seqlen_q, max_seqlen_k] else None] of
      Some e \<Rightarrow> (Inl e, w)
    | None \<Rightarrow>
   (let opts = dtype q;
        o_new = new_tensor opts [total_q, num_heads, head_size];
        softmax_lse = new_tensor kFloat [batch_size, num_heads, max_seqlen_q];
        s = new_tensor opts [batch_size, num_heads, max_seqlen_q, max_seqlen_k];
        w4 = mha_fwd_block_alloc loop return_softmax batch_size total_q num_heads head_size
               max_seqlen_q max_seqlen_k w
    in case set_params_fprop batch_size max_seqlen_q max_seqlen_k num_heads head_size
              q k v o_new B_o (Some B_cu_seqlens_q) (Some B_cu_seqlens_k)
              (if loop then Some B_o_tmp else None)
              (if return_softmax then Some B_s else None)
              (Some B_softmax_lse) p_dropout softmax_scale is_causal 1 of
      Inl e \<Rightarrow> (Inl e, w4)
    | Inr params \<Rightarrow>
        (Inr ((B_o, o_new) # (B_softmax_lse, softmax_lse) #
              (if return_softmax then [(B_s, s)] else [])),
         mha_fwd_block_launch K is_dropout return_softmax params w4))))"

subsection \<open>Block-sparse backward pass: \<open>mha_bwd_block\<close>, lines 633 to 777\<close>

definition mha_bwd_block_validate ::
  "dprops \<Rightarrow> tensor \<Rightarrow> tensor \<Rightarrow> tensor \<Rightarrow> tensor \<Rightarrow> tensor \<Rightarrow> tensor \<Rightarrow> tensor \<Rightarrow> tensor
   \<Rightarrow> tensor \<Rightarrow> tensor \<Rightarrow> tensor \<Rightarrow> tensor \<Rightarrow> int \<Rightarrow> int \<Rightarrow> error option" where
  "mha_bwd_block_validate dprops dout q k v out softmax_lse' dq dk dv cu_seqlens_q
     cu_seqlens_k blockmask max_seqlen_q' max_seqlen_k' =
   (let is_sm80 = (dprops_major dprops = 8 \<and> dprops_minor dprops = 0);
        is_sm8x = (dprops_major dprops = 8 \<and> dprops_minor dprops \<ge> 0);
        is_sm90 = (dprops_major dprops = 9 \<and> dprops_minor dprops = 0);
        batch_size = int32 (numel cu_seqlens_q - 1);
        total_q = int32 (sizes_at q TOTAL_DIM);
        num_heads = int32 (sizes_at q H_DIM);
        head_size = int32 (sizes_at q D_DIM);
        total_k = int32 (or0 (tsize k (int TOTAL_DIM)));
        max_seqlen_k = max_seqlen_k_block max_seqlen_k';
        max_seqlen_q = max_seqlen_q_of max_seqlen_q'
    in first_error
      [check 657 (is_sm8x \<or> is_sm90),
       check 663 (dtype q = kFloat16),
       check 664 (dtype k = kFloat16),
       check 665 (dtype v = kFloat16),
       check 666 (dtype out = kFloat16),
       check 667 (dtype dout = kFloat16),
       check 668 (dtype dq = kFloat16),
       check 669 (dtype dk = kFloat16),
       check 670 (dtype dv = kFloat16),
       check 671 (dtype cu_seqlens_q = kInt32),
       check 672 (dtype cu_seqlens_k = kInt32),
       check 673 (dtype blockmask = kInt32),
       check 675 (is_cuda q),
       check 676 (is_cuda k),
       check 677 (is_cuda v),
       check 678 (is_cuda out),
       check 679 (is_cuda dout),
       check 680 (is_cuda softmax_lse'),
       check 681 (is_cuda cu_seqlens_q),
       check 682 (is_cuda cu_seqlens_k),
       check 683 (is_cuda blockmask),
       stride_is 685 q (- 1) 1,
       stride_is 686 k (- 1) 1,
       stride_is 687 v (- 1) 1,
       check 688 (is_contiguous out),
       check 689 (is_contiguous dout),
       stride_is 690 dq (- 1) 1,
       stride_is 691 dk (- 1) 1,
       stride_is 692 dv (- 1) 1,
       check 693 (is_contiguous cu_seqlens_q),
       check 694 (is_contiguous cu_seqlens_k),
       check 695 (is_contiguous blockmask),
       size_ok 703 k (int TOTAL_DIM),
       check 704 (batch_size > 0),
       check 705 (head_size = 16 \<or> head_size = 32 \<or> head_size = 64 \<or> head_size = 128),
       if head_size = 128 then check 707 (is_sm80 \<or> is_sm90) else None,
       CHECK_SHAPE 710 q [total_q, num_heads, head_size],
       CHECK_SHAPE 711 k [total_k, num_heads, head_size],
       CHECK_SHAPE 712 v [total_k, num_heads, head_size],
       CHECK_SHAPE 713 out [total_q, num_heads, head_size],
       CHECK_SHAPE 714 dout [total_q, num_heads, head_size],
       CHECK_SHAPE 715 dq [total_q, num_heads, head_size],
       CHECK_SHAPE 716 dk [total_k, num_heads, head_size],
       CHECK_SHAPE 717 dv [total_k, num_heads, head_size],
       CHECK_SHAPE 718 cu_seqlens_q [int32 (batch_size + 1)],
       CHECK_SHAPE 719 cu_seqlens_k [int32 (batch_size + 1)],
       CHECK_SHAPE 727 blockmask [max_seqlen_k sdiv 256, max_seqlen_q sdiv 16]])"

text \<open>Line 767 sets the counter offset to the constant 4, under the comment that the
  caller resets the generator afterwards. The body follows the parts of \<open>mha_bwd\<close>; there
  is no pre-fill and no plan call.\<close>

definition mha_bwd_block_alloc ::
  "tensor \<Rightarrow> bool \<Rightarrow> int \<Rightarrow> int \<Rightarrow> int \<Rightarrow> int \<Rightarrow> int \<Rightarrow> world \<Rightarrow> world" where
  "mha_bwd_block_alloc softmax_lse' loop batch_size total_q num_heads head_size
     max_seqlen_q w =
   (let softmax_lse = index_slice_dim2 softmax_lse' max_seqlen_q;
        w1 = contiguous softmax_lse B_softmax_lse_arg B_softmax_lse w;
        w2 = torch_empty B_softmax_d [batch_size, num_heads, max_seqlen_q] w1
    in if loop then torch_empty B_dq_tmp [total_q, num_heads, head_size] w2 else w2)"

definition mha_bwd_block_launch :: "kernels \<Rightarrow> bool \<Rightarrow> params \<Rightarrow> world \<Rightarrow> world" where
  "mha_bwd_block_launch K is_dropout params w =
   (let params = params\<lparr>params_blockmask := Some B_blockmask\<rparr>;
        counter_offset = 4;
        (params, w4) = reserve_philox is_dropout counter_offset params w
    in run_fmha_block_dgrad_fp16_sm80 K params w4)"

definition mha_bwd_block ::
  "kernels \<Rightarrow> dprops \<Rightarrow> tensor \<Rightarrow> tensor \<Rightarrow> tensor \<Rightarrow> tensor \<Rightarrow> tensor \<Rightarrow> tensor
   \<Rightarrow> tensor \<Rightarrow> tensor \<Rightarrow> tensor \<Rightarrow> tensor \<Rightarrow> tensor \<Rightarrow> tensor
   \<Rightarrow> int \<Rightarrow> int \<Rightarrow> real \<Rightarrow> real \<Rightarrow> bool
   \<Rightarrow> world \<Rightarrow> (error + (buf \<times> tensor) list) \<times> world" where
  "mha_bwd_block K dprops dout q k v out softmax_lse' dq dk dv cu_seqlens_q cu_seqlens_k
     blockmask max_seqlen_q' max_seqlen_k' p_dropout softmax_scale is_causal w =
   (case mha_bwd_block_validate dprops dout q k v out softmax_lse' dq dk dv cu_seqlens_q
           cu_seqlens_k blockmask max_seqlen_q' max_seqlen_k' of
      Some e \<Rightarrow> (Inl e, w)
    | None \<Rightarrow>
   (let is_dropout = (p_dropout > 0);
        batch_size = int32 (numel cu_seqlens_q - 1);
        total_q = int32 (sizes_at q TOTAL_DIM);
        num_heads = int32 (sizes_at q H_DIM);
        head_size = int32 (sizes_at q D_DIM);
        max_seqlen_k = max_seqlen_k_block max_seqlen_k';
        max_seqlen_q = max_seqlen_q_of max_seqlen_q';
        loop = (max_seqlen_k > 256)
    in case first_error
         [index_ok 730 softmax_lse',
          alloc_ok 733 [batch_size, num_heads, max_seqlen_q]] of
      Some e \<Rightarrow> (Inl e, w)
    | None \<Rightarrow>
   (let softmax_d = new_tensor kFloat [batch_size, num_heads, max_seqlen_q];
        w3 = mha_bwd_block_alloc softmax_lse' loop batch_size total_q num_heads head_size
               max_seqlen_q w
    in case set_params_dgrad batch_size max_seqlen_q max_seqlen_k num_heads head_size
              q k v out dq dk dv (Some B_cu_seqlens_q) (Some B_cu_seqlens_k)
              (if loop then Some B_dq_tmp else None) (Some B_dout)
              (Some (softmax_lse_data_ptr softmax_lse' max_seqlen_q)) (Some B_softmax_d)
              p_dropout softmax_scale is_causal 1 of
      Inl e \<Rightarrow> (Inl e, w3)
    | Inr params \<Rightarrow>
        (Inr [(B_dq, dq), (B_dk, dk), (B_dv, dv), (B_softmax_d, softmax_d)],
         mha_bwd_block_launch K is_dropout params w3))))"

subsection \<open>Observations on a call\<close>

text \<open>The sizes that every entry point reads off its arguments (lines 240 to 243), and
  the kernel that the dispatch on the head dimension selects.\<close>

definition batch_size_of :: "tensor \<Rightarrow> int" where
  "batch_size_of cu_seqlens_q = int32 (numel cu_seqlens_q - 1)"

definition total_q_of :: "tensor \<Rightarrow> int" where
  "total_q_of q = int32 (sizes_at q TOTAL_DIM)"

definition num_heads_of :: "tensor \<Rightarrow> int" where
  "num_heads_of q = int32 (sizes_at q H_DIM)"

definition head_size_of :: "tensor \<Rightarrow> int" where
  "head_size_of q = int32 (sizes_at q D_DIM)"

definition fwd_kernel_of :: "int \<Rightarrow> kernel" where
  "fwd_kernel_of d =
     (if d \<le> 32 then Fmha_fwd_hdim32 else if d \<le> 64 then Fmha_fwd_hdim64
      else Fmha_fwd_hdim128)"

definition bwd_kernel_of :: "int \<Rightarrow> kernel" where
  "bwd_kernel_of d =
     (if d \<le> 32 then Fmha_bwd_hdim32 else if d \<le> 64 then Fmha_bwd_hdim64
      else Fmha_bwd_hdim128)"

text \<open>The parameter struct and the memory with which \<open>mha_bwd\<close> makes its execute call
  (line 498), from the struct that \<open>set_params_dgrad\<close> has filled and the world before the
  plan call: lines 475 to 496 replace the split count by the planned one, point
  \<open>o_tmp_ptr\<close> to a \<open>dq_tmp\<close> allocated late, store the state of the generator, and
  zero-fill \<open>dq_tmp\<close>.\<close>

definition bwd_exec_params :: "kernels \<Rightarrow> bool \<Rightarrow> bool \<Rightarrow> params \<Rightarrow> world \<Rightarrow> params" where
  "bwd_exec_params K is_dropout loop params w =
    (let kid = bwd_kernel_of (params_d params);
         n = configure_num_splits K kid params;
         p1 = params\<lparr>params_num_splits := n\<rparr>;
         p2 = (if n > 1 \<and> \<not> loop then p1\<lparr>params_o_tmp_ptr := Some B_dq_tmp\<rparr> else p1)
     in if is_dropout then p2\<lparr>params_philox_args := (gen_seed w, gen_offset w)\<rparr> else p2)"

definition bwd_exec_mem :: "kernels \<Rightarrow> bool \<Rightarrow> int list \<Rightarrow> params \<Rightarrow> world \<Rightarrow> mem" where
  "bwd_exec_mem K loop ns params w =
    (if configure_num_splits K (bwd_kernel_of (params_d params)) params > 1
     then (if loop then (mem w)(B_dq_tmp := map (\<lambda>x. Num 0) (mem w B_dq_tmp))
           else (mem w)(B_dq_tmp := replicate (nat (prod_list ns)) (Num 0)))
     else mem w)"

text \<open>A call is accepted when it returns; the offsets it reserved from the generator and
  the kernel calls it made are read off the trace.\<close>

definition accepted :: "(error + 'a) \<times> world \<Rightarrow> bool" where
  "accepted r = (case fst r of Inl e \<Rightarrow> False | Inr x \<Rightarrow> True)"

primrec reserved :: "event list \<Rightarrow> int list" where
  "reserved [] = []"
| "reserved (e # es) =
     (case e of Launch kid c p m \<Rightarrow> reserved es | Philox n \<Rightarrow> n # reserved es)"

primrec launched :: "event list \<Rightarrow> (kernel \<times> bool \<times> params) list" where
  "launched [] = []"
| "launched (e # es) =
     (case e of Launch kid c p m \<Rightarrow> (kid, c, p) # launched es | Philox n \<Rightarrow> launched es)"

text \<open>The tiling of a call as the specification words it: the padded query length is the
  raw one rounded up to a multiple of 16; the padded key length is 128 or 256 when the raw
  one is at most that, and the raw one rounded up to a multiple of the tile size
  otherwise; the call loops exactly when the padded key length exceeds the tile size.\<close>

definition tiling :: "int \<Rightarrow> int \<Rightarrow> int \<Rightarrow> int \<Rightarrow> int \<Rightarrow> bool \<Rightarrow> bool" where
  "tiling tile raw_q raw_k padded_q padded_k loop =
     (is_round_up 16 raw_q padded_q \<and>
      (if raw_k \<le> 128 then padded_k = 128
       else if raw_k \<le> 256 then padded_k = 256
       else is_round_up tile raw_k padded_k) \<and>
      loop = (padded_k > tile))"

text \<open>The generator is untouched between two worlds when its seed and offset are the same
  and no offset has been reserved in between.\<close>

definition generator_untouched :: "world \<Rightarrow> world \<Rightarrow> bool" where
  "generator_untouched w w' =
     (gen_seed w' = gen_seed w \<and> gen_offset w' = gen_offset w \<and>
      reserved (trace w') = reserved (trace w))"

text \<open>The entry at the index \<open>(i, j, k)\<close> of a tensor of three dimensions whose storage is
  \<open>xs\<close>.\<close>

definition entry :: "tensor \<Rightarrow> scalar list \<Rightarrow> nat \<Rightarrow> nat \<Rightarrow> nat \<Rightarrow> scalar" where
  "entry t xs i j k =
     storage_at xs (int i * snd (dims t ! 0) + int j * snd (dims t ! 1) + int k * snd (dims t ! 2))"

text \<open>The list \<open>ys\<close> holds the first \<open>n\<close> entries along the last axis of the tensor \<open>t\<close> of three
  dimensions whose storage is \<open>xs\<close>: row after row, densely, the entry \<open>(i, j, k)\<close> for every
  \<open>k\<close> below \<open>n\<close> (and below the length of the axis).\<close>

definition first_along_last :: "tensor \<Rightarrow> int \<Rightarrow> scalar list \<Rightarrow> scalar list \<Rightarrow> bool" where
  "first_along_last t n xs ys =
     (let rows = fst (dims t ! 1); len = nat (min (sizes_at t 2) n)
      in \<forall>i < fst (dims t ! 0). \<forall>j < rows. \<forall>k < len.
           storage_at ys (int ((i * rows + j) * len + k)) = entry t xs i j k)"

text \<open>Two storages of one size that agree on the first \<open>n\<close> entries along the last axis of
  the tensor \<open>t\<close>; they may differ in every other entry.\<close>

definition agree_on_first :: "tensor \<Rightarrow> int \<Rightarrow> scalar list \<Rightarrow> scalar list \<Rightarrow> bool" where
  "agree_on_first t n xs ys =
     (length ys = length xs \<and>
      (\<forall>i < fst (dims t ! 0). \<forall>j < fst (dims t ! 1). \<forall>k < nat (min (sizes_at t 2) n).
         entry t ys i j k = entry t xs i j k))"

text \<open>The LogSumExp as the forward pass of the same batch leaves it: one row for every batch
  entry and head of the call, at least as long as the padded query length.\<close>

definition lse_of_forward :: "tensor \<Rightarrow> tensor \<Rightarrow> tensor \<Rightarrow> int \<Rightarrow> bool" where
  "lse_of_forward lse cu_seqlens_q q max_seqlen_q =
     (sizes_at lse 0 = batch_size_of cu_seqlens_q \<and> sizes_at lse 1 = num_heads_of q \<and>
      max_seqlen_q \<le> sizes_at lse 2)"

text \<open>Two worlds that differ at most in the elements of the caller's LogSumExp tensor
  (and in what their traces recorded of it).\<close>

definition same_but_lse :: "world \<Rightarrow> world \<Rightarrow> bool" where
  "same_but_lse w w2 =
     (gen_seed w2 = gen_seed w \<and> gen_offset w2 = gen_offset w \<and>
      (\<forall>b. b \<noteq> B_softmax_lse_arg \<longrightarrow> mem w2 b = mem w b))"

subsection \<open>A concrete setting\<close>

text \<open>One batch entry of two tokens, one head, head dimension 16, on an SM80 device and
  on an SM75 device; kernels that overwrite what they may write; a plan that settles on
  two splits.\<close>

definition ex_kernels :: kernels where
  "ex_kernels =
     \<lparr>fwd_run = (\<lambda>kid lp m b. map (\<lambda>x. Num 1) (m b)),
      bwd_run = (\<lambda>kid p m b. map (\<lambda>x. Num 2) (m b)),
      configure_num_splits = (\<lambda>kid p. 2),
      configure_elts_per_thread = (\<lambda>lp. 8)\<rparr>"

definition sm80 :: dprops where
  "sm80 = \<lparr>dprops_major = 8, dprops_minor = 0\<rparr>"

definition sm75 :: dprops where
  "sm75 = \<lparr>dprops_major = 7, dprops_minor = 5\<rparr>"

definition ex_q :: tensor where
  "ex_q = \<lparr>dtype = kFloat16, is_cuda = True, dims = [(2, 16), (1, 16), (16, 1)]\<rparr>"

definition ex_q64 :: tensor where
  "ex_q64 = \<lparr>dtype = kFloat16, is_cuda = True, dims = [(2, 64), (1, 64), (64, 1)]\<rparr>"

definition ex_cu_seqlens :: tensor where
  "ex_cu_seqlens = \<lparr>dtype = kInt32, is_cuda = True, dims = [(2, 1)]\<rparr>"

definition ex_lse :: tensor where
  "ex_lse = \<lparr>dtype = kFloat, is_cuda = True, dims = [(1, 32), (1, 32), (32, 1)]\<rparr>"

definition ex_blockmask :: tensor where
  "ex_blockmask = \<lparr>dtype = kInt32, is_cuda = True, dims = [(1, 1), (1, 1)]\<rparr>"

definition ex_world :: "nat \<Rightarrow> world" where
  "ex_world n =
     \<lparr>mem = (\<lambda>b. if b \<in> {B_q, B_k, B_v, B_out, B_dout, B_dq, B_dk, B_dv}
                 then replicate n (Num 5)
                 else if b = B_softmax_lse_arg then replicate 32 (Num 3)
                 else if b = B_cu_seqlens_q \<or> b = B_cu_seqlens_k then [Num 0, Num 2]
                 else if b = B_blockmask then [Num 1] else []),
      gen_seed = 7, gen_offset = 0, trace = []\<rparr>"

text \<open>The launch parameters that \<open>mha_fwd_block\<close> builds (lines 529 and 613).\<close>

definition block_launch_params :: "bool \<Rightarrow> bool \<Rightarrow> params \<Rightarrow> launch_params" where
  "block_launch_params is_dropout return_softmax params =
     \<lparr>launch_params_params = params\<lparr>params_blockmask := Some B_blockmask\<rparr>,
      launch_params_is_dropout = is_dropout,
      launch_params_return_softmax = return_softmax, launch_params_elts_per_thread = 0\<rparr>"


text \<open>A head dimension outside the block-sparse set, and a second world that differs
  from the first in the last sixteen entries of the caller's LogSumExp tensor.\<close>

definition ex_q24 :: tensor where
  "ex_q24 = \<lparr>dtype = kFloat16, is_cuda = True, dims = [(2, 24), (1, 24), (24, 1)]\<rparr>"

definition ex_world2 :: world where
  "ex_world2 =
     (ex_world 32)\<lparr>mem := (mem (ex_world 32))
        (B_softmax_lse_arg := replicate 16 (Num 3) @ replicate 16 (Num 9))\<rparr>"

text \<open>Two heads: tensors of two tokens, two heads and head dimension 16, and a LogSumExp of
  one batch entry, two heads and rows of 32 entries. Its storage holds 3 and 4 in the two
  halves of the first row, 5 and 6 in those of the second; a second storage differs from
  it in the second half of either row.\<close>

definition ex_q2 :: tensor where
  "ex_q2 = \<lparr>dtype = kFloat16, is_cuda = True, dims = [(2, 32), (2, 16), (16, 1)]\<rparr>"

definition ex_lse2 :: tensor where
  "ex_lse2 = \<lparr>dtype = kFloat, is_cuda = True, dims = [(1, 64), (2, 32), (32, 1)]\<rparr>"

definition ex_world3 :: world where
  "ex_world3 =
     (ex_world 64)\<lparr>mem := (mem (ex_world 64))
        (B_softmax_lse_arg := replicate 16 (Num 3) @ replicate 16 (Num 4) @
                              replicate 16 (Num 5) @ replicate 16 (Num 6))\<rparr>"

definition ex_world4 :: world where
  "ex_world4 =
     (ex_world 64)\<lparr>mem := (mem (ex_world 64))
        (B_softmax_lse_arg := replicate 16 (Num 3) @ replicate 16 (Num 9) @
                              replicate 16 (Num 5) @ replicate 16 (Num 8))\<rparr>"

section \<open>Properties\<close>

subsection \<open>Arithmetic of the tiling\<close>

lemma int32_id: "- 2147483648 \<le> x \<Longrightarrow> x \<le> 2147483647 \<Longrightarrow> int32 x = x"
  unfolding int32_def by (rule signed_take_bit_int_eq_self) simp_all

lemma sdiv_nonneg: "0 \<le> (a::int) \<Longrightarrow> 0 < b \<Longrightarrow> a sdiv b = a div b"
  by (simp add: signed_divide_int_def sgn_if)

lemma round_multiple_eq:
  assumes "0 \<le> x" "0 < m" "m \<le> 256" "x \<le> 2147483647 - 255"
  shows "round_multiple x m = (x + m - 1) div m * m"
proof -
  have a: "int32 (x + m - 1) = x + m - 1"
    using assms by (intro int32_id) linarith+
  have b: "(x + m - 1) sdiv m = (x + m - 1) div m"
    using assms by (intro sdiv_nonneg) linarith+
  have c0: "0 \<le> (x + m - 1) div m"
    using assms by (simp add: pos_imp_zdiv_nonneg_iff)
  have c1: "(x + m - 1) div m * m \<le> x + m - 1"
  proof -
    have "(x + m - 1) div m * m = (x + m - 1) - (x + m - 1) mod m"
      by (simp add: minus_mod_eq_div_mult)
    moreover have "0 \<le> (x + m - 1) mod m" using assms by simp
    ultimately show ?thesis by linarith
  qed
  have c2: "0 \<le> (x + m - 1) div m * m"
    using c0 assms by simp
  have c3: "(x + m - 1) div m \<le> x + m - 1"
  proof -
    have "(x + m - 1) div m \<le> (x + m - 1) div 1"
      using assms by (intro zdiv_mono2) linarith+
    then show ?thesis by simp
  qed
  have c: "int32 ((x + m - 1) div m) = (x + m - 1) div m"
    using c0 c3 assms by (intro int32_id) linarith+
  have d: "int32 ((x + m - 1) div m * m) = (x + m - 1) div m * m"
    using c1 c2 assms by (intro int32_id) linarith+
  show ?thesis
    unfolding round_multiple_def by (simp add: a b c d)
qed

lemma round_multiple_is_round_up:
  assumes "0 \<le> x" "0 < m" "m \<le> 256" "x \<le> 2147483647 - 255"
  shows "is_round_up m x (round_multiple x m)"
proof -
  let ?y = "(x + m - 1) div m * m"
  have e: "?y = (x + m - 1) - (x + m - 1) mod m"
    by (simp add: minus_mod_eq_div_mult)
  have r0: "0 \<le> (x + m - 1) mod m" and r1: "(x + m - 1) mod m < m"
    using assms by simp_all
  have "m dvd ?y" by simp
  moreover have "x \<le> ?y" using e r1 by linarith
  moreover have "?y < x + m" using e r0 by linarith
  ultimately show ?thesis
    unfolding is_round_up_def round_multiple_eq[OF assms] by simp
qed

subsection \<open>The parameter struct\<close>

lemma set_params_fprop_Inr:
  assumes "set_params_fprop b sq sk h d q k v out optr cq ck ot sd lse p sc ic ns = Inr params"
  shows "p < 1" "params_b params = b" "params_h params = h" "params_d params = d"
    "params_seqlen_q params = sq" "params_seqlen_k params = sk"
    "params_o_ptr params = Some optr" "params_o_tmp_ptr params = ot" "params_s_ptr params = sd"
    "params_softmax_lse_ptr params = lse" "params_num_splits params = ns"
    "params_p_dropout params = 1 - p"
    "params_p_dropout_in_uint params = p_dropout_in_uint_of (1 - p)"
    "params_p_dropout_in_uint16_t params = p_dropout_in_uint16_t_of (1 - p)"
    "params_dq_ptr params = None" "params_dk_ptr params = None" "params_dv_ptr params = None"
    "params_dsoftmax_sum params = None" "params_do_ptr params = None"
    "params_blockmask params = None"
    "params_q_ptr params = Some B_q" "params_k_ptr params = Some B_k"
    "params_v_ptr params = Some B_v"
    "params_cu_seqlens_q params = cq" "params_cu_seqlens_k params = ck"
  using assms by (auto simp: set_params_fprop_def params_zero_def Let_def split: if_splits)

lemma uint32_floor:
  assumes "0 \<le> x" "x < 1"
  shows "uint (word_of_int \<lfloor>x * 4294967295\<rfloor> :: 32 word) = \<lfloor>x * 4294967295\<rfloor>"
proof -
  have a: "0 \<le> \<lfloor>x * 4294967295\<rfloor>" using assms by simp
  have "x * 4294967295 < 4294967296" using assms by simp
  then have b: "\<lfloor>x * 4294967295\<rfloor> < 4294967296" by (simp add: floor_less_iff)
  show ?thesis using a b by (simp add: uint_word_of_int take_bit_eq_mod)
qed

lemma uint16_floor:
  assumes "0 \<le> x" "x < 1"
  shows "uint (word_of_int \<lfloor>x * 65535\<rfloor> :: 16 word) = \<lfloor>x * 65535\<rfloor>"
proof -
  have a: "0 \<le> \<lfloor>x * 65535\<rfloor>" using assms by simp
  have "x * 65535 < 65536" using assms by simp
  then have b: "\<lfloor>x * 65535\<rfloor> < 65536" by (simp add: floor_less_iff)
  show ?thesis using a b by (simp add: uint_word_of_int take_bit_eq_mod)
qed

text \<open>
  Claim C3, as amended. For a keep probability \<open>p\<close> with \<open>0 < p < 1\<close>, the 32-bit threshold
  stored in the parameter struct is \<open>floor (p * (2^32 - 1))\<close> and the 16-bit threshold is
  \<open>floor (p * (2^16 - 1))\<close>: the source multiplies by the largest value of the unsigned
  type, 4294967295 and 65535, not by \<open>2^32\<close> and \<open>2^16\<close>.
\<close>

theorem dropout_thresholds:
  assumes "set_params_fprop b seqlen_q seqlen_k h d q k v out out_ptr cu_seqlens_q_d
             cu_seqlens_k_d o_tmp_d s_d softmax_lse_d p_dropout softmax_scale is_causal
             num_splits = Inr params"
    and "0 < params_p_dropout params" and "params_p_dropout params < 1"
  shows "uint (params_p_dropout_in_uint params) = \<lfloor>params_p_dropout params * (2 ^ 32 - 1)\<rfloor> \<and>
         uint (params_p_dropout_in_uint16_t params)
           = \<lfloor>params_p_dropout params * (2 ^ 16 - 1)\<rfloor>"
proof -
  note f = set_params_fprop_Inr[OF assms(1)]
  have k: "0 \<le> 1 - p_dropout" "1 - p_dropout < 1" using assms(2,3) f(12) by simp_all
  show ?thesis
    using uint32_floor[OF k] uint16_floor[OF k]
    by (simp add: f p_dropout_in_uint_of_def p_dropout_in_uint16_t_of_def)
qed

text \<open>The theorem at the drop probability 1/4, that is the keep probability 3/4.\<close>

theorem dropout_thresholds_witness:
  "(case set_params_fprop 1 16 128 1 16 ex_q ex_q ex_q ex_q B_out None None None None None
           (1/4) 1 False 1 of
      Inl e \<Rightarrow> False
    | Inr params \<Rightarrow>
        params_p_dropout params = 3/4 \<and> 0 < params_p_dropout params \<and>
        params_p_dropout params < 1 \<and>
        uint (params_p_dropout_in_uint params) = 3221225471 \<and>
        uint (params_p_dropout_in_uint16_t params) = 49151)"
proof -
  obtain params where p:
    "set_params_fprop 1 16 128 1 16 ex_q ex_q ex_q ex_q B_out None None None None None
       (1/4) 1 False 1 = Inr params"
    by (simp add: set_params_fprop_def)
  have k: "params_p_dropout params = 3/4" using set_params_fprop_Inr(12)[OF p] by simp
  have "0 < params_p_dropout params" "params_p_dropout params < 1" using k by simp_all
  from dropout_thresholds[OF p this] show ?thesis
    by (simp add: p k)
qed

text \<open>Claim C3 as stated fails at the keep probability 1/2, where the arithmetic of the
  source is exact: the thresholds are 2147483647 and 32767, while \<open>floor (p * 2^32)\<close> is
  2147483648 and \<open>floor (p * 2^16)\<close> is 32768.\<close>

theorem dropout_thresholds_counterexample:
  "(case set_params_fprop 1 16 128 1 16 ex_q ex_q ex_q ex_q B_out None None None None None
           (1/2) 1 False 1 of
      Inl e \<Rightarrow> False
    | Inr params \<Rightarrow>
        params_p_dropout params = 1/2 \<and>
        uint (params_p_dropout_in_uint params) = 2147483647 \<and>
        \<lfloor>params_p_dropout params * 2 ^ 32\<rfloor> = 2147483648 \<and>
        uint (params_p_dropout_in_uint16_t params) = 32767 \<and>
        \<lfloor>params_p_dropout params * 2 ^ 16\<rfloor> = 32768)"
  by (simp add: set_params_fprop_def p_dropout_in_uint_of_def p_dropout_in_uint16_t_of_def)

subsection \<open>The stages of a call\<close>

lemma first_error_None: "first_error cs = None \<longleftrightarrow> (\<forall>c \<in> set cs. c = None)"
  by (induction cs rule: first_error.induct) auto

lemma first_error_Some: "Some e \<in> set cs \<Longrightarrow> \<exists>e'. first_error cs = Some e'"
  by (cases "first_error cs") (auto simp: first_error_None)

lemma check_None [simp]: "check l c = None \<longleftrightarrow> c"
  by (simp add: check_def)

lemma CHECK_SHAPE_None [simp]: "CHECK_SHAPE l x ns = None \<longleftrightarrow> sizes x = ns"
  by (simp add: CHECK_SHAPE_def)

lemma alloc_ok_None [simp]: "alloc_ok l ns = None \<longleftrightarrow> list_all (\<lambda>n. 0 \<le> n) ns"
  by (simp add: alloc_ok_def)

lemma index_ok_None [simp]: "index_ok l t = None \<longleftrightarrow> 3 \<le> length (dims t)"
  by (simp add: index_ok_def)

lemma sizes_three:
  assumes "sizes t = [a, b, c]"
  shows "sizes_at t 0 = a" "sizes_at t 1 = b" "sizes_at t 2 = c" "length (dims t) = 3"
proof -
  from assms obtain x y z where d: "dims t = [x, y, z]"
    unfolding sizes_def by (auto simp: map_eq_Cons_conv)
  from assms d show "sizes_at t 0 = a" "sizes_at t 1 = b" "sizes_at t 2 = c"
    "length (dims t) = 3"
    unfolding sizes_def sizes_at_def by simp_all
qed

lemma mha_fwd_validate_None:
  assumes "mha_fwd_validate dprops q k v out cu_seqlens_q cu_seqlens_k = None"
  shows "int32 (numel cu_seqlens_q - 1) > 0"
    and "int32 (sizes_at q D_DIM) \<le> 128"
    and "sizes q = [int32 (sizes_at q TOTAL_DIM), int32 (sizes_at q H_DIM), int32 (sizes_at q D_DIM)]"
  using assms unfolding mha_fwd_validate_def Let_def first_error_None
  by simp_all


lemma torch_empty_simps [simp]:
  "trace (torch_empty b ns w) = trace w"
  "gen_offset (torch_empty b ns w) = gen_offset w"
  "gen_seed (torch_empty b ns w) = gen_seed w"
  "mem (torch_empty b ns w) = (mem w)(b := replicate (nat (prod_list ns)) Uninit)"
  by (simp_all add: torch_empty_def)

lemma torch_zeros_simps [simp]:
  "trace (torch_zeros b ns w) = trace w"
  "gen_offset (torch_zeros b ns w) = gen_offset w"
  "gen_seed (torch_zeros b ns w) = gen_seed w"
  "mem (torch_zeros b ns w) = (mem w)(b := replicate (nat (prod_list ns)) (Num 0))"
  by (simp_all add: torch_zeros_def)

lemma fill_simps [simp]:
  "trace (fill' b x w) = trace w"
  "gen_offset (fill' b x w) = gen_offset w"
  "gen_seed (fill' b x w) = gen_seed w"
  "mem (fill' b x w) = (mem w)(b := map (\<lambda>y. x) (mem w b))"
  by (simp_all add: fill'_def)

lemma zero_simps [simp]:
  "trace (zero' b w) = trace w"
  "gen_offset (zero' b w) = gen_offset w"
  "gen_seed (zero' b w) = gen_seed w"
  "mem (zero' b w) = (mem w)(b := map (\<lambda>y. Num 0) (mem w b))"
  by (simp_all add: zero'_def)

lemma copy_simps [simp]:
  "trace (copy' dst src w) = trace w"
  "gen_offset (copy' dst src w) = gen_offset w"
  "gen_seed (copy' dst src w) = gen_seed w"
  "mem (copy' dst src w) = (mem w)(dst := mem w src)"
  by (simp_all add: copy'_def)

lemma contiguous_simps [simp]:
  "trace (contiguous t src fresh w) = trace w"
  "gen_offset (contiguous t src fresh w) = gen_offset w"
  "gen_seed (contiguous t src fresh w) = gen_seed w"
  "mem (contiguous t src fresh w) =
     (if is_contiguous t then mem w else (mem w)(fresh := elements t (mem w src)))"
  by (simp_all add: contiguous_def)

lemma mha_fwd_alloc_frame [simp]:
  "trace (mha_fwd_alloc lp rs zt b tq h d mq mk w) = trace w"
  "gen_offset (mha_fwd_alloc lp rs zt b tq h d mq mk w) = gen_offset w"
  "gen_seed (mha_fwd_alloc lp rs zt b tq h d mq mk w) = gen_seed w"
  by (simp_all add: mha_fwd_alloc_def Let_def)

lemma mha_fwd_alloc_mem:
  "mem (mha_fwd_alloc lp rs zt b tq h d mq mk w) B_out
     = (if zt then map (\<lambda>x. Num 0) (mem w B_out) else mem w B_out)"
  "mem (mha_fwd_alloc lp rs zt b tq h d mq mk w) B_softmax_lse
     = replicate (nat (prod_list [b, h, mq])) (if zt then NegInf else Uninit)"
  "rs \<Longrightarrow> mem (mha_fwd_alloc lp rs zt b tq h d mq mk w) B_s
     = replicate (nat (prod_list [b, h, mq, mk])) (if zt then Num 0 else Uninit)"
  by (simp_all add: mha_fwd_alloc_def Let_def)

lemma reserve_philox_simps:
  "trace (snd (reserve_philox isd n p w)) = trace w @ (if isd then [Philox n] else [])"
  "mem (snd (reserve_philox isd n p w)) = mem w"
  "gen_seed (snd (reserve_philox isd n p w)) = gen_seed w"
  "gen_offset (snd (reserve_philox isd n p w))
     = (if isd then gen_offset w + ((n + 3) div 4) * 4 else gen_offset w)"
  "fst (reserve_philox isd n p w)
     = (if isd then p\<lparr>params_philox_args := (gen_seed w, gen_offset w)\<rparr> else p)"
  by (simp_all add: reserve_philox_def philox_cuda_state_def)

lemma run_fmha_fwd_eq:
  "params_d (launch_params_params lp) \<le> 128 \<Longrightarrow>
   run_fmha_fwd K lp w = launch_fwd K (fwd_kernel_of (params_d (launch_params_params lp))) lp w"
  by (simp add: run_fmha_fwd_def fwd_kernel_of_def)

lemma mha_fwd_launch_trace:
  assumes "params_d params \<le> 128"
  shows "trace (mha_fwd_launch K isd rs params w) =
     trace w @ (if isd then [Philox (int32 (int32 (params_b params * params_h params) * 32))] else [])
       @ [Launch (fwd_kernel_of (params_d params)) False
            (fst (reserve_philox isd (int32 (int32 (params_b params * params_h params) * 32)) params w)) (mem w)]"
  using assms
  by (simp add: mha_fwd_launch_def Let_def split_beta run_fmha_fwd_eq reserve_philox_simps launch_fwd_def)

lemma mha_fwd_accepted:
  assumes "mha_fwd K dprops q k v out cu_seqlens_q cu_seqlens_k max_seqlen_q' max_seqlen_k'
     p_dropout softmax_scale zero_tensors is_causal return_softmax num_splits w = (Inr r, w')"
  obtains params where
    "mha_fwd_validate dprops q k v out cu_seqlens_q cu_seqlens_k = None"
    "set_params_fprop (int32 (numel cu_seqlens_q - 1)) (max_seqlen_q_of max_seqlen_q')
       (max_seqlen_k_of (blocksize_c_fwd (int32 (sizes_at q D_DIM))) max_seqlen_k')
       (int32 (sizes_at q H_DIM)) (int32 (sizes_at q D_DIM)) q k v out B_out
       (Some B_cu_seqlens_q) (Some B_cu_seqlens_k)
       (if loop_of (blocksize_c_fwd (int32 (sizes_at q D_DIM)))
             (max_seqlen_k_of (blocksize_c_fwd (int32 (sizes_at q D_DIM))) max_seqlen_k')
        then Some B_o_tmp else None)
       (if return_softmax then Some B_s else None) (Some B_softmax_lse)
       p_dropout softmax_scale is_causal num_splits = Inr params"
    "w' = mha_fwd_launch K (p_dropout > 0) return_softmax params
           (mha_fwd_alloc
              (loop_of (blocksize_c_fwd (int32 (sizes_at q D_DIM)))
                 (max_seqlen_k_of (blocksize_c_fwd (int32 (sizes_at q D_DIM))) max_seqlen_k'))
              return_softmax zero_tensors (int32 (numel cu_seqlens_q - 1))
              (int32 (sizes_at q TOTAL_DIM)) (int32 (sizes_at q H_DIM))
              (int32 (sizes_at q D_DIM)) (max_seqlen_q_of max_seqlen_q')
              (max_seqlen_k_of (blocksize_c_fwd (int32 (sizes_at q D_DIM))) max_seqlen_k') w)"
  using assms
  by (auto simp: mha_fwd_def Let_def split: option.splits sum.splits)


lemma run_fmha_bwd_eq:
  "params_d p \<le> 128 \<Longrightarrow> run_fmha_bwd K p c w = launch_bwd K (bwd_kernel_of (params_d p)) p c w"
  by (simp add: run_fmha_bwd_def bwd_kernel_of_def)

lemma launch_bwd_configure:
  "launch_bwd K kid p True w =
     (p\<lparr>params_num_splits := configure_num_splits K kid p\<rparr>,
      w\<lparr>trace := trace w @ [Launch kid True p (mem w)]\<rparr>)"
  by (simp add: launch_bwd_def)

lemma launch_bwd_execute:
  "launch_bwd K kid p False w =
     (p, w\<lparr>mem := device_write (bwd_outputs p) (mem w) (bwd_run K kid p (visible p (mem w))),
           trace := trace w @ [Launch kid False p (mem w)]\<rparr>)"
  by (simp add: launch_bwd_def)

lemma mha_bwd_alloc_frame [simp]:
  "trace (mha_bwd_alloc lse lp zt b tq h d mq w) = trace w"
  "gen_offset (mha_bwd_alloc lse lp zt b tq h d mq w) = gen_offset w"
  "gen_seed (mha_bwd_alloc lse lp zt b tq h d mq w) = gen_seed w"
  by (simp_all add: mha_bwd_alloc_def Let_def)

lemma mha_bwd_alloc_mem:
  "mem (mha_bwd_alloc lse lp zt b tq h d mq w) B_softmax_lse
     = (if is_contiguous (index_slice_dim2 lse mq) then mem w B_softmax_lse
        else elements (index_slice_dim2 lse mq) (mem w B_softmax_lse_arg))"
  "mem (mha_bwd_alloc lse lp zt b tq h d mq w) B_softmax_lse_arg = mem w B_softmax_lse_arg"
  "lp \<Longrightarrow> mem (mha_bwd_alloc lse lp zt b tq h d mq w) B_dq_tmp
     = replicate (nat (prod_list [tq, h, d])) Uninit"
  "mem (mha_bwd_alloc lse lp zt b tq h d mq w) B_dq
     = (if zt then map (\<lambda>x. Num 0) (mem w B_dq) else mem w B_dq)"
  by (simp_all add: mha_bwd_alloc_def Let_def)

lemma mha_bwd_launch_trace:
  assumes "params_d params \<le> 128"
  shows "trace (mha_bwd_launch K isd lp tq h d params w) =
     trace w @ [Launch (bwd_kernel_of (params_d params)) True params (mem w)]
       @ (if isd then [Philox (int32 (int32 (params_b params * params_h params) * 32))] else [])
       @ [Launch (bwd_kernel_of (params_d params)) False (bwd_exec_params K isd lp params w)
            (bwd_exec_mem K lp [tq, h, d] params w)]"
  using assms
  by (simp add: mha_bwd_launch_def Let_def split_beta run_fmha_bwd_eq reserve_philox_simps
      launch_bwd_configure launch_bwd_execute bwd_exec_params_def bwd_exec_mem_def)

lemma mha_bwd_launch_mem:
  assumes "params_d params \<le> 128"
  shows "mem (mha_bwd_launch K isd lp tq h d params w) =
     (let p = bwd_exec_params K isd lp params w; m = bwd_exec_mem K lp [tq, h, d] params w;
          m' = device_write (bwd_outputs p) m
                 (bwd_run K (bwd_kernel_of (params_d params)) p (visible p m))
      in if params_num_splits p > 1 then m'(B_dq := m' B_dq_tmp) else m')"
  using assms
  by (simp add: mha_bwd_launch_def Let_def split_beta run_fmha_bwd_eq reserve_philox_simps
      launch_bwd_configure launch_bwd_execute bwd_exec_params_def bwd_exec_mem_def)

lemma mha_bwd_launch_gen:
  assumes "params_d params \<le> 128"
  shows "gen_seed (mha_bwd_launch K isd lp tq h d params w) = gen_seed w"
    "gen_offset (mha_bwd_launch K isd lp tq h d params w) =
       (if isd then gen_offset w + ((int32 (int32 (params_b params * params_h params) * 32) + 3) div 4) * 4
        else gen_offset w)"
  using assms
  by (simp_all add: mha_bwd_launch_def Let_def split_beta run_fmha_bwd_eq reserve_philox_simps
      launch_bwd_configure launch_bwd_execute)


lemma mha_bwd_validate_None:
  assumes "mha_bwd_validate dprops dout q k v out lse dq dk dv cu_seqlens_q cu_seqlens_k = None"
  shows "int32 (numel cu_seqlens_q - 1) > 0"
    and "int32 (sizes_at q D_DIM) \<le> 128"
    and "sizes q = [int32 (sizes_at q TOTAL_DIM), int32 (sizes_at q H_DIM), int32 (sizes_at q D_DIM)]"
  using assms unfolding mha_bwd_validate_def Let_def first_error_None
  by simp_all

lemma set_params_dgrad_Inr:
  assumes "set_params_dgrad b sq sk h d q k v out dq dk dv cq ck ot dout lse ds p sc ic ns = Inr params"
  shows "p < 1" "params_b params = b" "params_h params = h" "params_d params = d"
    "params_seqlen_q params = sq" "params_seqlen_k params = sk"
    "params_o_ptr params = Some B_out" "params_o_tmp_ptr params = ot" "params_s_ptr params = None"
    "params_softmax_lse_ptr params = lse" "params_num_splits params = ns"
    "params_p_dropout params = 1 - p"
    "params_dq_ptr params = Some B_dq" "params_dk_ptr params = Some B_dk" "params_dv_ptr params = Some B_dv"
    "params_dsoftmax_sum params = ds" "params_do_ptr params = dout"
    "params_blockmask params = None"
    "params_q_ptr params = Some B_q" "params_k_ptr params = Some B_k"
    "params_v_ptr params = Some B_v"
    "params_cu_seqlens_q params = cq" "params_cu_seqlens_k params = ck"
proof -
  from assms obtain p0 where
    p0: "set_params_fprop b sq sk h d q k v out B_out cq ck ot None lse p sc ic ns = Inr p0"
    and e: "params = p0
        \<lparr>params_dq_ptr := Some B_dq, params_dk_ptr := Some B_dk, params_dv_ptr := Some B_dv,
         params_dq_row_stride_in_elts := or0 (stride dq 0),
         params_dk_row_stride_in_elts := or0 (stride dk 0),
         params_dv_row_stride_in_elts := or0 (stride dv 0),
         params_dq_head_stride_in_elts := or0 (stride dq 1),
         params_dk_head_stride_in_elts := or0 (stride dk 1),
         params_dv_head_stride_in_elts := or0 (stride dv 1),
         params_do_ptr := dout, params_dsoftmax_sum := ds\<rparr>"
    by (auto simp: set_params_dgrad_def split: sum.splits)
  note f = set_params_fprop_Inr[OF p0]
  show "p < 1" by (rule f)
  show "params_b params = b" "params_h params = h" "params_d params = d"
    "params_seqlen_q params = sq" "params_seqlen_k params = sk"
    "params_o_ptr params = Some B_out" "params_o_tmp_ptr params = ot" "params_s_ptr params = None"
    "params_softmax_lse_ptr params = lse" "params_num_splits params = ns"
    "params_p_dropout params = 1 - p"
    "params_dq_ptr params = Some B_dq" "params_dk_ptr params = Some B_dk" "params_dv_ptr params = Some B_dv"
    "params_dsoftmax_sum params = ds" "params_do_ptr params = dout"
    "params_blockmask params = None"
    "params_q_ptr params = Some B_q" "params_k_ptr params = Some B_k"
    "params_v_ptr params = Some B_v"
    "params_cu_seqlens_q params = cq" "params_cu_seqlens_k params = ck"
    unfolding e by (simp_all add: f)
qed

lemma mha_bwd_accepted:
  assumes "mha_bwd K dprops dout q k v out lse dq dk dv cu_seqlens_q cu_seqlens_k
     max_seqlen_q' max_seqlen_k' p_dropout softmax_scale zero_tensors is_causal num_splits w
       = (Inr r, w')"
  obtains params where
    "mha_bwd_validate dprops dout q k v out lse dq dk dv cu_seqlens_q cu_seqlens_k = None"
    "3 \<le> length (dims lse)"
    "set_params_dgrad (int32 (numel cu_seqlens_q - 1)) (max_seqlen_q_of max_seqlen_q')
       (max_seqlen_k_of (blocksize_c_bwd (dprops_major dprops = 7 \<and> dprops_minor dprops = 5)
           (int32 (sizes_at q D_DIM))) max_seqlen_k')
       (int32 (sizes_at q H_DIM)) (int32 (sizes_at q D_DIM)) q k v out dq dk dv
       (Some B_cu_seqlens_q) (Some B_cu_seqlens_k)
       (if loop_of (blocksize_c_bwd (dprops_major dprops = 7 \<and> dprops_minor dprops = 5)
                (int32 (sizes_at q D_DIM)))
             (max_seqlen_k_of (blocksize_c_bwd (dprops_major dprops = 7 \<and> dprops_minor dprops = 5)
                (int32 (sizes_at q D_DIM))) max_seqlen_k')
        then Some B_dq_tmp else None)
       (Some B_dout)
       (Some (softmax_lse_data_ptr lse (max_seqlen_q_of max_seqlen_q'))) (Some B_softmax_d)
       p_dropout softmax_scale is_causal num_splits = Inr params"
    "w' = mha_bwd_launch K (p_dropout > 0)
           (loop_of (blocksize_c_bwd (dprops_major dprops = 7 \<and> dprops_minor dprops = 5)
                (int32 (sizes_at q D_DIM)))
             (max_seqlen_k_of (blocksize_c_bwd (dprops_major dprops = 7 \<and> dprops_minor dprops = 5)
                (int32 (sizes_at q D_DIM))) max_seqlen_k'))
           (int32 (sizes_at q TOTAL_DIM)) (int32 (sizes_at q H_DIM))
           (int32 (sizes_at q D_DIM)) params
           (mha_bwd_alloc lse
              (loop_of (blocksize_c_bwd (dprops_major dprops = 7 \<and> dprops_minor dprops = 5)
                (int32 (sizes_at q D_DIM)))
                (max_seqlen_k_of (blocksize_c_bwd (dprops_major dprops = 7 \<and> dprops_minor dprops = 5)
                (int32 (sizes_at q D_DIM))) max_seqlen_k'))
              zero_tensors (int32 (numel cu_seqlens_q - 1))
              (int32 (sizes_at q TOTAL_DIM)) (int32 (sizes_at q H_DIM))
              (int32 (sizes_at q D_DIM)) (max_seqlen_q_of max_seqlen_q') w)"
  using assms
  by (auto simp: mha_bwd_def Let_def first_error_None split: option.splits sum.splits)



text \<open>
  Claim C4. An accepted call of \<open>mha_bwd\<close> makes its plan call first, then, with dropout,
  reserves the counter offset, then makes its execute call, and nothing else. The split
  count of the execute call is the one the plan settled. When it exceeds one, the execute
  call is made with \<open>o_tmp_ptr\<close> pointing to \<open>dq_tmp\<close> and with \<open>dq_tmp\<close> filled with zeros,
  and after the call returns \<open>dq\<close> holds what the execute call left in \<open>dq_tmp\<close>.
\<close>

theorem plan_before_execute:
  assumes "mha_bwd K dprops dout q k v out softmax_lse' dq dk dv cu_seqlens_q cu_seqlens_k
     max_seqlen_q' max_seqlen_k' p_dropout softmax_scale zero_tensors is_causal num_splits w
       = (Inr r, w')"
  shows "\<exists>kid p0 m0 p1 m1.
     trace w' = trace w @ [Launch kid True p0 m0]
        @ (if p_dropout > 0
           then [Philox (int32 (int32 (batch_size_of cu_seqlens_q * num_heads_of q) * 32))]
           else [])
        @ [Launch kid False p1 m1] \<and>
     params_num_splits p1 = configure_num_splits K kid p0 \<and>
     (params_num_splits p1 > 1 \<longrightarrow>
        params_o_tmp_ptr p1 = Some B_dq_tmp \<and>
        m1 B_dq_tmp = replicate (nat (total_q_of q * num_heads_of q * head_size_of q)) (Num 0) \<and>
        mem w' B_dq_tmp = bwd_run K kid p1 (visible p1 m1) B_dq_tmp \<and>
        mem w' B_dq = mem w' B_dq_tmp)"
proof -
  let ?lp = "loop_of (blocksize_c_bwd (dprops_major dprops = 7 \<and> dprops_minor dprops = 5)
                (int32 (sizes_at q D_DIM)))
             (max_seqlen_k_of (blocksize_c_bwd (dprops_major dprops = 7 \<and> dprops_minor dprops = 5)
                (int32 (sizes_at q D_DIM))) max_seqlen_k')"
  let ?w4 = "mha_bwd_alloc softmax_lse' ?lp zero_tensors (int32 (numel cu_seqlens_q - 1))
              (int32 (sizes_at q TOTAL_DIM)) (int32 (sizes_at q H_DIM))
              (int32 (sizes_at q D_DIM)) (max_seqlen_q_of max_seqlen_q') w"
  let ?ns = "[int32 (sizes_at q TOTAL_DIM), int32 (sizes_at q H_DIM), int32 (sizes_at q D_DIM)]"
  from assms obtain params where
    v: "mha_bwd_validate dprops dout q k v out softmax_lse' dq dk dv cu_seqlens_q cu_seqlens_k = None"
    and sp: "set_params_dgrad (int32 (numel cu_seqlens_q - 1)) (max_seqlen_q_of max_seqlen_q')
       (max_seqlen_k_of (blocksize_c_bwd (dprops_major dprops = 7 \<and> dprops_minor dprops = 5)
           (int32 (sizes_at q D_DIM))) max_seqlen_k')
       (int32 (sizes_at q H_DIM)) (int32 (sizes_at q D_DIM)) q k v out dq dk dv
       (Some B_cu_seqlens_q) (Some B_cu_seqlens_k)
       (if ?lp then Some B_dq_tmp else None)
       (Some B_dout)
       (Some (softmax_lse_data_ptr softmax_lse' (max_seqlen_q_of max_seqlen_q'))) (Some B_softmax_d)
       p_dropout softmax_scale is_causal num_splits = Inr params"
    and w': "w' = mha_bwd_launch K (p_dropout > 0) ?lp
           (int32 (sizes_at q TOTAL_DIM)) (int32 (sizes_at q H_DIM))
           (int32 (sizes_at q D_DIM)) params ?w4"
    by (rule mha_bwd_accepted)
  note f = set_params_dgrad_Inr[OF sp]
  have d: "params_d params \<le> 128"
    using mha_bwd_validate_None(2)[OF v] f(4) by simp
  let ?kid = "bwd_kernel_of (params_d params)"
  let ?p1 = "bwd_exec_params K (p_dropout > 0) ?lp params ?w4"
  let ?m1 = "bwd_exec_mem K ?lp ?ns params ?w4"
  have t: "trace w' = trace w @ [Launch ?kid True params (mem ?w4)]
        @ (if p_dropout > 0
           then [Philox (int32 (int32 (batch_size_of cu_seqlens_q * num_heads_of q) * 32))]
           else [])
        @ [Launch ?kid False ?p1 ?m1]"
    unfolding w' mha_bwd_launch_trace[OF d]
    by (simp add: f(2,3) batch_size_of_def num_heads_of_def)
  have n: "params_num_splits ?p1 = configure_num_splits K ?kid params"
    by (simp add: bwd_exec_params_def Let_def)
  have o: "params_num_splits ?p1 > 1 \<Longrightarrow> params_o_tmp_ptr ?p1 = Some B_dq_tmp"
    by (simp add: bwd_exec_params_def Let_def f(8) split: if_splits)
  have z: "params_num_splits ?p1 > 1 \<Longrightarrow>
      ?m1 B_dq_tmp = replicate (nat (total_q_of q * num_heads_of q * head_size_of q)) (Num 0)"
    unfolding n
    by (simp add: bwd_exec_mem_def mha_bwd_alloc_mem(3) total_q_of_def num_heads_of_def
        head_size_of_def mult.assoc)
  have out: "params_num_splits ?p1 > 1 \<Longrightarrow> B_dq_tmp \<in> set (bwd_outputs ?p1)"
    using o by (simp add: bwd_outputs_def split: option.splits)
  have m: "params_num_splits ?p1 > 1 \<Longrightarrow>
      mem w' B_dq_tmp = bwd_run K ?kid ?p1 (visible ?p1 ?m1) B_dq_tmp \<and>
      mem w' B_dq = mem w' B_dq_tmp"
    using out unfolding w' mha_bwd_launch_mem[OF d]
    by (simp add: Let_def device_write_def)
  show ?thesis
    using t n o z m by blast
qed




lemma launched_append [simp]: "launched (xs @ ys) = launched xs @ launched ys"
  by (induction xs) (auto split: event.splits)

lemma reserved_append [simp]: "reserved (xs @ ys) = reserved xs @ reserved ys"
  by (induction xs) (auto split: event.splits)

lemma tiling_derived:
  assumes "0 \<le> raw_q" "raw_q \<le> 2147483392" "raw_k \<le> 2147483392" "tile = 128 \<or> tile = 256"
  shows "tiling tile raw_q raw_k (max_seqlen_q_of raw_q) (max_seqlen_k_of tile raw_k)
           (loop_of tile (max_seqlen_k_of tile raw_k))"
proof -
  have q: "is_round_up 16 raw_q (max_seqlen_q_of raw_q)"
    unfolding max_seqlen_q_of_def using assms by (intro round_multiple_is_round_up) simp_all
  have k: "256 < raw_k \<Longrightarrow> is_round_up tile raw_k (round_multiple raw_k tile)"
    using assms by (intro round_multiple_is_round_up) auto
  show ?thesis
    using q k by (simp add: tiling_def max_seqlen_k_of_def loop_of_def)
qed

text \<open>
  Claim C2, as amended. For raw maximal lengths between 0 and \<open>2^31 - 256\<close>, where the
  \<open>int\<close> arithmetic of the source does not overflow, the parameter struct of every kernel
  call of an accepted forward call, and of the plan call of an accepted backward call,
  carries the tiling of the specification, for the tile size 128 if \<open>head_dim > 64\<close>, else
  256, in \<open>mha_fwd\<close>, and for the tile size 128 if \<open>head_dim > 64\<close> or the device is SM75
  and \<open>head_dim > 32\<close>, else 256, in \<open>mha_bwd\<close>; the pointer to the temporary accumulator
  is set exactly when the call loops.
\<close>

theorem tiling_parameters:
  assumes "0 \<le> max_seqlen_q'" "max_seqlen_q' \<le> 2147483392" "max_seqlen_k' \<le> 2147483392"
  shows
    "(mha_fwd K dprops q k v out cu_seqlens_q cu_seqlens_k max_seqlen_q' max_seqlen_k'
        p_dropout softmax_scale zero_tensors is_causal return_softmax num_splits w = (Inr r, w')
      \<longrightarrow> (\<exists>kid p. launched (trace w') = launched (trace w) @ [(kid, False, p)] \<and>
             tiling (if head_size_of q > 64 then 128 else 256) max_seqlen_q' max_seqlen_k'
               (params_seqlen_q p) (params_seqlen_k p) (params_o_tmp_ptr p \<noteq> None))) \<and>
     (mha_bwd K dprops dout q k v out softmax_lse' dq dk dv cu_seqlens_q cu_seqlens_k
        max_seqlen_q' max_seqlen_k' p_dropout softmax_scale zero_tensors is_causal num_splits w
        = (Inr rb, wb')
      \<longrightarrow> (\<exists>kid p0 p1. launched (trace wb') = launched (trace w) @ [(kid, True, p0), (kid, False, p1)] \<and>
             tiling (if head_size_of q > 64 \<or>
                        (dprops_major dprops = 7 \<and> dprops_minor dprops = 5 \<and> head_size_of q > 32)
                     then 128 else 256) max_seqlen_q' max_seqlen_k'
               (params_seqlen_q p0) (params_seqlen_k p0) (params_o_tmp_ptr p0 \<noteq> None)))"
proof (intro conjI impI)
  assume a: "mha_fwd K dprops q k v out cu_seqlens_q cu_seqlens_k max_seqlen_q' max_seqlen_k'
        p_dropout softmax_scale zero_tensors is_causal return_softmax num_splits w = (Inr r, w')"
  let ?tile = "blocksize_c_fwd (int32 (sizes_at q D_DIM))"
  let ?lp = "loop_of ?tile (max_seqlen_k_of ?tile max_seqlen_k')"
  let ?w4 = "mha_fwd_alloc ?lp return_softmax zero_tensors (int32 (numel cu_seqlens_q - 1))
              (int32 (sizes_at q TOTAL_DIM)) (int32 (sizes_at q H_DIM))
              (int32 (sizes_at q D_DIM)) (max_seqlen_q_of max_seqlen_q')
              (max_seqlen_k_of ?tile max_seqlen_k') w"
  from a obtain params where
    v: "mha_fwd_validate dprops q k v out cu_seqlens_q cu_seqlens_k = None"
    and sp: "set_params_fprop (int32 (numel cu_seqlens_q - 1)) (max_seqlen_q_of max_seqlen_q')
       (max_seqlen_k_of ?tile max_seqlen_k')
       (int32 (sizes_at q H_DIM)) (int32 (sizes_at q D_DIM)) q k v out B_out
       (Some B_cu_seqlens_q) (Some B_cu_seqlens_k)
       (if ?lp then Some B_o_tmp else None)
       (if return_softmax then Some B_s else None) (Some B_softmax_lse)
       p_dropout softmax_scale is_causal num_splits = Inr params"
    and w': "w' = mha_fwd_launch K (p_dropout > 0) return_softmax params ?w4"
    by (rule mha_fwd_accepted)
  note f = set_params_fprop_Inr[OF sp]
  have d: "params_d params \<le> 128"
    using mha_fwd_validate_None(2)[OF v] f(4) by simp
  let ?p = "fst (reserve_philox (p_dropout > 0)
                  (int32 (int32 (params_b params * params_h params) * 32)) params ?w4)"
  have t: "launched (trace w') = launched (trace w) @ [(fwd_kernel_of (params_d params), False, ?p)]"
    unfolding w' mha_fwd_launch_trace[OF d] by simp
  have e: "params_seqlen_q ?p = max_seqlen_q_of max_seqlen_q'"
    "params_seqlen_k ?p = max_seqlen_k_of ?tile max_seqlen_k'"
    "(params_o_tmp_ptr ?p \<noteq> None) = ?lp"
    by (simp_all add: reserve_philox_simps f)
  have "tiling ?tile max_seqlen_q' max_seqlen_k' (max_seqlen_q_of max_seqlen_q')
          (max_seqlen_k_of ?tile max_seqlen_k') ?lp"
    using assms by (intro tiling_derived) (simp_all add: blocksize_c_fwd_def)
  then have "tiling (if head_size_of q > 64 then 128 else 256) max_seqlen_q' max_seqlen_k'
               (params_seqlen_q ?p) (params_seqlen_k ?p) (params_o_tmp_ptr ?p \<noteq> None)"
    unfolding e by (simp add: blocksize_c_fwd_def head_size_of_def)
  with t show "\<exists>kid p. launched (trace w') = launched (trace w) @ [(kid, False, p)] \<and>
             tiling (if head_size_of q > 64 then 128 else 256) max_seqlen_q' max_seqlen_k'
               (params_seqlen_q p) (params_seqlen_k p) (params_o_tmp_ptr p \<noteq> None)"
    by blast
next
  assume a: "mha_bwd K dprops dout q k v out softmax_lse' dq dk dv cu_seqlens_q cu_seqlens_k
        max_seqlen_q' max_seqlen_k' p_dropout softmax_scale zero_tensors is_causal num_splits w
        = (Inr rb, wb')"
  let ?tile = "blocksize_c_bwd (dprops_major dprops = 7 \<and> dprops_minor dprops = 5)
                (int32 (sizes_at q D_DIM))"
  let ?lp = "loop_of ?tile (max_seqlen_k_of ?tile max_seqlen_k')"
  let ?w4 = "mha_bwd_alloc softmax_lse' ?lp zero_tensors (int32 (numel cu_seqlens_q - 1))
              (int32 (sizes_at q TOTAL_DIM)) (int32 (sizes_at q H_DIM))
              (int32 (sizes_at q D_DIM)) (max_seqlen_q_of max_seqlen_q') w"
  from a obtain params where
    v: "mha_bwd_validate dprops dout q k v out softmax_lse' dq dk dv cu_seqlens_q cu_seqlens_k = None"
    and sp: "set_params_dgrad (int32 (numel cu_seqlens_q - 1)) (max_seqlen_q_of max_seqlen_q')
       (max_seqlen_k_of ?tile max_seqlen_k')
       (int32 (sizes_at q H_DIM)) (int32 (sizes_at q D_DIM)) q k v out dq dk dv
       (Some B_cu_seqlens_q) (Some B_cu_seqlens_k)
       (if ?lp then Some B_dq_tmp else None)
       (Some B_dout)
       (Some (softmax_lse_data_ptr softmax_lse' (max_seqlen_q_of max_seqlen_q'))) (Some B_softmax_d)
       p_dropout softmax_scale is_causal num_splits = Inr params"
    and w': "wb' = mha_bwd_launch K (p_dropout > 0) ?lp
           (int32 (sizes_at q TOTAL_DIM)) (int32 (sizes_at q H_DIM))
           (int32 (sizes_at q D_DIM)) params ?w4"
    by (rule mha_bwd_accepted)
  note f = set_params_dgrad_Inr[OF sp]
  have d: "params_d params \<le> 128"
    using mha_bwd_validate_None(2)[OF v] f(4) by simp
  have t: "launched (trace wb') = launched (trace w) @
      [(bwd_kernel_of (params_d params), True, params),
       (bwd_kernel_of (params_d params), False, bwd_exec_params K (p_dropout > 0) ?lp params ?w4)]"
    unfolding w' mha_bwd_launch_trace[OF d] by simp
  have e: "params_seqlen_q params = max_seqlen_q_of max_seqlen_q'"
    "params_seqlen_k params = max_seqlen_k_of ?tile max_seqlen_k'"
    "(params_o_tmp_ptr params \<noteq> None) = ?lp"
    by (simp_all add: f)
  have "tiling ?tile max_seqlen_q' max_seqlen_k' (max_seqlen_q_of max_seqlen_q')
          (max_seqlen_k_of ?tile max_seqlen_k') ?lp"
    using assms by (intro tiling_derived) (simp_all add: blocksize_c_bwd_def)
  then have "tiling (if head_size_of q > 64 \<or>
                        (dprops_major dprops = 7 \<and> dprops_minor dprops = 5 \<and> head_size_of q > 32)
                     then 128 else 256) max_seqlen_q' max_seqlen_k'
               (params_seqlen_q params) (params_seqlen_k params) (params_o_tmp_ptr params \<noteq> None)"
    unfolding e by (simp add: blocksize_c_bwd_def head_size_of_def)
  with t show "\<exists>kid p0 p1. launched (trace wb') = launched (trace w) @ [(kid, True, p0), (kid, False, p1)] \<and>
             tiling (if head_size_of q > 64 \<or>
                        (dprops_major dprops = 7 \<and> dprops_minor dprops = 5 \<and> head_size_of q > 32)
                     then 128 else 256) max_seqlen_q' max_seqlen_k'
               (params_seqlen_q p0) (params_seqlen_k p0) (params_o_tmp_ptr p0 \<noteq> None)"
    by blast
qed




lemmas tensor_defs = sizes_def numel_def dim_index_def tsize_def stride_def or0_def sizes_at_def
  is_contiguous_def TOTAL_DIM_def H_DIM_def D_DIM_def stride_is_def size_ok_def
  CHECK_SHAPE_def check_def alloc_ok_def index_ok_def int32_def

lemmas ex_defs = ex_q_def ex_q64_def ex_cu_seqlens_def ex_lse_def ex_blockmask_def
  sm80_def sm75_def

lemma ex_dims [simp]:
  "int32 (numel ex_cu_seqlens - 1) = 1"
  "int32 (sizes_at ex_q TOTAL_DIM) = 2" "int32 (sizes_at ex_q H_DIM) = 1"
  "int32 (sizes_at ex_q D_DIM) = 16"
  "int32 (sizes_at ex_q64 TOTAL_DIM) = 2" "int32 (sizes_at ex_q64 H_DIM) = 1"
  "int32 (sizes_at ex_q64 D_DIM) = 64"
  "3 \<le> length (dims ex_lse)"
  by (simp_all add: tensor_defs ex_defs)

lemma ex_geometry [simp]:
  "max_seqlen_q_of 20 = 32" "max_seqlen_q_of 16 = 16"
  "max_seqlen_k_of 256 300 = 512" "max_seqlen_k_of 128 300 = 384"
  "max_seqlen_k_of 256 200 = 256" "max_seqlen_k_of 128 200 = 256"
  "max_seqlen_k_block 200 = 256"
  by (simp_all add: max_seqlen_q_of_def max_seqlen_k_of_def max_seqlen_k_block_def
      round_multiple_def int32_def signed_divide_int_def Let_def)

lemma ex_fwd_validate:
  "mha_fwd_validate sm80 ex_q ex_q ex_q ex_q ex_cu_seqlens ex_cu_seqlens = None"
  "mha_fwd_validate sm75 ex_q64 ex_q64 ex_q64 ex_q64 ex_cu_seqlens ex_cu_seqlens = None"
  by (simp_all add: mha_fwd_validate_def Let_def tensor_defs ex_defs signed_modulo_int_def)

lemma ex_bwd_validate:
  "mha_bwd_validate sm80 ex_q ex_q ex_q ex_q ex_q ex_lse ex_q ex_q ex_q ex_cu_seqlens ex_cu_seqlens = None"
  "mha_bwd_validate sm75 ex_q64 ex_q64 ex_q64 ex_q64 ex_q64 ex_lse ex_q64 ex_q64 ex_q64 ex_cu_seqlens ex_cu_seqlens = None"
  by (simp_all add: mha_bwd_validate_def Let_def tensor_defs ex_defs signed_modulo_int_def)

lemma isl_set_params_fprop [simp]:
  "isl (set_params_fprop b sq sk h d q k v out optr cq ck ot sd lse p sc ic ns) \<longleftrightarrow> \<not> p < 1"
  by (simp add: set_params_fprop_def Let_def)

lemma isl_set_params_dgrad [simp]:
  "isl (set_params_dgrad b sq sk h d q k v out dq dk dv cq ck ot dout lse ds p sc ic ns) \<longleftrightarrow> \<not> p < 1"
proof (cases "set_params_fprop b sq sk h d q k v out B_out cq ck ot None lse p sc ic ns")
  case (Inl e)
  then show ?thesis
    using isl_set_params_fprop[of b sq sk h d q k v out B_out cq ck ot None lse p sc ic ns]
    by (simp add: set_params_dgrad_def)
next
  case (Inr x)
  then show ?thesis
    using isl_set_params_fprop[of b sq sk h d q k v out B_out cq ck ot None lse p sc ic ns]
    by (simp add: set_params_dgrad_def)
qed

lemma accepted_case_option:
  "accepted (case x of None \<Rightarrow> y | Some e \<Rightarrow> (Inl e, w)) \<longleftrightarrow> x = None \<and> accepted y"
  by (cases x) (simp_all add: accepted_def)

lemma accepted_case_sum:
  "accepted (case x of Inl e \<Rightarrow> (Inl e, a e) | Inr p \<Rightarrow> (Inr (f p), g p)) \<longleftrightarrow> \<not> isl x"
  by (cases x) (simp_all add: accepted_def)

lemma accepted_Inr: "accepted x \<Longrightarrow> \<exists>r w'. x = (Inr r, w')"
  by (cases x, cases "fst x") (auto simp: accepted_def)




lemma set_params_fprop_rejects:
  "\<not> p < 1 \<Longrightarrow>
   set_params_fprop b sq sk h d q k v out optr cq ck ot sd lse p sc ic ns = Inl (TorchCheck 117)"
  by (simp add: set_params_fprop_def Let_def)

lemma set_params_dgrad_rejects:
  "\<not> p < 1 \<Longrightarrow>
   set_params_dgrad b sq sk h d q k v out dq dk dv cq ck ot dout lse ds p sc ic ns
     = Inl (TorchCheck 117)"
  by (simp add: set_params_dgrad_def set_params_fprop_rejects)

lemma set_params_fprop_cases:
  obtains (Inl) "\<not> p < 1"
    "set_params_fprop b sq sk h d q k v out optr cq ck ot sd lse p sc ic ns = Inl (TorchCheck 117)"
  | (Inr) params where "p < 1"
    "set_params_fprop b sq sk h d q k v out optr cq ck ot sd lse p sc ic ns = Inr params"
  by (cases "p < 1") (auto simp: set_params_fprop_def Let_def)

lemma set_params_dgrad_cases:
  obtains (Inl) "\<not> p < 1"
    "set_params_dgrad b sq sk h d q k v out dq dk dv cq ck ot dout lse ds p sc ic ns
       = Inl (TorchCheck 117)"
  | (Inr) params where "p < 1"
    "set_params_dgrad b sq sk h d q k v out dq dk dv cq ck ot dout lse ds p sc ic ns
       = Inr params"
  by (cases rule: set_params_fprop_cases[of p b sq sk h d q k v out B_out cq ck ot None lse sc ic ns])
     (auto simp: set_params_dgrad_def)

lemma mha_fwd_outcome:
  fixes K dprops q k v out cu_seqlens_q cu_seqlens_k max_seqlen_q' max_seqlen_k'
     p_dropout softmax_scale zero_tensors is_causal return_softmax num_splits w
  defines "call \<equiv> mha_fwd K dprops q k v out cu_seqlens_q cu_seqlens_k max_seqlen_q'
     max_seqlen_k' p_dropout softmax_scale zero_tensors is_causal return_softmax num_splits w"
  defines "tile \<equiv> blocksize_c_fwd (int32 (sizes_at q D_DIM))"
  defines "lp \<equiv> loop_of tile (max_seqlen_k_of tile max_seqlen_k')"
  defines "w4 \<equiv> mha_fwd_alloc lp return_softmax zero_tensors (int32 (numel cu_seqlens_q - 1))
              (int32 (sizes_at q TOTAL_DIM)) (int32 (sizes_at q H_DIM))
              (int32 (sizes_at q D_DIM)) (max_seqlen_q_of max_seqlen_q')
              (max_seqlen_k_of tile max_seqlen_k') w"
  obtains (rejected) e where "call = (Inl e, w)"
  | (late) "\<not> p_dropout < 1" "call = (Inl (TorchCheck 117), w4)"
  | (ran) r params where "p_dropout < 1"
      "mha_fwd_validate dprops q k v out cu_seqlens_q cu_seqlens_k = None"
      "set_params_fprop (int32 (numel cu_seqlens_q - 1)) (max_seqlen_q_of max_seqlen_q')
         (max_seqlen_k_of tile max_seqlen_k')
         (int32 (sizes_at q H_DIM)) (int32 (sizes_at q D_DIM)) q k v out B_out
         (Some B_cu_seqlens_q) (Some B_cu_seqlens_k)
         (if lp then Some B_o_tmp else None)
         (if return_softmax then Some B_s else None) (Some B_softmax_lse)
         p_dropout softmax_scale is_causal num_splits = Inr params"
      "call = (Inr r, mha_fwd_launch K (p_dropout > 0) return_softmax params w4)"
proof (cases "mha_fwd_validate dprops q k v out cu_seqlens_q cu_seqlens_k")
  case (Some e)
  then have "call = (Inl e, w)" by (simp add: call_def mha_fwd_def)
  then show ?thesis by (rule rejected)
next
  case v: None
  show ?thesis
  proof (cases "first_error
         [alloc_ok 277 [int32 (numel cu_seqlens_q - 1), int32 (sizes_at q H_DIM),
                        max_seqlen_q_of max_seqlen_q'],
          if return_softmax
          then alloc_ok 281 [int32 (numel cu_seqlens_q - 1), int32 (sizes_at q H_DIM),
                 max_seqlen_q_of max_seqlen_q', max_seqlen_k_of tile max_seqlen_k']
          else None]")
    case (Some e)
    then have "call = (Inl e, w)"
      by (simp add: call_def mha_fwd_def v Let_def tile_def split: if_splits)
    then show ?thesis by (rule rejected)
  next
    case a: None
    show ?thesis
    proof (cases rule: set_params_fprop_cases[of p_dropout "int32 (numel cu_seqlens_q - 1)"
          "max_seqlen_q_of max_seqlen_q'" "max_seqlen_k_of tile max_seqlen_k'"
          "int32 (sizes_at q H_DIM)" "int32 (sizes_at q D_DIM)" q k v out B_out
          "Some B_cu_seqlens_q" "Some B_cu_seqlens_k" "if lp then Some B_o_tmp else None"
          "if return_softmax then Some B_s else None" "Some B_softmax_lse"
          softmax_scale is_causal num_splits])
      case Inl
      from Inl(2) a have "call = (Inl (TorchCheck 117), w4)"
        unfolding call_def mha_fwd_def v w4_def lp_def tile_def
        by (simp add: Let_def split: if_splits)
      with Inl(1) show ?thesis by (rule late)
    next
      case (Inr params)
      from Inr(2) a have "\<exists>r. call = (Inr r, mha_fwd_launch K (p_dropout > 0) return_softmax params w4)"
        unfolding call_def mha_fwd_def v w4_def lp_def tile_def
        by (simp add: Let_def split: if_splits)
      then obtain r where "call = (Inr r, mha_fwd_launch K (p_dropout > 0) return_softmax params w4)" ..
      with Inr v show ?thesis by (intro ran[of params r]) 
    qed
  qed
qed




lemma mha_bwd_outcome:
  fixes K dprops dout q k v out softmax_lse' dq dk dv cu_seqlens_q cu_seqlens_k max_seqlen_q'
     max_seqlen_k' p_dropout softmax_scale zero_tensors is_causal num_splits w
  defines "call \<equiv> mha_bwd K dprops dout q k v out softmax_lse' dq dk dv cu_seqlens_q
     cu_seqlens_k max_seqlen_q' max_seqlen_k' p_dropout softmax_scale zero_tensors is_causal
     num_splits w"
  defines "tile \<equiv> blocksize_c_bwd (dprops_major dprops = 7 \<and> dprops_minor dprops = 5)
                    (int32 (sizes_at q D_DIM))"
  defines "lp \<equiv> loop_of tile (max_seqlen_k_of tile max_seqlen_k')"
  defines "w4 \<equiv> mha_bwd_alloc softmax_lse' lp zero_tensors (int32 (numel cu_seqlens_q - 1))
              (int32 (sizes_at q TOTAL_DIM)) (int32 (sizes_at q H_DIM))
              (int32 (sizes_at q D_DIM)) (max_seqlen_q_of max_seqlen_q') w"
  obtains (rejected) e where "call = (Inl e, w)"
  | (late) "\<not> p_dropout < 1" "call = (Inl (TorchCheck 117), w4)"
  | (ran) r params where "p_dropout < 1"
      "mha_bwd_validate dprops dout q k v out softmax_lse' dq dk dv cu_seqlens_q cu_seqlens_k
         = None"
      "3 \<le> length (dims softmax_lse')"
      "0 \<le> max_seqlen_q_of max_seqlen_q'"
      "set_params_dgrad (int32 (numel cu_seqlens_q - 1)) (max_seqlen_q_of max_seqlen_q')
         (max_seqlen_k_of tile max_seqlen_k')
         (int32 (sizes_at q H_DIM)) (int32 (sizes_at q D_DIM)) q k v out dq dk dv
         (Some B_cu_seqlens_q) (Some B_cu_seqlens_k)
         (if lp then Some B_dq_tmp else None)
         (Some B_dout)
         (Some (softmax_lse_data_ptr softmax_lse' (max_seqlen_q_of max_seqlen_q'))) (Some B_softmax_d)
         p_dropout softmax_scale is_causal num_splits = Inr params"
      "call = (Inr r, mha_bwd_launch K (p_dropout > 0) lp (int32 (sizes_at q TOTAL_DIM))
                 (int32 (sizes_at q H_DIM)) (int32 (sizes_at q D_DIM)) params w4)"
proof (cases "mha_bwd_validate dprops dout q k v out softmax_lse' dq dk dv cu_seqlens_q
    cu_seqlens_k")
  case (Some e)
  then have "call = (Inl e, w)" by (simp add: call_def mha_bwd_def)
  then show ?thesis by (rule rejected)
next
  case v: None
  show ?thesis
  proof (cases "first_error
         [index_ok 440 softmax_lse',
          alloc_ok 443 [int32 (numel cu_seqlens_q - 1), int32 (sizes_at q H_DIM),
                        max_seqlen_q_of max_seqlen_q']]")
    case (Some e)
    then have "call = (Inl e, w)"
      by (simp add: call_def mha_bwd_def v Let_def)
    then show ?thesis by (rule rejected)
  next
    case a: None
    then have a': "3 \<le> length (dims softmax_lse')" "0 \<le> max_seqlen_q_of max_seqlen_q'"
      by (simp_all add: first_error_None)
    show ?thesis
    proof (cases rule: set_params_dgrad_cases[of p_dropout "int32 (numel cu_seqlens_q - 1)"
          "max_seqlen_q_of max_seqlen_q'" "max_seqlen_k_of tile max_seqlen_k'"
          "int32 (sizes_at q H_DIM)" "int32 (sizes_at q D_DIM)" q k v out dq dk dv
          "Some B_cu_seqlens_q" "Some B_cu_seqlens_k" "if lp then Some B_dq_tmp else None"
          "Some B_dout" "Some (softmax_lse_data_ptr softmax_lse' (max_seqlen_q_of max_seqlen_q'))"
          "Some B_softmax_d"
          softmax_scale is_causal num_splits])
      case Inl
      from Inl(2) a have "call = (Inl (TorchCheck 117), w4)"
        unfolding call_def mha_bwd_def v w4_def lp_def tile_def
        by (simp add: Let_def)
      with Inl(1) show ?thesis by (rule late)
    next
      case (Inr params)
      from Inr(2) a have "\<exists>r. call = (Inr r, mha_bwd_launch K (p_dropout > 0) lp
         (int32 (sizes_at q TOTAL_DIM)) (int32 (sizes_at q H_DIM)) (int32 (sizes_at q D_DIM))
         params w4)"
        unfolding call_def mha_bwd_def v w4_def lp_def tile_def
        by (simp add: Let_def)
      then obtain r where "call = (Inr r, mha_bwd_launch K (p_dropout > 0) lp
         (int32 (sizes_at q TOTAL_DIM)) (int32 (sizes_at q H_DIM)) (int32 (sizes_at q D_DIM))
         params w4)" ..
      with Inr v a' show ?thesis by (intro ran[of params r])
    qed
  qed
qed

lemma mha_fwd_block_outcome:
  fixes K dprops q k v cu_seqlens_q cu_seqlens_k blockmask max_seqlen_q' max_seqlen_k'
     p_dropout softmax_scale is_causal return_softmax w
  defines "call \<equiv> mha_fwd_block K dprops q k v cu_seqlens_q cu_seqlens_k blockmask
     max_seqlen_q' max_seqlen_k' p_dropout softmax_scale is_causal return_softmax w"
  defines "w4 \<equiv> mha_fwd_block_alloc (max_seqlen_k_block max_seqlen_k' > 256) return_softmax
              (int32 (numel cu_seqlens_q - 1))
              (int32 (sizes_at q TOTAL_DIM)) (int32 (sizes_at q H_DIM))
              (int32 (sizes_at q D_DIM)) (max_seqlen_q_of max_seqlen_q')
              (max_seqlen_k_block max_seqlen_k') w"
  obtains (rejected) e where "call = (Inl e, w)"
  | (late) "\<not> p_dropout < 1" "call = (Inl (TorchCheck 117), w4)"
  | (ran) r params where "p_dropout < 1"
      "mha_fwd_block_validate dprops q k v cu_seqlens_q cu_seqlens_k blockmask max_seqlen_q'
         max_seqlen_k' = None"
      "set_params_fprop (int32 (numel cu_seqlens_q - 1)) (max_seqlen_q_of max_seqlen_q')
         (max_seqlen_k_block max_seqlen_k')
         (int32 (sizes_at q H_DIM)) (int32 (sizes_at q D_DIM)) q k v
         (new_tensor (dtype q) [int32 (sizes_at q TOTAL_DIM), int32 (sizes_at q H_DIM),
                                int32 (sizes_at q D_DIM)]) B_o
         (Some B_cu_seqlens_q) (Some B_cu_seqlens_k)
         (if max_seqlen_k_block max_seqlen_k' > 256 then Some B_o_tmp else None)
         (if return_softmax then Some B_s else None) (Some B_softmax_lse)
         p_dropout softmax_scale is_causal 1 = Inr params"
      "call = (Inr r, mha_fwd_block_launch K (p_dropout > 0) return_softmax params w4)"
proof (cases "mha_fwd_block_validate dprops q k v cu_seqlens_q cu_seqlens_k blockmask
    max_seqlen_q' max_seqlen_k'")
  case (Some e)
  then have "call = (Inl e, w)" by (simp add: call_def mha_fwd_block_def)
  then show ?thesis by (rule rejected)
next
  case v: None
  show ?thesis
  proof (cases "first_error
         [alloc_ok 587 [int32 (numel cu_seqlens_q - 1), int32 (sizes_at q H_DIM),
                        max_seqlen_q_of max_seqlen_q'],
          if return_softmax
          then alloc_ok 591 [int32 (numel cu_seqlens_q - 1), int32 (sizes_at q H_DIM),
                 max_seqlen_q_of max_seqlen_q', max_seqlen_k_block max_seqlen_k']
          else None]")
    case (Some e)
    then have "call = (Inl e, w)"
      by (simp add: call_def mha_fwd_block_def v Let_def split: if_splits)
    then show ?thesis by (rule rejected)
  next
    case a: None
    show ?thesis
    proof (cases rule: set_params_fprop_cases[of p_dropout "int32 (numel cu_seqlens_q - 1)"
          "max_seqlen_q_of max_seqlen_q'" "max_seqlen_k_block max_seqlen_k'"
          "int32 (sizes_at q H_DIM)" "int32 (sizes_at q D_DIM)" q k v
          "new_tensor (dtype q) [int32 (sizes_at q TOTAL_DIM), int32 (sizes_at q H_DIM),
                                int32 (sizes_at q D_DIM)]" B_o
          "Some B_cu_seqlens_q" "Some B_cu_seqlens_k"
          "if max_seqlen_k_block max_seqlen_k' > 256 then Some B_o_tmp else None"
          "if return_softmax then Some B_s else None" "Some B_softmax_lse"
          softmax_scale is_causal 1])
      case Inl
      from Inl(2) a have "call = (Inl (TorchCheck 117), w4)"
        unfolding call_def mha_fwd_block_def v w4_def
        by (simp add: Let_def split: if_splits)
      with Inl(1) show ?thesis by (rule late)
    next
      case (Inr params)
      from Inr(2) a have "\<exists>r. call = (Inr r, mha_fwd_block_launch K (p_dropout > 0)
          return_softmax params w4)"
        unfolding call_def mha_fwd_block_def v w4_def
        by (simp add: Let_def split: if_splits)
      then obtain r where "call = (Inr r, mha_fwd_block_launch K (p_dropout > 0)
          return_softmax params w4)" ..
      with Inr v show ?thesis by (intro ran[of params r])
    qed
  qed
qed

lemma mha_bwd_block_outcome:
  fixes K dprops dout q k v out softmax_lse' dq dk dv cu_seqlens_q cu_seqlens_k blockmask
     max_seqlen_q' max_seqlen_k' p_dropout softmax_scale is_causal w
  defines "call \<equiv> mha_bwd_block K dprops dout q k v out softmax_lse' dq dk dv cu_seqlens_q
     cu_seqlens_k blockmask max_seqlen_q' max_seqlen_k' p_dropout softmax_scale is_causal w"
  defines "w3 \<equiv> mha_bwd_block_alloc softmax_lse' (max_seqlen_k_block max_seqlen_k' > 256)
              (int32 (numel cu_seqlens_q - 1))
              (int32 (sizes_at q TOTAL_DIM)) (int32 (sizes_at q H_DIM))
              (int32 (sizes_at q D_DIM)) (max_seqlen_q_of max_seqlen_q') w"
  obtains (rejected) e where "call = (Inl e, w)"
  | (late) "\<not> p_dropout < 1" "call = (Inl (TorchCheck 117), w3)"
  | (ran) r params where "p_dropout < 1"
      "mha_bwd_block_validate dprops dout q k v out softmax_lse' dq dk dv cu_seqlens_q
         cu_seqlens_k blockmask max_seqlen_q' max_seqlen_k' = None"
      "3 \<le> length (dims softmax_lse')"
      "0 \<le> max_seqlen_q_of max_seqlen_q'"
      "set_params_dgrad (int32 (numel cu_seqlens_q - 1)) (max_seqlen_q_of max_seqlen_q')
         (max_seqlen_k_block max_seqlen_k')
         (int32 (sizes_at q H_DIM)) (int32 (sizes_at q D_DIM)) q k v out dq dk dv
         (Some B_cu_seqlens_q) (Some B_cu_seqlens_k)
         (if max_seqlen_k_block max_seqlen_k' > 256 then Some B_dq_tmp else None)
         (Some B_dout)
         (Some (softmax_lse_data_ptr softmax_lse' (max_seqlen_q_of max_seqlen_q'))) (Some B_softmax_d)
         p_dropout softmax_scale is_causal 1 = Inr params"
      "call = (Inr r, mha_bwd_block_launch K (p_dropout > 0) params w3)"
proof (cases "mha_bwd_block_validate dprops dout q k v out softmax_lse' dq dk dv cu_seqlens_q
    cu_seqlens_k blockmask max_seqlen_q' max_seqlen_k'")
  case (Some e)
  then have "call = (Inl e, w)" by (simp add: call_def mha_bwd_block_def)
  then show ?thesis by (rule rejected)
next
  case v: None
  show ?thesis
  proof (cases "first_error
         [index_ok 730 softmax_lse',
          alloc_ok 733 [int32 (numel cu_seqlens_q - 1), int32 (sizes_at q H_DIM),
                        max_seqlen_q_of max_seqlen_q']]")
    case (Some e)
    then have "call = (Inl e, w)"
      by (simp add: call_def mha_bwd_block_def v Let_def)
    then show ?thesis by (rule rejected)
  next
    case a: None
    then have a': "3 \<le> length (dims softmax_lse')" "0 \<le> max_seqlen_q_of max_seqlen_q'"
      by (simp_all add: first_error_None)
    show ?thesis
    proof (cases rule: set_params_dgrad_cases[of p_dropout "int32 (numel cu_seqlens_q - 1)"
          "max_seqlen_q_of max_seqlen_q'" "max_seqlen_k_block max_seqlen_k'"
          "int32 (sizes_at q H_DIM)" "int32 (sizes_at q D_DIM)" q k v out dq dk dv
          "Some B_cu_seqlens_q" "Some B_cu_seqlens_k"
          "if max_seqlen_k_block max_seqlen_k' > 256 then Some B_dq_tmp else None"
          "Some B_dout" "Some (softmax_lse_data_ptr softmax_lse' (max_seqlen_q_of max_seqlen_q'))"
          "Some B_softmax_d"
          softmax_scale is_causal 1])
      case Inl
      from Inl(2) a have "call = (Inl (TorchCheck 117), w3)"
        unfolding call_def mha_bwd_block_def v w3_def
        by (simp add: Let_def)
      with Inl(1) show ?thesis by (rule late)
    next
      case (Inr params)
      from Inr(2) a have "\<exists>r. call = (Inr r, mha_bwd_block_launch K (p_dropout > 0) params w3)"
        unfolding call_def mha_bwd_block_def v w3_def
        by (simp add: Let_def)
      then obtain r where "call = (Inr r, mha_bwd_block_launch K (p_dropout > 0) params w3)" ..
      with Inr v a' show ?thesis by (intro ran[of params r])
    qed
  qed
qed




lemma launch_fwd_simps:
  "trace (launch_fwd K kid lp w) = trace w @ [Launch kid False (launch_params_params lp) (mem w)]"
  "gen_seed (launch_fwd K kid lp w) = gen_seed w"
  "gen_offset (launch_fwd K kid lp w) = gen_offset w"
  "mem (launch_fwd K kid lp w) =
     device_write (fwd_outputs (launch_params_params lp)) (mem w)
       (fwd_run K kid lp (visible (launch_params_params lp) (mem w)))"
  by (simp_all add: launch_fwd_def)

lemma run_fmha_fwd_frame:
  "reserved (trace (run_fmha_fwd K lp w)) = reserved (trace w)"
  "gen_seed (run_fmha_fwd K lp w) = gen_seed w"
  "gen_offset (run_fmha_fwd K lp w) = gen_offset w"
  by (simp_all add: run_fmha_fwd_def launch_fwd_simps)

lemma run_fmha_bwd_frame:
  "reserved (trace (snd (run_fmha_bwd K p c w))) = reserved (trace w)"
  "gen_seed (snd (run_fmha_bwd K p c w)) = gen_seed w"
  "gen_offset (snd (run_fmha_bwd K p c w)) = gen_offset w"
  "params_b (fst (run_fmha_bwd K p c w)) = params_b p"
  "params_h (fst (run_fmha_bwd K p c w)) = params_h p"
  by (simp_all add: run_fmha_bwd_def launch_bwd_def)

lemma mha_fwd_launch_reserved:
  "reserved (trace (mha_fwd_launch K isd rs p w)) =
     reserved (trace w) @ (if isd then [int32 (int32 (params_b p * params_h p) * 32)] else [])"
  "gen_seed (mha_fwd_launch K isd rs p w) = gen_seed w"
  "gen_offset (mha_fwd_launch K isd rs p w) =
     (if isd then gen_offset w + ((int32 (int32 (params_b p * params_h p) * 32) + 3) div 4) * 4
      else gen_offset w)"
  by (simp_all add: mha_fwd_launch_def Let_def split_beta run_fmha_fwd_frame reserve_philox_simps)

lemma mha_bwd_launch_reserved:
  "reserved (trace (mha_bwd_launch K isd lp tq h d p w)) =
     reserved (trace w) @ (if isd then [int32 (int32 (params_b p * params_h p) * 32)] else [])"
  "gen_seed (mha_bwd_launch K isd lp tq h d p w) = gen_seed w"
  "gen_offset (mha_bwd_launch K isd lp tq h d p w) =
     (if isd then gen_offset w + ((int32 (int32 (params_b p * params_h p) * 32) + 3) div 4) * 4
      else gen_offset w)"
  by (simp_all add: mha_bwd_launch_def Let_def split_beta run_fmha_bwd_frame reserve_philox_simps)

lemma mha_fwd_block_alloc_frame [simp]:
  "trace (mha_fwd_block_alloc lp rs b tq h d mq mk w) = trace w"
  "gen_offset (mha_fwd_block_alloc lp rs b tq h d mq mk w) = gen_offset w"
  "gen_seed (mha_fwd_block_alloc lp rs b tq h d mq mk w) = gen_seed w"
  by (simp_all add: mha_fwd_block_alloc_def Let_def)

lemma mha_bwd_block_alloc_frame [simp]:
  "trace (mha_bwd_block_alloc lse lp b tq h d mq w) = trace w"
  "gen_offset (mha_bwd_block_alloc lse lp b tq h d mq w) = gen_offset w"
  "gen_seed (mha_bwd_block_alloc lse lp b tq h d mq w) = gen_seed w"
  by (simp_all add: mha_bwd_block_alloc_def Let_def)

lemma mha_bwd_block_alloc_mem:
  "mem (mha_bwd_block_alloc lse lp b tq h d mq w) B_softmax_lse
     = (if is_contiguous (index_slice_dim2 lse mq) then mem w B_softmax_lse
        else elements (index_slice_dim2 lse mq) (mem w B_softmax_lse_arg))"
  "mem (mha_bwd_block_alloc lse lp b tq h d mq w) B_softmax_lse_arg = mem w B_softmax_lse_arg"
  by (simp_all add: mha_bwd_block_alloc_def Let_def)

lemma mha_fwd_block_launch_trace:
  "trace (mha_fwd_block_launch K isd rs p w) =
     trace w @ [Launch Fmha_block_fp16_sm80 True (p\<lparr>params_blockmask := Some B_blockmask\<rparr>) (mem w)]
       @ (if isd then [Philox (configure_elts_per_thread K (block_launch_params isd rs p))] else [])
       @ [Launch Fmha_block_fp16_sm80 False
            (if isd then p\<lparr>params_blockmask := Some B_blockmask,
                           params_philox_args := (gen_seed w, gen_offset w)\<rparr>
             else p\<lparr>params_blockmask := Some B_blockmask\<rparr>) (mem w)]"
  "gen_seed (mha_fwd_block_launch K isd rs p w) = gen_seed w"
  "gen_offset (mha_fwd_block_launch K isd rs p w) =
     (if isd then gen_offset w + ((configure_elts_per_thread K (block_launch_params isd rs p) + 3) div 4) * 4
      else gen_offset w)"
  by (simp_all add: mha_fwd_block_launch_def Let_def split_beta run_fmha_block_fp16_sm80_def
      reserve_philox_simps launch_fwd_simps block_launch_params_def)

lemma mha_bwd_block_launch_trace:
  "trace (mha_bwd_block_launch K isd p w) =
     trace w @ (if isd then [Philox 4] else [])
       @ [Launch Fmha_block_dgrad_fp16_sm80 False
            (if isd then p\<lparr>params_blockmask := Some B_blockmask,
                           params_philox_args := (gen_seed w, gen_offset w)\<rparr>
             else p\<lparr>params_blockmask := Some B_blockmask\<rparr>) (mem w)]"
  "gen_seed (mha_bwd_block_launch K isd p w) = gen_seed w"
  "gen_offset (mha_bwd_block_launch K isd p w) = (if isd then gen_offset w + 4 else gen_offset w)"
  by (simp_all add: mha_bwd_block_launch_def Let_def split_beta run_fmha_block_dgrad_fp16_sm80_def
      reserve_philox_simps launch_bwd_execute)

lemma mha_bwd_block_launch_mem:
  "mem (mha_bwd_block_launch K isd p w) =
     (let p' = (if isd then p\<lparr>params_blockmask := Some B_blockmask,
                           params_philox_args := (gen_seed w, gen_offset w)\<rparr>
             else p\<lparr>params_blockmask := Some B_blockmask\<rparr>)
      in device_write (bwd_outputs p') (mem w)
           (bwd_run K Fmha_block_dgrad_fp16_sm80 p' (visible p' (mem w))))"
  by (simp add: mha_bwd_block_launch_def Let_def split_beta run_fmha_block_dgrad_fp16_sm80_def
      reserve_philox_simps launch_bwd_execute)

lemma sizes_nonneg: "sizes t = ns \<Longrightarrow> list_all (\<lambda>n. 0 \<le> n) ns"
  by (auto simp: sizes_def list_all_iff)

lemma counter_offset_in_range:
  assumes "0 < b" "0 \<le> h" "b * h * 32 \<le> 2147483647"
  shows "int32 (int32 (b * h) * 32) = b * h * 32"
proof -
  have n: "0 \<le> b * h" using assms by simp
  then have "b * h \<le> b * h * 32" by simp
  with assms(3) have "b * h \<le> 2147483647" by linarith
  with n have "int32 (b * h) = b * h" by (intro int32_id) linarith+
  moreover have "int32 (b * h * 32) = b * h * 32"
    using n assms(3) by (intro int32_id) linarith+
  ultimately show ?thesis by simp
qed

text \<open>
  Claim C1, as amended. A dropout-enabled accepted call of \<open>mha_fwd\<close> or \<open>mha_bwd\<close>
  reserves \<open>batch_size * num_heads * 32\<close>, provided that product fits the \<open>int\<close> in which
  the source computes it; one of \<open>mha_fwd_block\<close> reserves the \<open>elts_per_thread\<close> that its
  plan call has left in the launch parameters; one of \<open>mha_bwd_block\<close> reserves the
  constant 4.
\<close>

theorem counter_offset_reserved:
  assumes "0 < p_dropout"
  shows
    "(mha_fwd K dprops q k v out cu_seqlens_q cu_seqlens_k max_seqlen_q' max_seqlen_k'
        p_dropout softmax_scale zero_tensors is_causal return_softmax num_splits w = (Inr r1, w1)
      \<longrightarrow> batch_size_of cu_seqlens_q * num_heads_of q * 32 \<le> 2147483647
      \<longrightarrow> reserved (trace w1)
            = reserved (trace w) @ [batch_size_of cu_seqlens_q * num_heads_of q * 32]) \<and>
     (mha_bwd K dprops dout q k v out softmax_lse' dq dk dv cu_seqlens_q cu_seqlens_k
        max_seqlen_q' max_seqlen_k' p_dropout softmax_scale zero_tensors is_causal num_splits w
        = (Inr r2, w2)
      \<longrightarrow> batch_size_of cu_seqlens_q * num_heads_of q * 32 \<le> 2147483647
      \<longrightarrow> reserved (trace w2)
            = reserved (trace w) @ [batch_size_of cu_seqlens_q * num_heads_of q * 32]) \<and>
     (mha_fwd_block K dprops q k v cu_seqlens_q cu_seqlens_k blockmask max_seqlen_q'
        max_seqlen_k' p_dropout softmax_scale is_causal return_softmax w = (Inr r3, w3)
      \<longrightarrow> (\<exists>p p' m m'. trace w3 = trace w @
                [Launch Fmha_block_fp16_sm80 True p m,
                 Philox (configure_elts_per_thread K
                   \<lparr>launch_params_params = p, launch_params_is_dropout = True,
                    launch_params_return_softmax = return_softmax,
                    launch_params_elts_per_thread = 0\<rparr>),
                 Launch Fmha_block_fp16_sm80 False p' m'])) \<and>
     (mha_bwd_block K dprops dout q k v out softmax_lse' dq dk dv cu_seqlens_q cu_seqlens_k
        blockmask max_seqlen_q' max_seqlen_k' p_dropout softmax_scale is_causal w = (Inr r4, w4)
      \<longrightarrow> reserved (trace w4) = reserved (trace w) @ [4])"
proof (intro conjI impI)
  assume a: "mha_fwd K dprops q k v out cu_seqlens_q cu_seqlens_k max_seqlen_q' max_seqlen_k'
        p_dropout softmax_scale zero_tensors is_causal return_softmax num_splits w = (Inr r1, w1)"
    and r: "batch_size_of cu_seqlens_q * num_heads_of q * 32 \<le> 2147483647"
  show "reserved (trace w1) = reserved (trace w) @ [batch_size_of cu_seqlens_q * num_heads_of q * 32]"
  proof (cases rule: mha_fwd_outcome[of K dprops q k v out cu_seqlens_q cu_seqlens_k
        max_seqlen_q' max_seqlen_k' p_dropout softmax_scale zero_tensors is_causal
        return_softmax num_splits w])
    case (ran r params)
    note f = set_params_fprop_Inr[OF ran(3)]
    have b: "0 < batch_size_of cu_seqlens_q"
      using mha_fwd_validate_None(1)[OF ran(2)] by (simp add: batch_size_of_def)
    have h: "0 \<le> num_heads_of q"
      using sizes_nonneg[OF mha_fwd_validate_None(3)[OF ran(2)]] by (simp add: num_heads_of_def)
    from a ran(4) show ?thesis
      using assms counter_offset_in_range[OF b h r]
      by (auto simp: mha_fwd_launch_reserved f(2,3) batch_size_of_def num_heads_of_def)
  qed (use a in simp_all)
next
  assume a: "mha_bwd K dprops dout q k v out softmax_lse' dq dk dv cu_seqlens_q cu_seqlens_k
        max_seqlen_q' max_seqlen_k' p_dropout softmax_scale zero_tensors is_causal num_splits w
        = (Inr r2, w2)"
    and r: "batch_size_of cu_seqlens_q * num_heads_of q * 32 \<le> 2147483647"
  show "reserved (trace w2) = reserved (trace w) @ [batch_size_of cu_seqlens_q * num_heads_of q * 32]"
  proof (cases rule: mha_bwd_outcome[of K dprops dout q k v out softmax_lse' dq dk dv
        cu_seqlens_q cu_seqlens_k max_seqlen_q' max_seqlen_k' p_dropout softmax_scale
        zero_tensors is_causal num_splits w])
    case (ran r params)
    note f = set_params_dgrad_Inr[OF ran(5)]
    have b: "0 < batch_size_of cu_seqlens_q"
      using mha_bwd_validate_None(1)[OF ran(2)] by (simp add: batch_size_of_def)
    have h: "0 \<le> num_heads_of q"
      using sizes_nonneg[OF mha_bwd_validate_None(3)[OF ran(2)]] by (simp add: num_heads_of_def)
    from a ran(6) show ?thesis
      using assms counter_offset_in_range[OF b h r]
      by (auto simp: mha_bwd_launch_reserved f(2,3) batch_size_of_def num_heads_of_def)
  qed (use a in simp_all)
next
  assume a: "mha_fwd_block K dprops q k v cu_seqlens_q cu_seqlens_k blockmask max_seqlen_q'
        max_seqlen_k' p_dropout softmax_scale is_causal return_softmax w = (Inr r3, w3)"
  show "\<exists>p p' m m'. trace w3 = trace w @
                [Launch Fmha_block_fp16_sm80 True p m,
                 Philox (configure_elts_per_thread K
                   \<lparr>launch_params_params = p, launch_params_is_dropout = True,
                    launch_params_return_softmax = return_softmax,
                    launch_params_elts_per_thread = 0\<rparr>),
                 Launch Fmha_block_fp16_sm80 False p' m']"
  proof (cases rule: mha_fwd_block_outcome[of K dprops q k v cu_seqlens_q cu_seqlens_k
        blockmask max_seqlen_q' max_seqlen_k' p_dropout softmax_scale is_causal
        return_softmax w])
    case (ran r params)
    from a ran(4) show ?thesis
      using assms
      by (auto simp: mha_fwd_block_launch_trace block_launch_params_def)
  qed (use a in simp_all)
next
  assume a: "mha_bwd_block K dprops dout q k v out softmax_lse' dq dk dv cu_seqlens_q
        cu_seqlens_k blockmask max_seqlen_q' max_seqlen_k' p_dropout softmax_scale is_causal w
        = (Inr r4, w4)"
  show "reserved (trace w4) = reserved (trace w) @ [4]"
  proof (cases rule: mha_bwd_block_outcome[of K dprops dout q k v out softmax_lse' dq dk dv
        cu_seqlens_q cu_seqlens_k blockmask max_seqlen_q' max_seqlen_k' p_dropout
        softmax_scale is_causal w])
    case (ran r params)
    from a ran(6) show ?thesis
      using assms by (auto simp: mha_bwd_block_launch_trace)
  qed (use a in simp_all)
qed

subsection \<open>What the entry points do\<close>

text \<open>
  Claim C5. An accepted call of \<open>mha_fwd\<close> with \<open>zero_tensors\<close> set dispatches one kernel,
  last, and at that dispatch every element of \<open>out\<close> is zero, every element of
  \<open>softmax_lse\<close> is minus infinity and, when the probability matrix was requested, every
  element of \<open>s\<close> is zero.
\<close>

theorem prefill_before_launch:
  assumes "mha_fwd K dprops q k v out cu_seqlens_q cu_seqlens_k max_seqlen_q' max_seqlen_k'
     p_dropout softmax_scale True is_causal return_softmax num_splits w = (Inr r, w')"
  shows "\<exists>kid p m es. trace w' = trace w @ es @ [Launch kid False p m] \<and> launched es = [] \<and>
     m B_out = map (\<lambda>x. Num 0) (mem w B_out) \<and>
     m B_softmax_lse
       = replicate (nat (batch_size_of cu_seqlens_q * num_heads_of q * max_seqlen_q_of max_seqlen_q'))
           NegInf \<and>
     (return_softmax \<longrightarrow>
        m B_s = replicate (nat (batch_size_of cu_seqlens_q * num_heads_of q
                   * max_seqlen_q_of max_seqlen_q' * params_seqlen_k p)) (Num 0))"
proof (cases rule: mha_fwd_outcome[of K dprops q k v out cu_seqlens_q cu_seqlens_k
        max_seqlen_q' max_seqlen_k' p_dropout softmax_scale True is_causal
        return_softmax num_splits w])
  case (ran r' params)
  let ?tile = "blocksize_c_fwd (int32 (sizes_at q D_DIM))"
  let ?w4 = "mha_fwd_alloc (loop_of ?tile (max_seqlen_k_of ?tile max_seqlen_k'))
          return_softmax True (int32 (numel cu_seqlens_q - 1))
          (int32 (sizes_at q TOTAL_DIM)) (int32 (sizes_at q H_DIM))
          (int32 (sizes_at q D_DIM)) (max_seqlen_q_of max_seqlen_q')
          (max_seqlen_k_of ?tile max_seqlen_k') w"
  let ?off = "int32 (int32 (params_b params * params_h params) * 32)"
  let ?p = "fst (reserve_philox (p_dropout > 0) ?off params ?w4)"
  let ?es = "if p_dropout > 0 then [Philox ?off] else []"
  note f = set_params_fprop_Inr[OF ran(3)]
  have d: "params_d params \<le> 128"
    using mha_fwd_validate_None(2)[OF ran(2)] f(4) by simp
  from assms ran(4) have w': "w' = mha_fwd_launch K (p_dropout > 0) return_softmax params ?w4"
    by simp
  have t: "trace w' = trace w @ ?es @ [Launch (fwd_kernel_of (params_d params)) False ?p (mem ?w4)]"
    unfolding w' mha_fwd_launch_trace[OF d] by simp
  have k: "params_seqlen_k ?p = max_seqlen_k_of ?tile max_seqlen_k'"
    by (simp add: reserve_philox_simps f)
  have "launched ?es = []" by simp
  moreover have "mem ?w4 B_out = map (\<lambda>x. Num 0) (mem w B_out)"
    by (simp add: mha_fwd_alloc_mem)
  moreover have "mem ?w4 B_softmax_lse
       = replicate (nat (batch_size_of cu_seqlens_q * num_heads_of q * max_seqlen_q_of max_seqlen_q'))
           NegInf"
    by (simp add: mha_fwd_alloc_mem batch_size_of_def num_heads_of_def mult.assoc)
  moreover have "return_softmax \<longrightarrow>
        mem ?w4 B_s = replicate (nat (batch_size_of cu_seqlens_q * num_heads_of q
                   * max_seqlen_q_of max_seqlen_q' * params_seqlen_k ?p)) (Num 0)"
    unfolding k by (simp add: mha_fwd_alloc_mem batch_size_of_def num_heads_of_def mult.assoc)
  ultimately show ?thesis using t by blast
qed (use assms in simp_all)

text \<open>
  Claim C6, as amended. The check of line 117 is on the drop probability: a call whose
  drop probability is not below 1, that is whose keep probability is not above 0, is
  rejected by each of the four entry points, with no kernel dispatched and nothing
  reserved from the generator; equivalently an accepted call has a keep probability
  above 0. A keep probability of 1 or more (a drop probability of 0 or less) passes.
\<close>

theorem dropout_probability_validated:
  assumes "\<not> p_dropout < 1"
  shows
    "(\<not> accepted (mha_fwd K dprops q k v out cu_seqlens_q cu_seqlens_k max_seqlen_q'
          max_seqlen_k' p_dropout softmax_scale zero_tensors is_causal return_softmax
          num_splits w) \<and>
      trace (snd (mha_fwd K dprops q k v out cu_seqlens_q cu_seqlens_k max_seqlen_q'
          max_seqlen_k' p_dropout softmax_scale zero_tensors is_causal return_softmax
          num_splits w)) = trace w) \<and>
     (\<not> accepted (mha_bwd K dprops dout q k v out softmax_lse' dq dk dv cu_seqlens_q
          cu_seqlens_k max_seqlen_q' max_seqlen_k' p_dropout softmax_scale zero_tensors
          is_causal num_splits w) \<and>
      trace (snd (mha_bwd K dprops dout q k v out softmax_lse' dq dk dv cu_seqlens_q
          cu_seqlens_k max_seqlen_q' max_seqlen_k' p_dropout softmax_scale zero_tensors
          is_causal num_splits w)) = trace w) \<and>
     (\<not> accepted (mha_fwd_block K dprops q k v cu_seqlens_q cu_seqlens_k blockmask
          max_seqlen_q' max_seqlen_k' p_dropout softmax_scale is_causal return_softmax w) \<and>
      trace (snd (mha_fwd_block K dprops q k v cu_seqlens_q cu_seqlens_k blockmask
          max_seqlen_q' max_seqlen_k' p_dropout softmax_scale is_causal return_softmax w))
        = trace w) \<and>
     (\<not> accepted (mha_bwd_block K dprops dout q k v out softmax_lse' dq dk dv cu_seqlens_q
          cu_seqlens_k blockmask max_seqlen_q' max_seqlen_k' p_dropout softmax_scale
          is_causal w) \<and>
      trace (snd (mha_bwd_block K dprops dout q k v out softmax_lse' dq dk dv cu_seqlens_q
          cu_seqlens_k blockmask max_seqlen_q' max_seqlen_k' p_dropout softmax_scale
          is_causal w)) = trace w)"
proof (intro conjI)
  show "\<not> accepted (mha_fwd K dprops q k v out cu_seqlens_q cu_seqlens_k max_seqlen_q'
          max_seqlen_k' p_dropout softmax_scale zero_tensors is_causal return_softmax
          num_splits w)"
    "trace (snd (mha_fwd K dprops q k v out cu_seqlens_q cu_seqlens_k max_seqlen_q'
          max_seqlen_k' p_dropout softmax_scale zero_tensors is_causal return_softmax
          num_splits w)) = trace w"
    using assms
    by (cases rule: mha_fwd_outcome[of K dprops q k v out cu_seqlens_q cu_seqlens_k
        max_seqlen_q' max_seqlen_k' p_dropout softmax_scale zero_tensors is_causal
        return_softmax num_splits w]; simp add: accepted_def)+
  show "\<not> accepted (mha_bwd K dprops dout q k v out softmax_lse' dq dk dv cu_seqlens_q
          cu_seqlens_k max_seqlen_q' max_seqlen_k' p_dropout softmax_scale zero_tensors
          is_causal num_splits w)"
    "trace (snd (mha_bwd K dprops dout q k v out softmax_lse' dq dk dv cu_seqlens_q
          cu_seqlens_k max_seqlen_q' max_seqlen_k' p_dropout softmax_scale zero_tensors
          is_causal num_splits w)) = trace w"
    using assms
    by (cases rule: mha_bwd_outcome[of K dprops dout q k v out softmax_lse' dq dk dv
        cu_seqlens_q cu_seqlens_k max_seqlen_q' max_seqlen_k' p_dropout softmax_scale
        zero_tensors is_causal num_splits w]; simp add: accepted_def)+
  show "\<not> accepted (mha_fwd_block K dprops q k v cu_seqlens_q cu_seqlens_k blockmask
          max_seqlen_q' max_seqlen_k' p_dropout softmax_scale is_causal return_softmax w)"
    "trace (snd (mha_fwd_block K dprops q k v cu_seqlens_q cu_seqlens_k blockmask
          max_seqlen_q' max_seqlen_k' p_dropout softmax_scale is_causal return_softmax w))
        = trace w"
    using assms
    by (cases rule: mha_fwd_block_outcome[of K dprops q k v cu_seqlens_q cu_seqlens_k
        blockmask max_seqlen_q' max_seqlen_k' p_dropout softmax_scale is_causal
        return_softmax w]; simp add: accepted_def)+
  show "\<not> accepted (mha_bwd_block K dprops dout q k v out softmax_lse' dq dk dv cu_seqlens_q
          cu_seqlens_k blockmask max_seqlen_q' max_seqlen_k' p_dropout softmax_scale
          is_causal w)"
    "trace (snd (mha_bwd_block K dprops dout q k v out softmax_lse' dq dk dv cu_seqlens_q
          cu_seqlens_k blockmask max_seqlen_q' max_seqlen_k' p_dropout softmax_scale
          is_causal w)) = trace w"
    using assms
    by (cases rule: mha_bwd_block_outcome[of K dprops dout q k v out softmax_lse' dq dk dv
        cu_seqlens_q cu_seqlens_k blockmask max_seqlen_q' max_seqlen_k' p_dropout
        softmax_scale is_causal w]; simp add: accepted_def)+
qed


lemma mha_fwd_block_validate_head:
  assumes "mha_fwd_block_validate dprops q k v cu_seqlens_q cu_seqlens_k blockmask
     max_seqlen_q' max_seqlen_k' = None"
  shows "head_size_of q \<in> {16, 32, 64, 128}"
  using assms unfolding mha_fwd_block_validate_def Let_def first_error_None head_size_of_def
  by simp

lemma mha_bwd_block_validate_head:
  assumes "mha_bwd_block_validate dprops dout q k v out softmax_lse' dq dk dv cu_seqlens_q
     cu_seqlens_k blockmask max_seqlen_q' max_seqlen_k' = None"
  shows "head_size_of q \<in> {16, 32, 64, 128}"
  using assms unfolding mha_bwd_block_validate_def Let_def first_error_None head_size_of_def
  by simp

text \<open>
  Claim C9. A block-sparse forward or backward call whose head dimension is not 16, 32,
  64 or 128 raises and leaves the world as it was: nothing is dispatched.
\<close>

theorem block_sparse_head_dimensions:
  assumes "head_size_of q \<notin> {16, 32, 64, 128}"
  shows
    "(\<exists>e. mha_fwd_block K dprops q k v cu_seqlens_q cu_seqlens_k blockmask max_seqlen_q'
            max_seqlen_k' p_dropout softmax_scale is_causal return_softmax w = (Inl e, w)) \<and>
     (\<exists>e. mha_bwd_block K dprops dout q k v out softmax_lse' dq dk dv cu_seqlens_q
            cu_seqlens_k blockmask max_seqlen_q' max_seqlen_k' p_dropout softmax_scale
            is_causal w = (Inl e, w))"
proof
  obtain e where "mha_fwd_block_validate dprops q k v cu_seqlens_q cu_seqlens_k blockmask
     max_seqlen_q' max_seqlen_k' = Some e"
    using assms mha_fwd_block_validate_head by (metis option.exhaust)
  then show "\<exists>e. mha_fwd_block K dprops q k v cu_seqlens_q cu_seqlens_k blockmask max_seqlen_q'
            max_seqlen_k' p_dropout softmax_scale is_causal return_softmax w = (Inl e, w)"
    by (simp add: mha_fwd_block_def)
next
  obtain e where "mha_bwd_block_validate dprops dout q k v out softmax_lse' dq dk dv
     cu_seqlens_q cu_seqlens_k blockmask max_seqlen_q' max_seqlen_k' = Some e"
    using assms mha_bwd_block_validate_head by (metis option.exhaust)
  then show "\<exists>e. mha_bwd_block K dprops dout q k v out softmax_lse' dq dk dv cu_seqlens_q
            cu_seqlens_k blockmask max_seqlen_q' max_seqlen_k' p_dropout softmax_scale
            is_causal w = (Inl e, w)"
    by (simp add: mha_bwd_block_def)
qed

lemma mha_fwd_block_launch_reserved:
  "reserved (trace (mha_fwd_block_launch K False rs p w)) = reserved (trace w)"
  by (simp add: mha_fwd_block_launch_trace)

lemma mha_bwd_block_launch_reserved:
  "reserved (trace (mha_bwd_block_launch K False p w)) = reserved (trace w)"
  by (simp add: mha_bwd_block_launch_trace)

text \<open>
  Claim C10. With a drop probability of 0, whatever the outcome of the call, each of the
  four entry points leaves the seed and the offset of the generator as they were and
  reserves nothing.
\<close>

theorem no_dropout_generator_untouched:
  "generator_untouched w
     (snd (mha_fwd K dprops q k v out cu_seqlens_q cu_seqlens_k max_seqlen_q' max_seqlen_k'
             0 softmax_scale zero_tensors is_causal return_softmax num_splits w)) \<and>
   generator_untouched w
     (snd (mha_bwd K dprops dout q k v out softmax_lse' dq dk dv cu_seqlens_q cu_seqlens_k
             max_seqlen_q' max_seqlen_k' 0 softmax_scale zero_tensors is_causal num_splits w)) \<and>
   generator_untouched w
     (snd (mha_fwd_block K dprops q k v cu_seqlens_q cu_seqlens_k blockmask max_seqlen_q'
             max_seqlen_k' 0 softmax_scale is_causal return_softmax w)) \<and>
   generator_untouched w
     (snd (mha_bwd_block K dprops dout q k v out softmax_lse' dq dk dv cu_seqlens_q
             cu_seqlens_k blockmask max_seqlen_q' max_seqlen_k' 0 softmax_scale is_causal w))"
proof (intro conjI)
  show "generator_untouched w
     (snd (mha_fwd K dprops q k v out cu_seqlens_q cu_seqlens_k max_seqlen_q' max_seqlen_k'
             0 softmax_scale zero_tensors is_causal return_softmax num_splits w))"
    by (cases rule: mha_fwd_outcome[of K dprops q k v out cu_seqlens_q cu_seqlens_k
        max_seqlen_q' max_seqlen_k' 0 softmax_scale zero_tensors is_causal
        return_softmax num_splits w])
      (simp_all add: generator_untouched_def mha_fwd_launch_reserved)
  show "generator_untouched w
     (snd (mha_bwd K dprops dout q k v out softmax_lse' dq dk dv cu_seqlens_q cu_seqlens_k
             max_seqlen_q' max_seqlen_k' 0 softmax_scale zero_tensors is_causal num_splits w))"
    by (cases rule: mha_bwd_outcome[of K dprops dout q k v out softmax_lse' dq dk dv
        cu_seqlens_q cu_seqlens_k max_seqlen_q' max_seqlen_k' 0 softmax_scale
        zero_tensors is_causal num_splits w])
      (simp_all add: generator_untouched_def mha_bwd_launch_reserved)
  show "generator_untouched w
     (snd (mha_fwd_block K dprops q k v cu_seqlens_q cu_seqlens_k blockmask max_seqlen_q'
             max_seqlen_k' 0 softmax_scale is_causal return_softmax w))"
    by (cases rule: mha_fwd_block_outcome[of K dprops q k v cu_seqlens_q cu_seqlens_k
        blockmask max_seqlen_q' max_seqlen_k' 0 softmax_scale is_causal
        return_softmax w])
      (simp_all add: generator_untouched_def mha_fwd_block_launch_trace)
  show "generator_untouched w
     (snd (mha_bwd_block K dprops dout q k v out softmax_lse' dq dk dv cu_seqlens_q
             cu_seqlens_k blockmask max_seqlen_q' max_seqlen_k' 0 softmax_scale is_causal w))"
    by (cases rule: mha_bwd_block_outcome[of K dprops dout q k v out softmax_lse' dq dk dv
        cu_seqlens_q cu_seqlens_k blockmask max_seqlen_q' max_seqlen_k' 0
        softmax_scale is_causal w])
      (simp_all add: generator_untouched_def mha_bwd_block_launch_trace)
qed

subsection \<open>The LogSumExp in the backward pass\<close>

lemma nth_concat_uniform:
  assumes "\<And>x. x \<in> set xss \<Longrightarrow> length x = L" "i < length xss" "q < L"
  shows "concat xss ! (i * L + q) = xss ! i ! q"
  using assms
proof (induction xss arbitrary: i)
  case Nil
  then show ?case by simp
next
  case (Cons a xss)
  show ?case
  proof (cases i)
    case 0
    with Cons.prems show ?thesis by (simp add: nth_append)
  next
    case (Suc i')
    have "concat xss ! (i' * L + q) = xss ! i' ! q"
      using Cons.prems Suc by (intro Cons.IH) auto
    moreover have "length a = L" using Cons.prems by simp
    ultimately show ?thesis using Suc by (simp add: nth_append)
  qed
qed

lemma length_concat_uniform:
  assumes "\<And>x. x \<in> set xss \<Longrightarrow> length x = L"
  shows "length (concat xss) = length xss * L"
  using assms by (induction xss) auto

lemma length_offsets_Cons:
  "length (offsets ((n, st) # r)) = n * length (offsets r)"
proof -
  have "length (concat (map (\<lambda>i. map (\<lambda>x. int i * st + x) (offsets r)) [0..<n]))
        = length (map (\<lambda>i. map (\<lambda>x. int i * st + x) (offsets r)) [0..<n]) * length (offsets r)"
    by (rule length_concat_uniform) auto
  then show ?thesis by simp
qed

lemma nth_offsets_Cons:
  assumes "i < n" "q < length (offsets r)"
  shows "offsets ((n, st) # r) ! (i * length (offsets r) + q) = int i * st + offsets r ! q"
proof -
  have "concat (map (\<lambda>i. map (\<lambda>x. int i * st + x) (offsets r)) [0..<n]) ! (i * length (offsets r) + q)
        = map (\<lambda>i. map (\<lambda>x. int i * st + x) (offsets r)) [0..<n] ! i ! q"
    using assms by (intro nth_concat_uniform) auto
  then show ?thesis using assms by simp
qed

lemma index_in_range:
  assumes "i < b" "j < h" "k < (n::nat)"
  shows "(i * h + j) * n + k < b * h * n"
proof -
  have "i * h + j < i * h + h" using assms by simp
  also have "\<dots> = (i + 1) * h" by simp
  also have "\<dots> \<le> b * h" using assms by (intro mult_le_mono1) simp
  finally have r: "i * h + j + 1 \<le> b * h" by simp
  have "(i * h + j) * n + k < (i * h + j) * n + n" using assms by simp
  also have "\<dots> = (i * h + j + 1) * n" by simp
  also have "\<dots> \<le> b * h * n" using r by (intro mult_le_mono1)
  finally show ?thesis .
qed

lemma offsets_three:
  "length (offsets [(b, s0), (h, s1), (n, s2)]) = b * h * n"
  "i < b \<Longrightarrow> j < h \<Longrightarrow> k < n \<Longrightarrow>
     offsets [(b, s0), (h, s1), (n, s2)] ! ((i * h + j) * n + k)
       = int i * s0 + int j * s1 + int k * s2"
proof -
  have l1: "length (offsets [(n, s2)]) = n"
    using length_offsets_Cons[of n s2 "[]"] by simp
  have l2: "length (offsets [(h, s1), (n, s2)]) = h * n"
    using length_offsets_Cons[of h s1 "[(n, s2)]"] l1 by simp
  show "length (offsets [(b, s0), (h, s1), (n, s2)]) = b * h * n"
    using length_offsets_Cons[of b s0 "[(h, s1), (n, s2)]"] l2 by simp
  assume a: "i < b" "j < h" "k < n"
  have n1: "offsets [(n, s2)] ! k = int k * s2"
    using nth_offsets_Cons[of k n 0 "[]" s2] a by simp
  have jk: "j * n + k < h * n"
    using index_in_range[of 0 1 j h k n] a by simp
  have n2: "offsets [(h, s1), (n, s2)] ! (j * n + k) = int j * s1 + int k * s2"
    using nth_offsets_Cons[of j h k "[(n, s2)]" s1] a l1 n1 by simp
  have "offsets [(b, s0), (h, s1), (n, s2)] ! (i * (h * n) + (j * n + k))
          = int i * s0 + (int j * s1 + int k * s2)"
    using nth_offsets_Cons[of i b "j * n + k" "[(h, s1), (n, s2)]" s0] a l2 jk n2 by simp
  moreover have "i * (h * n) + (j * n + k) = (i * h + j) * n + k"
    by (simp add: algebra_simps)
  ultimately show "offsets [(b, s0), (h, s1), (n, s2)] ! ((i * h + j) * n + k)
       = int i * s0 + int j * s1 + int k * s2"
    by simp
qed

lemma dense_three:
  assumes "dense_from 1 [(n, s2), (h, s1), (b, s0)]" "i < b" "j < h" "k < n"
  shows "int i * s0 + int j * s1 + int k * s2 = int ((i * h + j) * n + k)"
  using assms by (auto simp: algebra_simps split: if_splits)

lemma index_three:
  assumes "x < b * h * (n::nat)"
  shows "\<exists>i j k. i < b \<and> j < h \<and> k < n \<and> x = (i * h + j) * n + k"
proof -
  have n: "0 < n" using assms by (cases n) auto
  have h: "0 < h" using assms by (cases h) auto
  let ?r = "x div n"
  have r: "?r < b * h" using assms n by (simp add: less_mult_imp_div_less)
  have "?r div h < b" using r h by (simp add: less_mult_imp_div_less mult.commute)
  moreover have "?r mod h < h" using h by simp
  moreover have "x mod n < n" using n by simp
  moreover have "x = ((?r div h) * h + ?r mod h) * n + x mod n" by simp
  ultimately show ?thesis by blast
qed

lemma dims_three:
  assumes "length (dims t) = 3"
  obtains b s0 h s1 n s2 where "dims t = [(b, s0), (h, s1), (n, s2)]"
proof -
  from assms obtain x y z where "dims t = [x, y, z]"
    by (auto simp: length_Suc_conv numeral_3_eq_3)
  then show ?thesis by (cases x, cases y, cases z) (auto intro: that)
qed

lemma dims_index_slice_dim2:
  assumes "dims t = [(b, s0), (h, s1), (n, s2)]" "0 \<le> stop"
  shows "dims (index_slice_dim2 t stop) = [(b, s0), (h, s1), (nat (min (int n) stop), s2)]"
  using assms by (simp add: index_slice_dim2_def sizes_at_def slice_len_def)

lemma softmax_lse_data_ptr_cases:
  "softmax_lse_data_ptr lse mq
     = (if is_contiguous (index_slice_dim2 lse mq) then B_softmax_lse_arg else B_softmax_lse)"
  by (simp add: softmax_lse_data_ptr_def contiguous_buf_def)

lemma dgrad_pointed:
  assumes "set_params_dgrad b sq sk h d q k v out dq dk dv (Some B_cu_seqlens_q)
     (Some B_cu_seqlens_k) (if lp then Some B_dq_tmp else None) (Some B_dout)
     (Some lb) (Some B_softmax_d) p sc ic ns = Inr params"
  shows "B_softmax_lse_arg \<in> set (pointed params) \<longrightarrow> lb = B_softmax_lse_arg"
    "B_softmax_lse_arg \<in> set (pointed (params\<lparr>params_blockmask := Some B_blockmask\<rparr>))
       \<longrightarrow> lb = B_softmax_lse_arg"
    "B_softmax_lse_arg \<in> set (pointed (params\<lparr>params_blockmask := Some B_blockmask,
        params_philox_args := x\<rparr>)) \<longrightarrow> lb = B_softmax_lse_arg"
    "B_softmax_lse_arg \<in> set (pointed (bwd_exec_params K isd lp' params w))
       \<longrightarrow> lb = B_softmax_lse_arg"
    "params_softmax_lse_ptr (bwd_exec_params K isd lp' params w) = Some lb"
    "params_b (bwd_exec_params K isd lp' params w) = b"
    "params_h (bwd_exec_params K isd lp' params w) = h"
    "params_seqlen_q (bwd_exec_params K isd lp' params w) = sq"
  using set_params_dgrad_Inr[OF assms]
  by (simp_all add: pointed_def bwd_exec_params_def Let_def split: if_splits)

lemma dgrad_outputs:
  assumes "set_params_dgrad b sq sk h d q k v out dq dk dv (Some B_cu_seqlens_q)
     (Some B_cu_seqlens_k) (if lp then Some B_dq_tmp else None) (Some B_dout)
     (Some lb) (Some B_softmax_d) p sc ic ns = Inr params"
  shows "B_softmax_lse_arg \<notin> set (bwd_outputs (params\<lparr>params_blockmask := Some B_blockmask\<rparr>))"
    "B_softmax_lse_arg \<notin> set (bwd_outputs (params\<lparr>params_blockmask := Some B_blockmask,
        params_philox_args := x\<rparr>))"
    "B_softmax_lse_arg \<notin> set (bwd_outputs (bwd_exec_params K isd lp' params w))"
    "B_softmax_lse \<notin> set (bwd_outputs (bwd_exec_params K isd lp' params w))"
    "B_softmax_lse \<notin> set (bwd_outputs (params\<lparr>params_blockmask := Some B_blockmask\<rparr>))"
    "B_softmax_lse \<notin> set (bwd_outputs (params\<lparr>params_blockmask := Some B_blockmask,
        params_philox_args := x\<rparr>))"
  using set_params_dgrad_Inr[OF assms]
  by (simp_all add: bwd_outputs_def bwd_exec_params_def Let_def)

lemma mha_bwd_exec_lse_ptr:
  assumes a: "mha_bwd K dprops dout q k v out softmax_lse' dq dk dv cu_seqlens_q cu_seqlens_k
        max_seqlen_q' max_seqlen_k' p_dropout softmax_scale zero_tensors is_causal num_splits w
        = (Inr r, w')"
    and t: "trace w' = es @ [Launch kid c p1 m1]"
  shows "params_softmax_lse_ptr p1
           = Some (softmax_lse_data_ptr softmax_lse' (max_seqlen_q_of max_seqlen_q'))"
proof -
  let ?tile = "blocksize_c_bwd (dprops_major dprops = 7 \<and> dprops_minor dprops = 5)
                (int32 (sizes_at q D_DIM))"
  let ?lp = "loop_of ?tile (max_seqlen_k_of ?tile max_seqlen_k')"
  let ?mq = "max_seqlen_q_of max_seqlen_q'"
  let ?w4 = "mha_bwd_alloc softmax_lse' ?lp zero_tensors (int32 (numel cu_seqlens_q - 1))
              (int32 (sizes_at q TOTAL_DIM)) (int32 (sizes_at q H_DIM))
              (int32 (sizes_at q D_DIM)) ?mq w"
  from a obtain params where
    v: "mha_bwd_validate dprops dout q k v out softmax_lse' dq dk dv cu_seqlens_q cu_seqlens_k
         = None"
    and sp: "set_params_dgrad (int32 (numel cu_seqlens_q - 1)) ?mq
         (max_seqlen_k_of ?tile max_seqlen_k')
         (int32 (sizes_at q H_DIM)) (int32 (sizes_at q D_DIM)) q k v out dq dk dv
         (Some B_cu_seqlens_q) (Some B_cu_seqlens_k)
         (if ?lp then Some B_dq_tmp else None)
         (Some B_dout) (Some (softmax_lse_data_ptr softmax_lse' ?mq)) (Some B_softmax_d)
         p_dropout softmax_scale is_causal num_splits = Inr params"
    and w': "w' = mha_bwd_launch K (p_dropout > 0) ?lp (int32 (sizes_at q TOTAL_DIM))
                 (int32 (sizes_at q H_DIM)) (int32 (sizes_at q D_DIM)) params ?w4"
    by (rule mha_bwd_accepted)
  have d: "params_d params \<le> 128"
    using mha_bwd_validate_None(2)[OF v] set_params_dgrad_Inr(4)[OF sp] by simp
  have "p1 = bwd_exec_params K (p_dropout > 0) ?lp params ?w4"
    using t unfolding w' mha_bwd_launch_trace[OF d] by (simp split: if_splits)
  then show ?thesis using dgrad_pointed(5)[OF sp] by simp
qed


declare offsets.simps [simp del]

lemma storage_at_int:
  "storage_at xs (int x) = (if x < length xs then xs ! x else Uninit)"
  by (simp add: storage_at_def)

lemma first_along_last_elements:
  assumes "length (dims t) = 3" "0 \<le> n"
  shows "first_along_last t n xs (elements (index_slice_dim2 t n) xs)"
proof -
  from assms(1) obtain b s0 h s1 m s2 where d: "dims t = [(b, s0), (h, s1), (m, s2)]"
    by (rule dims_three)
  let ?len = "nat (min (int m) n)"
  have v: "dims (index_slice_dim2 t n) = [(b, s0), (h, s1), (?len, s2)]"
    using d assms(2) by (rule dims_index_slice_dim2)
  have "storage_at (elements (index_slice_dim2 t n) xs) (int ((i * h + j) * ?len + k))
          = entry t xs i j k" if "i < b" "j < h" "k < ?len" for i j k
  proof -
    have r: "(i * h + j) * ?len + k < b * h * ?len"
      using that by (rule index_in_range)
    then have "storage_at (elements (index_slice_dim2 t n) xs) (int ((i * h + j) * ?len + k))
                 = elements (index_slice_dim2 t n) xs ! ((i * h + j) * ?len + k)"
      unfolding storage_at_int by (simp add: elements_def v offsets_three(1))
    also have "\<dots> = storage_at xs (offsets [(b, s0), (h, s1), (?len, s2)] ! ((i * h + j) * ?len + k))"
      using r by (simp add: elements_def v offsets_three(1))
    also have "\<dots> = entry t xs i j k"
      using that by (simp add: offsets_three(2) entry_def d)
    finally show ?thesis .
  qed
  then show ?thesis
    by (simp add: first_along_last_def Let_def d sizes_at_def)
qed

lemma contiguous_three:
  assumes "dims t = [(b, s0), (h, s1), (m, s2)]" "is_contiguous t"
  shows "b * h * m = 0 \<or> dense_from 1 [(m, s2), (h, s1), (b, s0)]"
proof -
  have "numel t = int (b * h * m)" by (simp add: numel_def sizes_def assms(1))
  then show ?thesis using assms(2) by (auto simp: is_contiguous_def assms(1))
qed

lemma entry_view:
  assumes d: "dims t = [(b, s0), (h, s1), (m, s2)]" and n: "0 \<le> n"
    and c: "is_contiguous (index_slice_dim2 t n)"
    and r: "i < b" "j < h" "k < nat (min (int m) n)"
  shows "entry t xs i j k = storage_at xs (int ((i * h + j) * nat (min (int m) n) + k))"
proof -
  let ?len = "nat (min (int m) n)"
  have v: "dims (index_slice_dim2 t n) = [(b, s0), (h, s1), (?len, s2)]"
    using d n by (rule dims_index_slice_dim2)
  have "b * h * ?len \<noteq> 0" using r by auto
  with contiguous_three[OF v c] have "dense_from 1 [(?len, s2), (h, s1), (b, s0)]" by blast
  then have "int i * s0 + int j * s1 + int k * s2 = int ((i * h + j) * ?len + k)"
    using r by (rule dense_three)
  then show ?thesis by (simp add: entry_def d)
qed

lemma first_along_last_view:
  assumes "length (dims t) = 3" "0 \<le> n" "is_contiguous (index_slice_dim2 t n)"
  shows "first_along_last t n xs xs"
proof -
  from assms(1) obtain b s0 h s1 m s2 where d: "dims t = [(b, s0), (h, s1), (m, s2)]"
    by (rule dims_three)
  show ?thesis
    using entry_view[OF d assms(2,3)]
    by (simp add: first_along_last_def Let_def d sizes_at_def)
qed

lemma agree_elements:
  assumes "length (dims t) = 3" "0 \<le> n" "agree_on_first t n xs ys"
  shows "elements (index_slice_dim2 t n) ys = elements (index_slice_dim2 t n) xs"
proof -
  from assms(1) obtain b s0 h s1 m s2 where d: "dims t = [(b, s0), (h, s1), (m, s2)]"
    by (rule dims_three)
  let ?len = "nat (min (int m) n)"
  let ?os = "offsets [(b, s0), (h, s1), (?len, s2)]"
  have v: "dims (index_slice_dim2 t n) = [(b, s0), (h, s1), (?len, s2)]"
    using d assms(2) by (rule dims_index_slice_dim2)
  have a: "entry t ys i j k = entry t xs i j k" if "i < b" "j < h" "k < ?len" for i j k
    using assms(3) that by (simp add: agree_on_first_def d sizes_at_def)
  have "storage_at ys (?os ! x) = storage_at xs (?os ! x)" if "x < b * h * ?len" for x
  proof -
    from that obtain i j k where r: "i < b" "j < h" "k < ?len" and x: "x = (i * h + j) * ?len + k"
      using index_three by blast
    have "?os ! x = int i * s0 + int j * s1 + int k * s2"
      unfolding x using r by (rule offsets_three(2))
    then show ?thesis using a[OF r] by (simp add: entry_def d)
  qed
  then have "map (storage_at ys) ?os = map (storage_at xs) ?os"
    by (intro nth_equalityI) (simp_all add: offsets_three(1))
  then show ?thesis by (simp add: elements_def v)
qed

lemma agree_take:
  assumes "length (dims t) = 3" "0 \<le> n" "agree_on_first t n xs ys"
    and c: "is_contiguous (index_slice_dim2 t n)"
  shows "take (fst (dims t ! 0) * fst (dims t ! 1) * nat (min (sizes_at t 2) n)) ys
         = take (fst (dims t ! 0) * fst (dims t ! 1) * nat (min (sizes_at t 2) n)) xs"
proof -
  from assms(1) obtain b s0 h s1 m s2 where d: "dims t = [(b, s0), (h, s1), (m, s2)]"
    by (rule dims_three)
  let ?len = "nat (min (int m) n)"
  let ?N = "b * h * ?len"
  have l: "length ys = length xs" using assms(3) by (simp add: agree_on_first_def)
  have a: "entry t ys i j k = entry t xs i j k" if "i < b" "j < h" "k < ?len" for i j k
    using assms(3) that by (simp add: agree_on_first_def d sizes_at_def)
  have "ys ! x = xs ! x" if "x < min ?N (length xs)" for x
  proof -
    from that obtain i j k where r: "i < b" "j < h" "k < ?len" and x: "x = (i * h + j) * ?len + k"
      using index_three[of x b h ?len] by auto
    have "storage_at ys (int x) = storage_at xs (int x)"
      using a[OF r] unfolding entry_view[OF d assms(2) c r] x .
    then show ?thesis using that l unfolding storage_at_int by simp
  qed
  then have "take (min ?N (length xs)) ys = take (min ?N (length xs)) xs"
    using l by (intro nth_take_lemma) simp_all
  moreover have "take (min ?N (length xs)) ys = take ?N ys" using l by (simp add: min_def)
  moreover have "take (min ?N (length xs)) xs = take ?N xs" by (simp add: min_def)
  ultimately have "take ?N ys = take ?N xs" by simp
  then show ?thesis by (simp add: d sizes_at_def)
qed

lemma lse_extent:
  assumes "length (dims t) = 3" "0 \<le> n" "lse_of_forward t cu q n"
  shows "nat (batch_size_of cu * num_heads_of q * n)
         = fst (dims t ! 0) * fst (dims t ! 1) * nat (min (sizes_at t 2) n)"
proof -
  from assms(1) obtain b s0 h s1 m s2 where d: "dims t = [(b, s0), (h, s1), (m, s2)]"
    by (rule dims_three)
  from assms(3) have e: "batch_size_of cu = int b" "num_heads_of q = int h" "n \<le> int m"
    by (simp_all add: lse_of_forward_def d sizes_at_def)
  have "nat (int b * int h * n) = b * h * nat n"
    using assms(2) by (simp add: nat_mult_distrib)
  then show ?thesis using e by (simp add: d sizes_at_def min_def)
qed

lemma visible_cong:
  assumes "\<forall>b. b \<noteq> B_softmax_lse_arg \<longrightarrow> m2 b = m b"
    and "B_softmax_lse_arg \<in> set (pointed p) \<longrightarrow>
           params_softmax_lse_ptr p = Some B_softmax_lse_arg \<and>
           take (nat (params_b p * params_h p * params_seqlen_q p)) (m2 B_softmax_lse_arg)
             = take (nat (params_b p * params_h p * params_seqlen_q p)) (m B_softmax_lse_arg)"
  shows "visible p m2 = visible p m"
proof
  fix b
  show "visible p m2 b = visible p m b"
  proof (cases "b = B_softmax_lse_arg")
    case True
    then show ?thesis using assms(2) by (simp add: visible_def)
  next
    case False
    with assms(1) show ?thesis by (simp add: visible_def)
  qed
qed


lemma same_but_lse_refl: "same_but_lse w w"
  by (simp add: same_but_lse_def)

lemma mha_bwd_alloc_same:
  assumes "same_but_lse w w2"
    and "elements (index_slice_dim2 lse mq) (mem w2 B_softmax_lse_arg)
           = elements (index_slice_dim2 lse mq) (mem w B_softmax_lse_arg)"
  shows "same_but_lse (mha_bwd_alloc lse lp zt b tq h d mq w) (mha_bwd_alloc lse lp zt b tq h d mq w2)"
  using assms by (simp add: same_but_lse_def mha_bwd_alloc_def Let_def)

lemma mha_bwd_block_alloc_same:
  assumes "same_but_lse w w2"
    and "elements (index_slice_dim2 lse mq) (mem w2 B_softmax_lse_arg)
           = elements (index_slice_dim2 lse mq) (mem w B_softmax_lse_arg)"
  shows "same_but_lse (mha_bwd_block_alloc lse lp b tq h d mq w)
           (mha_bwd_block_alloc lse lp b tq h d mq w2)"
  using assms by (simp add: same_but_lse_def mha_bwd_block_alloc_def Let_def)

lemma bwd_exec_same:
  assumes "same_but_lse w w2"
  shows "bwd_exec_params K isd lp params w2 = bwd_exec_params K isd lp params w"
    and "\<forall>b. b \<noteq> B_softmax_lse_arg \<longrightarrow>
           bwd_exec_mem K lp ns params w2 b = bwd_exec_mem K lp ns params w b"
  using assms by (simp_all add: same_but_lse_def bwd_exec_params_def bwd_exec_mem_def Let_def)

lemma bwd_exec_mem_lse:
  "bwd_exec_mem K lp ns params w B_softmax_lse_arg = mem w B_softmax_lse_arg"
  "bwd_exec_mem K lp ns params w B_softmax_lse = mem w B_softmax_lse"
  by (simp_all add: bwd_exec_mem_def)

lemma mha_bwd_launch_same:
  assumes s: "same_but_lse w w2" and d: "params_d params \<le> 128"
    and sp: "set_params_dgrad b sq sk h' d' q k v out dq dk dv (Some B_cu_seqlens_q)
     (Some B_cu_seqlens_k) (if lp then Some B_dq_tmp else None) (Some B_dout)
     (Some lb) (Some B_softmax_d) p sc ic ns = Inr params"
    and tk: "lb = B_softmax_lse_arg \<longrightarrow>
       take (nat (b * h' * sq)) (mem w2 B_softmax_lse_arg)
         = take (nat (b * h' * sq)) (mem w B_softmax_lse_arg)"
  shows "same_but_lse (mha_bwd_launch K isd lp tq h d params w)
           (mha_bwd_launch K isd lp tq h d params w2)"
proof -
  let ?p = "bwd_exec_params K isd lp params w"
  let ?m = "bwd_exec_mem K lp [tq, h, d] params w"
  let ?m2 = "bwd_exec_mem K lp [tq, h, d] params w2"
  have e: "bwd_exec_params K isd lp params w2 = ?p"
    "\<forall>b. b \<noteq> B_softmax_lse_arg \<longrightarrow> ?m2 b = ?m b"
    using bwd_exec_same[OF s] by blast+
  have "B_softmax_lse_arg \<in> set (pointed ?p) \<longrightarrow>
           params_softmax_lse_ptr ?p = Some B_softmax_lse_arg \<and>
           take (nat (params_b ?p * params_h ?p * params_seqlen_q ?p)) (?m2 B_softmax_lse_arg)
             = take (nat (params_b ?p * params_h ?p * params_seqlen_q ?p)) (?m B_softmax_lse_arg)"
    using dgrad_pointed(4)[OF sp, of K isd lp w] tk
    unfolding dgrad_pointed(5,6,7,8)[OF sp] bwd_exec_mem_lse by blast
  with e(2) have v: "visible ?p ?m2 = visible ?p ?m"
    by (rule visible_cong)
  have g: "gen_seed w2 = gen_seed w" "gen_offset w2 = gen_offset w"
    using s by (simp_all add: same_but_lse_def)
  have "mem (mha_bwd_launch K isd lp tq h d params w2) b
          = mem (mha_bwd_launch K isd lp tq h d params w) b" if "b \<noteq> B_softmax_lse_arg" for b
    using that e(2)
    unfolding mha_bwd_launch_mem[OF d] e(1) Let_def v
    by (simp add: device_write_def)
  then show ?thesis
    by (simp add: same_but_lse_def mha_bwd_launch_reserved g)
qed

lemma mha_bwd_block_launch_same:
  assumes s: "same_but_lse w w2"
    and sp: "set_params_dgrad b sq sk h' d' q k v out dq dk dv (Some B_cu_seqlens_q)
     (Some B_cu_seqlens_k) (if lp then Some B_dq_tmp else None) (Some B_dout)
     (Some lb) (Some B_softmax_d) p sc ic ns = Inr params"
    and tk: "lb = B_softmax_lse_arg \<longrightarrow>
       take (nat (b * h' * sq)) (mem w2 B_softmax_lse_arg)
         = take (nat (b * h' * sq)) (mem w B_softmax_lse_arg)"
  shows "same_but_lse (mha_bwd_block_launch K isd params w)
           (mha_bwd_block_launch K isd params w2)"
proof -
  have g: "gen_seed w2 = gen_seed w" "gen_offset w2 = gen_offset w"
    and m: "\<forall>b. b \<noteq> B_softmax_lse_arg \<longrightarrow> mem w2 b = mem w b"
    using s by (simp_all add: same_but_lse_def)
  note f = set_params_dgrad_Inr[OF sp]
  let ?p = "if isd then params\<lparr>params_blockmask := Some B_blockmask,
                           params_philox_args := (gen_seed w, gen_offset w)\<rparr>
             else params\<lparr>params_blockmask := Some B_blockmask\<rparr>"
  have pf: "params_softmax_lse_ptr ?p = Some lb" "params_b ?p = b" "params_h ?p = h'"
    "params_seqlen_q ?p = sq"
    by (simp_all add: f)
  have "B_softmax_lse_arg \<in> set (pointed ?p) \<longrightarrow> lb = B_softmax_lse_arg"
    using dgrad_pointed(2,3)[OF sp] by simp
  then have "B_softmax_lse_arg \<in> set (pointed ?p) \<longrightarrow>
           params_softmax_lse_ptr ?p = Some B_softmax_lse_arg \<and>
           take (nat (params_b ?p * params_h ?p * params_seqlen_q ?p)) (mem w2 B_softmax_lse_arg)
             = take (nat (params_b ?p * params_h ?p * params_seqlen_q ?p)) (mem w B_softmax_lse_arg)"
    using tk unfolding pf by blast
  with m have v: "visible ?p (mem w2) = visible ?p (mem w)"
    by (rule visible_cong)
  have "mem (mha_bwd_block_launch K isd params w2) b
          = mem (mha_bwd_block_launch K isd params w) b" if "b \<noteq> B_softmax_lse_arg" for b
    using that m
    unfolding mha_bwd_block_launch_mem g Let_def v
    by (simp add: device_write_def)
  then show ?thesis
    by (simp add: same_but_lse_def mha_bwd_block_launch_trace g)
qed

lemma mha_bwd_fst_indep:
  "fst (mha_bwd K dprops dout q k v out softmax_lse' dq dk dv cu_seqlens_q cu_seqlens_k
     max_seqlen_q' max_seqlen_k' p_dropout softmax_scale zero_tensors is_causal num_splits w2)
   = fst (mha_bwd K dprops dout q k v out softmax_lse' dq dk dv cu_seqlens_q cu_seqlens_k
     max_seqlen_q' max_seqlen_k' p_dropout softmax_scale zero_tensors is_causal num_splits w)"
  by (simp add: mha_bwd_def Let_def split: option.splits sum.splits)

lemma mha_bwd_block_fst_indep:
  "fst (mha_bwd_block K dprops dout q k v out softmax_lse' dq dk dv cu_seqlens_q cu_seqlens_k
     blockmask max_seqlen_q' max_seqlen_k' p_dropout softmax_scale is_causal w2)
   = fst (mha_bwd_block K dprops dout q k v out softmax_lse' dq dk dv cu_seqlens_q cu_seqlens_k
     blockmask max_seqlen_q' max_seqlen_k' p_dropout softmax_scale is_causal w)"
  by (simp add: mha_bwd_block_def Let_def split: option.splits sum.splits)

lemma lse_take:
  assumes three: "length (dims t) = 3" and n: "0 \<le> n"
    and f: "lse_of_forward t cu q n"
    and a: "agree_on_first t n xs ys"
  shows "softmax_lse_data_ptr t n = B_softmax_lse_arg \<longrightarrow>
           take (nat (batch_size_of cu * num_heads_of q * n)) ys
             = take (nat (batch_size_of cu * num_heads_of q * n)) xs"
proof
  assume "softmax_lse_data_ptr t n = B_softmax_lse_arg"
  then have c: "is_contiguous (index_slice_dim2 t n)"
    by (simp add: softmax_lse_data_ptr_cases split: if_splits)
  show "take (nat (batch_size_of cu * num_heads_of q * n)) ys
             = take (nat (batch_size_of cu * num_heads_of q * n)) xs"
    unfolding lse_extent[OF three n f] using three n a c by (rule agree_take)
qed

lemma lse_handed:
  assumes "length (dims t) = 3" "0 \<le> n"
    and "m B_softmax_lse_arg = xs"
    and "\<not> is_contiguous (index_slice_dim2 t n) \<longrightarrow>
           m B_softmax_lse = elements (index_slice_dim2 t n) xs"
  shows "first_along_last t n xs (m (softmax_lse_data_ptr t n))"
proof (cases "is_contiguous (index_slice_dim2 t n)")
  case True
  then show ?thesis
    using first_along_last_view[OF assms(1,2) True, of xs] assms(3)
    by (simp add: softmax_lse_data_ptr_cases)
next
  case False
  then show ?thesis
    using first_along_last_elements[OF assms(1,2), of xs] assms(4)
    by (simp add: softmax_lse_data_ptr_cases)
qed


text \<open>
  Claim C8. Let the caller's LogSumExp tensor have three dimensions. An accepted call of
  \<open>mha_bwd\<close> or \<open>mha_bwd_block\<close> leaves the storage of that tensor as it was. The kernel is
  pointed to the data of \<open>softmax_lse\<close>, a place that holds, row after row, the first
  \<open>max_seqlen_q\<close> entries along the last axis of the tensor, and is told that length as its
  query length. When the tensor
  has one row for every batch entry and head of the call, as the forward pass leaves it,
  and the rows are at least that long, the call does not depend on the other entries: run
  in a world whose LogSumExp storage differs in them only, it returns the same and leaves
  a world that differs from the first in that storage only.
\<close>

theorem lse_read_only:
  assumes three: "length (dims softmax_lse') = 3"
  shows
    "(mha_bwd K dprops dout q k v out softmax_lse' dq dk dv cu_seqlens_q cu_seqlens_k
        max_seqlen_q' max_seqlen_k' p_dropout softmax_scale zero_tensors is_causal num_splits w
        = (Inr r, w')
      \<longrightarrow> mem w' B_softmax_lse_arg = mem w B_softmax_lse_arg \<and>
          (\<exists>kid p0 m0 es p1 m1.
             trace w' = trace w @ [Launch kid True p0 m0] @ es @ [Launch kid False p1 m1] \<and>
             launched es = [] \<and>
             params_softmax_lse_ptr p1
               = Some (softmax_lse_data_ptr softmax_lse' (max_seqlen_q_of max_seqlen_q')) \<and>
             params_seqlen_q p1 = max_seqlen_q_of max_seqlen_q' \<and>
             first_along_last softmax_lse' (max_seqlen_q_of max_seqlen_q')
               (mem w B_softmax_lse_arg)
               (m1 (softmax_lse_data_ptr softmax_lse' (max_seqlen_q_of max_seqlen_q')))) \<and>
          (\<forall>w2. lse_of_forward softmax_lse' cu_seqlens_q q (max_seqlen_q_of max_seqlen_q') \<and>
                same_but_lse w w2 \<and>
                agree_on_first softmax_lse' (max_seqlen_q_of max_seqlen_q')
                  (mem w B_softmax_lse_arg) (mem w2 B_softmax_lse_arg)
             \<longrightarrow> (\<exists>w2'. mha_bwd K dprops dout q k v out softmax_lse' dq dk dv cu_seqlens_q
                    cu_seqlens_k max_seqlen_q' max_seqlen_k' p_dropout softmax_scale
                    zero_tensors is_causal num_splits w2 = (Inr r, w2') \<and>
                 same_but_lse w' w2'))) \<and>
     (mha_bwd_block K dprops dout q k v out softmax_lse' dq dk dv cu_seqlens_q cu_seqlens_k
        blockmask max_seqlen_q' max_seqlen_k' p_dropout softmax_scale is_causal w
        = (Inr rb, wb')
      \<longrightarrow> mem wb' B_softmax_lse_arg = mem w B_softmax_lse_arg \<and>
          (\<exists>kid es p1 m1.
             trace wb' = trace w @ es @ [Launch kid False p1 m1] \<and>
             launched es = [] \<and>
             params_softmax_lse_ptr p1
               = Some (softmax_lse_data_ptr softmax_lse' (max_seqlen_q_of max_seqlen_q')) \<and>
             params_seqlen_q p1 = max_seqlen_q_of max_seqlen_q' \<and>
             first_along_last softmax_lse' (max_seqlen_q_of max_seqlen_q')
               (mem w B_softmax_lse_arg)
               (m1 (softmax_lse_data_ptr softmax_lse' (max_seqlen_q_of max_seqlen_q')))) \<and>
          (\<forall>w2. lse_of_forward softmax_lse' cu_seqlens_q q (max_seqlen_q_of max_seqlen_q') \<and>
                same_but_lse w w2 \<and>
                agree_on_first softmax_lse' (max_seqlen_q_of max_seqlen_q')
                  (mem w B_softmax_lse_arg) (mem w2 B_softmax_lse_arg)
             \<longrightarrow> (\<exists>w2'. mha_bwd_block K dprops dout q k v out softmax_lse' dq dk dv
                    cu_seqlens_q cu_seqlens_k blockmask max_seqlen_q' max_seqlen_k' p_dropout
                    softmax_scale is_causal w2 = (Inr rb, w2') \<and>
                 same_but_lse wb' w2')))"
proof (intro conjI impI allI)
  assume a: "mha_bwd K dprops dout q k v out softmax_lse' dq dk dv cu_seqlens_q cu_seqlens_k
        max_seqlen_q' max_seqlen_k' p_dropout softmax_scale zero_tensors is_causal num_splits w
        = (Inr r, w')"
  let ?tile = "blocksize_c_bwd (dprops_major dprops = 7 \<and> dprops_minor dprops = 5)
                (int32 (sizes_at q D_DIM))"
  let ?lp = "loop_of ?tile (max_seqlen_k_of ?tile max_seqlen_k')"
  let ?mq = "max_seqlen_q_of max_seqlen_q'"
  let ?lb = "softmax_lse_data_ptr softmax_lse' ?mq"
  let ?alloc = "mha_bwd_alloc softmax_lse' ?lp zero_tensors (int32 (numel cu_seqlens_q - 1))
              (int32 (sizes_at q TOTAL_DIM)) (int32 (sizes_at q H_DIM))
              (int32 (sizes_at q D_DIM)) ?mq"
  let ?launch = "\<lambda>params. mha_bwd_launch K (p_dropout > 0) ?lp (int32 (sizes_at q TOTAL_DIM))
                 (int32 (sizes_at q H_DIM)) (int32 (sizes_at q D_DIM)) params"
  let ?ns = "[int32 (sizes_at q TOTAL_DIM), int32 (sizes_at q H_DIM), int32 (sizes_at q D_DIM)]"
  from a obtain params where
    v: "mha_bwd_validate dprops dout q k v out softmax_lse' dq dk dv cu_seqlens_q cu_seqlens_k
         = None"
    and mq: "0 \<le> ?mq"
    and sp: "set_params_dgrad (int32 (numel cu_seqlens_q - 1)) ?mq
         (max_seqlen_k_of ?tile max_seqlen_k')
         (int32 (sizes_at q H_DIM)) (int32 (sizes_at q D_DIM)) q k v out dq dk dv
         (Some B_cu_seqlens_q) (Some B_cu_seqlens_k)
         (if ?lp then Some B_dq_tmp else None)
         (Some B_dout) (Some ?lb) (Some B_softmax_d)
         p_dropout softmax_scale is_causal num_splits = Inr params"
    and w': "w' = ?launch params (?alloc w)"
    by (cases rule: mha_bwd_outcome[of K dprops dout q k v out softmax_lse' dq dk dv
        cu_seqlens_q cu_seqlens_k max_seqlen_q' max_seqlen_k' p_dropout softmax_scale
        zero_tensors is_causal num_splits w]) auto
  note f = set_params_dgrad_Inr[OF sp]
  have d: "params_d params \<le> 128"
    using mha_bwd_validate_None(2)[OF v] f(4) by simp
  let ?p1 = "bwd_exec_params K (p_dropout > 0) ?lp params (?alloc w)"
  let ?m1 = "bwd_exec_mem K ?lp ?ns params (?alloc w)"
  let ?es = "if p_dropout > 0
             then [Philox (int32 (int32 (params_b params * params_h params) * 32))] else []"
  show "mem w' B_softmax_lse_arg = mem w B_softmax_lse_arg"
    unfolding w' mha_bwd_launch_mem[OF d] Let_def
    using dgrad_outputs(3)[OF sp]
    by (simp add: device_write_def bwd_exec_mem_def mha_bwd_alloc_mem)
  have t: "trace w' = trace w @ [Launch (bwd_kernel_of (params_d params)) True params
                                   (mem (?alloc w))]
             @ ?es @ [Launch (bwd_kernel_of (params_d params)) False ?p1 ?m1]"
    unfolding w' mha_bwd_launch_trace[OF d] by simp
  have "launched ?es = []" by simp
  moreover have "first_along_last softmax_lse' ?mq (mem w B_softmax_lse_arg) (?m1 ?lb)"
    using three mq by (rule lse_handed) (simp_all add: bwd_exec_mem_lse mha_bwd_alloc_mem)
  ultimately show "\<exists>kid p0 m0 es p1 m1.
             trace w' = trace w @ [Launch kid True p0 m0] @ es @ [Launch kid False p1 m1] \<and>
             launched es = [] \<and>
             params_softmax_lse_ptr p1 = Some ?lb \<and>
             params_seqlen_q p1 = ?mq \<and>
             first_along_last softmax_lse' ?mq (mem w B_softmax_lse_arg) (m1 ?lb)"
    using t dgrad_pointed(5,8)[OF sp] by blast
  fix w2
  assume h: "lse_of_forward softmax_lse' cu_seqlens_q q ?mq \<and> same_but_lse w w2 \<and>
             agree_on_first softmax_lse' ?mq (mem w B_softmax_lse_arg) (mem w2 B_softmax_lse_arg)"
  then have fw: "lse_of_forward softmax_lse' cu_seqlens_q q ?mq"
    and same: "same_but_lse w w2"
    and ag: "agree_on_first softmax_lse' ?mq (mem w B_softmax_lse_arg) (mem w2 B_softmax_lse_arg)"
    by simp_all
  have r2: "fst (mha_bwd K dprops dout q k v out softmax_lse' dq dk dv cu_seqlens_q
                    cu_seqlens_k max_seqlen_q' max_seqlen_k' p_dropout softmax_scale
                    zero_tensors is_causal num_splits w2) = Inr r"
    using a by (simp add: mha_bwd_fst_indep[of _ _ _ _ _ _ _ _ _ _ _ _ _ _ _ _ _ _ _ _ w2 w])
  have w2': "mha_bwd K dprops dout q k v out softmax_lse' dq dk dv cu_seqlens_q
                    cu_seqlens_k max_seqlen_q' max_seqlen_k' p_dropout softmax_scale
                    zero_tensors is_causal num_splits w2 = (Inr r, ?launch params (?alloc w2))"
    using r2 sp
    by (cases rule: mha_bwd_outcome[of K dprops dout q k v out softmax_lse' dq dk dv
        cu_seqlens_q cu_seqlens_k max_seqlen_q' max_seqlen_k' p_dropout softmax_scale
        zero_tensors is_causal num_splits w2]) auto
  have sa: "same_but_lse (?alloc w) (?alloc w2)"
    using same agree_elements[OF three mq ag] by (rule mha_bwd_alloc_same)
  have "?lb = B_softmax_lse_arg \<longrightarrow>
       take (nat (int32 (numel cu_seqlens_q - 1) * int32 (sizes_at q H_DIM) * ?mq))
            (mem (?alloc w2) B_softmax_lse_arg)
         = take (nat (int32 (numel cu_seqlens_q - 1) * int32 (sizes_at q H_DIM) * ?mq))
            (mem (?alloc w) B_softmax_lse_arg)"
    using lse_take[OF three mq fw ag]
    by (simp add: mha_bwd_alloc_mem batch_size_of_def num_heads_of_def H_DIM_def)
  with sa d sp have "same_but_lse (?launch params (?alloc w)) (?launch params (?alloc w2))"
    by (rule mha_bwd_launch_same)
  with w2' show "\<exists>w2'. mha_bwd K dprops dout q k v out softmax_lse' dq dk dv cu_seqlens_q
                    cu_seqlens_k max_seqlen_q' max_seqlen_k' p_dropout softmax_scale
                    zero_tensors is_causal num_splits w2 = (Inr r, w2') \<and>
                 same_but_lse w' w2'"
    unfolding w' by blast
next
  assume a: "mha_bwd_block K dprops dout q k v out softmax_lse' dq dk dv cu_seqlens_q
        cu_seqlens_k blockmask max_seqlen_q' max_seqlen_k' p_dropout softmax_scale is_causal w
        = (Inr rb, wb')"
  let ?lp = "max_seqlen_k_block max_seqlen_k' > 256"
  let ?mq = "max_seqlen_q_of max_seqlen_q'"
  let ?lb = "softmax_lse_data_ptr softmax_lse' ?mq"
  let ?alloc = "mha_bwd_block_alloc softmax_lse' ?lp (int32 (numel cu_seqlens_q - 1))
              (int32 (sizes_at q TOTAL_DIM)) (int32 (sizes_at q H_DIM))
              (int32 (sizes_at q D_DIM)) ?mq"
  let ?launch = "\<lambda>params. mha_bwd_block_launch K (p_dropout > 0) params"
  from a obtain params where
    mq: "0 \<le> ?mq"
    and sp: "set_params_dgrad (int32 (numel cu_seqlens_q - 1)) ?mq
         (max_seqlen_k_block max_seqlen_k')
         (int32 (sizes_at q H_DIM)) (int32 (sizes_at q D_DIM)) q k v out dq dk dv
         (Some B_cu_seqlens_q) (Some B_cu_seqlens_k)
         (if ?lp then Some B_dq_tmp else None)
         (Some B_dout) (Some ?lb) (Some B_softmax_d)
         p_dropout softmax_scale is_causal 1 = Inr params"
    and w': "wb' = ?launch params (?alloc w)"
    by (cases rule: mha_bwd_block_outcome[of K dprops dout q k v out softmax_lse' dq dk dv
        cu_seqlens_q cu_seqlens_k blockmask max_seqlen_q' max_seqlen_k' p_dropout
        softmax_scale is_causal w]) auto
  note f = set_params_dgrad_Inr[OF sp]
  let ?p1 = "if p_dropout > 0
             then params\<lparr>params_blockmask := Some B_blockmask,
                         params_philox_args := (gen_seed (?alloc w), gen_offset (?alloc w))\<rparr>
             else params\<lparr>params_blockmask := Some B_blockmask\<rparr>"
  let ?es = "if p_dropout > 0 then [Philox 4] else []"
  have o: "B_softmax_lse_arg \<notin> set (bwd_outputs ?p1)"
    using dgrad_outputs(1,2)[OF sp] by simp
  have lp: "params_softmax_lse_ptr ?p1 = Some ?lb" "params_seqlen_q ?p1 = ?mq"
    by (simp_all add: f)
  show "mem wb' B_softmax_lse_arg = mem w B_softmax_lse_arg"
    unfolding w' mha_bwd_block_launch_mem Let_def
    using o by (simp add: device_write_def mha_bwd_block_alloc_mem)
  have t: "trace wb' = trace w @ ?es @ [Launch Fmha_block_dgrad_fp16_sm80 False ?p1
                                          (mem (?alloc w))]"
    unfolding w' mha_bwd_block_launch_trace by simp
  have "launched ?es = []" by simp
  moreover have "first_along_last softmax_lse' ?mq (mem w B_softmax_lse_arg)
                   (mem (?alloc w) ?lb)"
    using three mq by (rule lse_handed) (simp_all add: mha_bwd_block_alloc_mem)
  ultimately show "\<exists>kid es p1 m1.
             trace wb' = trace w @ es @ [Launch kid False p1 m1] \<and>
             launched es = [] \<and>
             params_softmax_lse_ptr p1 = Some ?lb \<and>
             params_seqlen_q p1 = ?mq \<and>
             first_along_last softmax_lse' ?mq (mem w B_softmax_lse_arg) (m1 ?lb)"
    using t lp by blast
  fix w2
  assume h: "lse_of_forward softmax_lse' cu_seqlens_q q ?mq \<and> same_but_lse w w2 \<and>
             agree_on_first softmax_lse' ?mq (mem w B_softmax_lse_arg) (mem w2 B_softmax_lse_arg)"
  then have fw: "lse_of_forward softmax_lse' cu_seqlens_q q ?mq"
    and same: "same_but_lse w w2"
    and ag: "agree_on_first softmax_lse' ?mq (mem w B_softmax_lse_arg) (mem w2 B_softmax_lse_arg)"
    by simp_all
  have r2: "fst (mha_bwd_block K dprops dout q k v out softmax_lse' dq dk dv cu_seqlens_q
                    cu_seqlens_k blockmask max_seqlen_q' max_seqlen_k' p_dropout softmax_scale
                    is_causal w2) = Inr rb"
    using a by (simp add: mha_bwd_block_fst_indep[of _ _ _ _ _ _ _ _ _ _ _ _ _ _ _ _ _ _ _ w2 w])
  have w2': "mha_bwd_block K dprops dout q k v out softmax_lse' dq dk dv cu_seqlens_q
                    cu_seqlens_k blockmask max_seqlen_q' max_seqlen_k' p_dropout softmax_scale
                    is_causal w2 = (Inr rb, ?launch params (?alloc w2))"
    using r2 sp
    by (cases rule: mha_bwd_block_outcome[of K dprops dout q k v out softmax_lse' dq dk dv
        cu_seqlens_q cu_seqlens_k blockmask max_seqlen_q' max_seqlen_k' p_dropout
        softmax_scale is_causal w2]) auto
  have sa: "same_but_lse (?alloc w) (?alloc w2)"
    using same agree_elements[OF three mq ag] by (rule mha_bwd_block_alloc_same)
  have "?lb = B_softmax_lse_arg \<longrightarrow>
       take (nat (int32 (numel cu_seqlens_q - 1) * int32 (sizes_at q H_DIM) * ?mq))
            (mem (?alloc w2) B_softmax_lse_arg)
         = take (nat (int32 (numel cu_seqlens_q - 1) * int32 (sizes_at q H_DIM) * ?mq))
            (mem (?alloc w) B_softmax_lse_arg)"
    using lse_take[OF three mq fw ag]
    by (simp add: mha_bwd_block_alloc_mem batch_size_of_def num_heads_of_def H_DIM_def)
  with sa sp have "same_but_lse (?launch params (?alloc w)) (?launch params (?alloc w2))"
    by (rule mha_bwd_block_launch_same)
  with w2' show "\<exists>w2'. mha_bwd_block K dprops dout q k v out softmax_lse' dq dk dv
                    cu_seqlens_q cu_seqlens_k blockmask max_seqlen_q' max_seqlen_k' p_dropout
                    softmax_scale is_causal w2 = (Inr rb, w2') \<and>
                 same_but_lse wb' w2'"
    unfolding w' by blast
qed


subsection \<open>The properties at concrete inputs\<close>

lemma mha_fwd_accepted_iff:
  "accepted (mha_fwd K dprops q k v out cu_seqlens_q cu_seqlens_k max_seqlen_q' max_seqlen_k'
     p_dropout softmax_scale zero_tensors is_causal return_softmax num_splits w) \<longleftrightarrow>
   mha_fwd_validate dprops q k v out cu_seqlens_q cu_seqlens_k = None \<and>
   first_error
     [alloc_ok 277 [int32 (numel cu_seqlens_q - 1), int32 (sizes_at q H_DIM),
                    max_seqlen_q_of max_seqlen_q'],
      if return_softmax
      then alloc_ok 281 [int32 (numel cu_seqlens_q - 1), int32 (sizes_at q H_DIM),
             max_seqlen_q_of max_seqlen_q',
             max_seqlen_k_of (blocksize_c_fwd (int32 (sizes_at q D_DIM))) max_seqlen_k']
      else None] = None \<and>
   p_dropout < 1"
  by (simp add: mha_fwd_def Let_def accepted_case_option accepted_case_sum)

lemma mha_bwd_accepted_iff:
  "accepted (mha_bwd K dprops dout q k v out softmax_lse' dq dk dv cu_seqlens_q cu_seqlens_k
     max_seqlen_q' max_seqlen_k' p_dropout softmax_scale zero_tensors is_causal num_splits w) \<longleftrightarrow>
   mha_bwd_validate dprops dout q k v out softmax_lse' dq dk dv cu_seqlens_q cu_seqlens_k = None \<and>
   first_error
     [index_ok 440 softmax_lse',
      alloc_ok 443 [int32 (numel cu_seqlens_q - 1), int32 (sizes_at q H_DIM),
                    max_seqlen_q_of max_seqlen_q']] = None \<and>
   p_dropout < 1"
  by (simp add: mha_bwd_def Let_def accepted_case_option accepted_case_sum)

lemma mha_fwd_block_accepted_iff:
  "accepted (mha_fwd_block K dprops q k v cu_seqlens_q cu_seqlens_k blockmask max_seqlen_q'
     max_seqlen_k' p_dropout softmax_scale is_causal return_softmax w) \<longleftrightarrow>
   mha_fwd_block_validate dprops q k v cu_seqlens_q cu_seqlens_k blockmask max_seqlen_q'
     max_seqlen_k' = None \<and>
   first_error
     [alloc_ok 587 [int32 (numel cu_seqlens_q - 1), int32 (sizes_at q H_DIM),
                    max_seqlen_q_of max_seqlen_q'],
      if return_softmax
      then alloc_ok 591 [int32 (numel cu_seqlens_q - 1), int32 (sizes_at q H_DIM),
             max_seqlen_q_of max_seqlen_q', max_seqlen_k_block max_seqlen_k']
      else None] = None \<and>
   p_dropout < 1"
  by (simp add: mha_fwd_block_def Let_def accepted_case_option accepted_case_sum)

lemma mha_bwd_block_accepted_iff:
  "accepted (mha_bwd_block K dprops dout q k v out softmax_lse' dq dk dv cu_seqlens_q
     cu_seqlens_k blockmask max_seqlen_q' max_seqlen_k' p_dropout softmax_scale is_causal w)
   \<longleftrightarrow>
   mha_bwd_block_validate dprops dout q k v out softmax_lse' dq dk dv cu_seqlens_q
     cu_seqlens_k blockmask max_seqlen_q' max_seqlen_k' = None \<and>
   first_error
     [index_ok 730 softmax_lse',
      alloc_ok 733 [int32 (numel cu_seqlens_q - 1), int32 (sizes_at q H_DIM),
                    max_seqlen_q_of max_seqlen_q']] = None \<and>
   p_dropout < 1"
  by (simp add: mha_bwd_block_def Let_def accepted_case_option accepted_case_sum)

lemma ex_block_validate:
  "mha_fwd_block_validate sm80 ex_q ex_q ex_q ex_cu_seqlens ex_cu_seqlens ex_blockmask 16 200
     = None"
  "mha_bwd_block_validate sm80 ex_q ex_q ex_q ex_q ex_q ex_lse ex_q ex_q ex_q ex_cu_seqlens
     ex_cu_seqlens ex_blockmask 16 200 = None"
  by (simp_all add: mha_fwd_block_validate_def mha_bwd_block_validate_def Let_def tensor_defs
      ex_defs signed_divide_int_def)

lemma ex_accepted:
  "p < 1 \<Longrightarrow> accepted (mha_fwd ex_kernels sm80 ex_q ex_q ex_q ex_q ex_cu_seqlens ex_cu_seqlens
     20 300 p 1 zt False rs 1 (ex_world 32))"
  "p < 1 \<Longrightarrow> accepted (mha_bwd ex_kernels sm80 ex_q ex_q ex_q ex_q ex_q ex_lse ex_q ex_q ex_q
     ex_cu_seqlens ex_cu_seqlens 20 300 p 1 zt False 1 (ex_world 32))"
  "p < 1 \<Longrightarrow> accepted (mha_fwd_block ex_kernels sm80 ex_q ex_q ex_q ex_cu_seqlens ex_cu_seqlens
     ex_blockmask 16 200 p 1 False rs (ex_world 32))"
  "p < 1 \<Longrightarrow> accepted (mha_bwd_block ex_kernels sm80 ex_q ex_q ex_q ex_q ex_q ex_lse ex_q ex_q
     ex_q ex_cu_seqlens ex_cu_seqlens ex_blockmask 16 200 p 1 False w)"
  "p < 1 \<Longrightarrow> accepted (mha_bwd ex_kernels sm80 ex_q ex_q ex_q ex_q ex_q ex_lse ex_q ex_q ex_q
     ex_cu_seqlens ex_cu_seqlens 16 300 p 1 zt False 1 w)"
  "p < 1 \<Longrightarrow> accepted (mha_bwd ex_kernels sm75 ex_q64 ex_q64 ex_q64 ex_q64 ex_q64 ex_lse
     ex_q64 ex_q64 ex_q64 ex_cu_seqlens ex_cu_seqlens 20 300 p 1 zt False 1 (ex_world 128))"
  by (simp_all add: mha_fwd_accepted_iff mha_bwd_accepted_iff mha_fwd_block_accepted_iff
      mha_bwd_block_accepted_iff ex_fwd_validate ex_bwd_validate ex_block_validate
      blocksize_c_fwd_def first_error_None)

lemma ex_sizes [simp]:
  "batch_size_of ex_cu_seqlens = 1" "num_heads_of ex_q = 1" "total_q_of ex_q = 2"
  "head_size_of ex_q = 16" "head_size_of ex_q64 = 64" "num_heads_of ex_q64 = 1"
  "total_q_of ex_q64 = 2"
  by (simp_all add: batch_size_of_def num_heads_of_def total_q_of_def head_size_of_def)

lemma ex_world_simps [simp]:
  "trace (ex_world n) = []" "gen_seed (ex_world n) = 7" "gen_offset (ex_world n) = 0"
  "mem (ex_world n) B_out = replicate n (Num 5)"
  "mem (ex_world n) B_dq = replicate n (Num 5)"
  "mem (ex_world n) B_softmax_lse_arg = replicate 32 (Num 3)"
  by (simp_all add: ex_world_def)

lemma int32_numeral [simp]: "int32 1 = 1" "int32 32 = 32" "int32 (1 * 1) = 1"
  by (simp_all add: int32_def)

text \<open>
  The theorem of claim C1 at the concrete setting, with the drop probability 1/2: the
  dense calls reserve \<open>1 * 1 * 32\<close>, the block-sparse forward call the 8 of its plan, the
  block-sparse backward call 4.
\<close>

theorem counter_offset_reserved_witness:
  "(0::real) < 1/2 \<and>
   accepted (mha_fwd ex_kernels sm80 ex_q ex_q ex_q ex_q ex_cu_seqlens ex_cu_seqlens
     20 300 (1/2) 1 True False True 1 (ex_world 32)) \<and>
   reserved (trace (snd (mha_fwd ex_kernels sm80 ex_q ex_q ex_q ex_q ex_cu_seqlens ex_cu_seqlens
     20 300 (1/2) 1 True False True 1 (ex_world 32)))) = [32] \<and>
   accepted (mha_bwd ex_kernels sm80 ex_q ex_q ex_q ex_q ex_q ex_lse ex_q ex_q ex_q
     ex_cu_seqlens ex_cu_seqlens 20 300 (1/2) 1 True False 1 (ex_world 32)) \<and>
   reserved (trace (snd (mha_bwd ex_kernels sm80 ex_q ex_q ex_q ex_q ex_q ex_lse ex_q ex_q ex_q
     ex_cu_seqlens ex_cu_seqlens 20 300 (1/2) 1 True False 1 (ex_world 32)))) = [32] \<and>
   accepted (mha_fwd_block ex_kernels sm80 ex_q ex_q ex_q ex_cu_seqlens ex_cu_seqlens
     ex_blockmask 16 200 (1/2) 1 False True (ex_world 32)) \<and>
   reserved (trace (snd (mha_fwd_block ex_kernels sm80 ex_q ex_q ex_q ex_cu_seqlens ex_cu_seqlens
     ex_blockmask 16 200 (1/2) 1 False True (ex_world 32)))) = [8] \<and>
   accepted (mha_bwd_block ex_kernels sm80 ex_q ex_q ex_q ex_q ex_q ex_lse ex_q ex_q
     ex_q ex_cu_seqlens ex_cu_seqlens ex_blockmask 16 200 (1/2) 1 False (ex_world 32)) \<and>
   reserved (trace (snd (mha_bwd_block ex_kernels sm80 ex_q ex_q ex_q ex_q ex_q ex_lse ex_q ex_q
     ex_q ex_cu_seqlens ex_cu_seqlens ex_blockmask 16 200 (1/2) 1 False (ex_world 32)))) = [4]"
proof -
  have p: "(0::real) < 1/2" "(1/2::real) < 1" by simp_all
  note acc = ex_accepted[OF p(2)]
  obtain r1 w1 where e1: "mha_fwd ex_kernels sm80 ex_q ex_q ex_q ex_q ex_cu_seqlens ex_cu_seqlens
     20 300 (1/2) 1 True False True 1 (ex_world 32) = (Inr r1, w1)"
    using accepted_Inr[OF acc(1)] by blast
  obtain r2 w2 where e2: "mha_bwd ex_kernels sm80 ex_q ex_q ex_q ex_q ex_q ex_lse ex_q ex_q ex_q
     ex_cu_seqlens ex_cu_seqlens 20 300 (1/2) 1 True False 1 (ex_world 32) = (Inr r2, w2)"
    using accepted_Inr[OF acc(2)] by blast
  obtain r3 w3 where e3: "mha_fwd_block ex_kernels sm80 ex_q ex_q ex_q ex_cu_seqlens ex_cu_seqlens
     ex_blockmask 16 200 (1/2) 1 False True (ex_world 32) = (Inr r3, w3)"
    using accepted_Inr[OF acc(3)] by blast
  obtain r4 w4 where e4: "mha_bwd_block ex_kernels sm80 ex_q ex_q ex_q ex_q ex_q ex_lse ex_q ex_q
     ex_q ex_cu_seqlens ex_cu_seqlens ex_blockmask 16 200 (1/2) 1 False (ex_world 32) = (Inr r4, w4)"
    using accepted_Inr[OF acc(4)] by blast
  note t = counter_offset_reserved[OF p(1), of ex_kernels sm80 ex_q ex_q ex_q ex_q ex_cu_seqlens
      ex_cu_seqlens 20 300 1 True False True 1 "ex_world 32" r1 w1 ex_q ex_lse ex_q ex_q ex_q
      r2 w2]
  have "reserved (trace w1) = [32]" "reserved (trace w2) = [32]"
    using t e1 e2 by simp_all
  moreover have "reserved (trace w3) = [8]"
  proof -
    from counter_offset_reserved[OF p(1), THEN conjunct2, THEN conjunct2, THEN conjunct1,
        rule_format, OF e3]
    show ?thesis by (auto simp: ex_kernels_def)
  qed
  moreover have "reserved (trace w4) = [4]"
    using counter_offset_reserved[OF p(1), THEN conjunct2, THEN conjunct2, THEN conjunct2,
        rule_format, OF e4] by simp
  ultimately show ?thesis
    using p(1) by (simp add: e1 e2 e3 e4 accepted_def)
qed


lemma accepted_ran:
  assumes "accepted c" "c = (Inr r, w')"
  shows "snd c = w'" "fst c = Inr r"
  using assms by simp_all

text \<open>
  Claim C1 as stated fails for \<open>mha_bwd_block\<close>: with one batch entry and one head the
  accepted dropout-enabled call reserves 4, not \<open>1 * 1 * 32\<close>.
\<close>

theorem counter_offset_reserved_counterexample:
  "accepted (mha_bwd_block ex_kernels sm80 ex_q ex_q ex_q ex_q ex_q ex_lse ex_q ex_q
     ex_q ex_cu_seqlens ex_cu_seqlens ex_blockmask 16 200 (1/2) 1 False (ex_world 32)) \<and>
   reserved (trace (snd (mha_bwd_block ex_kernels sm80 ex_q ex_q ex_q ex_q ex_q ex_lse ex_q ex_q
     ex_q ex_cu_seqlens ex_cu_seqlens ex_blockmask 16 200 (1/2) 1 False (ex_world 32)))) = [4] \<and>
   batch_size_of ex_cu_seqlens * num_heads_of ex_q * 32 = 32"
proof -
  have acc: "accepted (mha_bwd_block ex_kernels sm80 ex_q ex_q ex_q ex_q ex_q ex_lse ex_q ex_q
     ex_q ex_cu_seqlens ex_cu_seqlens ex_blockmask 16 200 (1/2) 1 False (ex_world 32))"
    by (rule ex_accepted) simp
  have "reserved (trace (snd (mha_bwd_block ex_kernels sm80 ex_q ex_q ex_q ex_q ex_q ex_lse ex_q
     ex_q ex_q ex_cu_seqlens ex_cu_seqlens ex_blockmask 16 200 (1/2) 1 False (ex_world 32)))) = [4]"
    using acc
    by (cases rule: mha_bwd_block_outcome[of ex_kernels sm80 ex_q ex_q ex_q ex_q ex_q ex_lse
          ex_q ex_q ex_q ex_cu_seqlens ex_cu_seqlens ex_blockmask 16 200 "1/2" 1 False
          "ex_world 32"])
       (simp_all add: accepted_def mha_bwd_block_launch_trace)
  with acc show ?thesis by simp
qed

text \<open>
  Claim C2 as stated fails for \<open>mha_bwd\<close> on an SM75 device with head dimension 64: the
  raw key length 300 is padded to 384, a multiple of the tile size 128, and not to a
  multiple of the 256 that the claim derives from \<open>head_dim \<le> 64\<close>.
\<close>

theorem tiling_parameters_counterexample:
  "accepted (mha_bwd ex_kernels sm75 ex_q64 ex_q64 ex_q64 ex_q64 ex_q64 ex_lse
     ex_q64 ex_q64 ex_q64 ex_cu_seqlens ex_cu_seqlens 20 300 0 1 False False 1 (ex_world 128)) \<and>
   map (\<lambda>(kid, c, p). (c, params_seqlen_k p, params_o_tmp_ptr p))
     (launched (trace (snd (mha_bwd ex_kernels sm75 ex_q64 ex_q64 ex_q64 ex_q64 ex_q64 ex_lse
        ex_q64 ex_q64 ex_q64 ex_cu_seqlens ex_cu_seqlens 20 300 0 1 False False 1
        (ex_world 128)))))
     = [(True, 384, Some B_dq_tmp), (False, 384, Some B_dq_tmp)] \<and>
   head_size_of ex_q64 = 64 \<and>
   \<not> is_round_up (if head_size_of ex_q64 > 64 then 128 else 256) 300 384"
proof -
  let ?call = "mha_bwd ex_kernels sm75 ex_q64 ex_q64 ex_q64 ex_q64 ex_q64 ex_lse
     ex_q64 ex_q64 ex_q64 ex_cu_seqlens ex_cu_seqlens 20 300 0 1 False False 1 (ex_world 128)"
  have acc: "accepted ?call"
    by (rule ex_accepted) simp
  have "map (\<lambda>(kid, c, p). (c, params_seqlen_k p, params_o_tmp_ptr p))
          (launched (trace (snd ?call)))
        = [(True, 384, Some B_dq_tmp), (False, 384, Some B_dq_tmp)]"
  proof (cases rule: mha_bwd_outcome[of ex_kernels sm75 ex_q64 ex_q64 ex_q64 ex_q64 ex_q64 ex_lse
          ex_q64 ex_q64 ex_q64 ex_cu_seqlens ex_cu_seqlens 20 300 0 1 False False 1
          "ex_world 128"])
    case (ran r params)
    note f = set_params_dgrad_Inr[OF ran(5)]
    have d: "params_d params \<le> 128" by (simp add: f)
    show ?thesis
      unfolding ran(6) snd_conv mha_bwd_launch_trace[OF d]
      by (simp add: f bwd_exec_params_def Let_def sm75_def blocksize_c_bwd_def loop_of_def
          ex_kernels_def)
  qed (use acc in \<open>simp_all add: accepted_def\<close>)
  moreover have "\<not> is_round_up (if head_size_of ex_q64 > 64 then 128 else 256) 300 384"
    by (simp add: is_round_up_def)
  ultimately show ?thesis using acc by simp
qed

text \<open>
  Claim C6 as stated fails at the drop probability 0: the call is accepted and its
  kernel is dispatched with the keep probability 1.
\<close>

theorem dropout_probability_validated_counterexample:
  "accepted (mha_fwd ex_kernels sm80 ex_q ex_q ex_q ex_q ex_cu_seqlens ex_cu_seqlens
     20 300 0 1 False False False 1 (ex_world 32)) \<and>
   map (\<lambda>(kid, c, p). params_p_dropout p)
     (launched (trace (snd (mha_fwd ex_kernels sm80 ex_q ex_q ex_q ex_q ex_cu_seqlens
        ex_cu_seqlens 20 300 0 1 False False False 1 (ex_world 32))))) = [1]"
proof -
  let ?call = "mha_fwd ex_kernels sm80 ex_q ex_q ex_q ex_q ex_cu_seqlens ex_cu_seqlens
     20 300 0 1 False False False 1 (ex_world 32)"
  have acc: "accepted ?call"
    by (rule ex_accepted) simp
  have "map (\<lambda>(kid, c, p). params_p_dropout p) (launched (trace (snd ?call))) = [1]"
  proof (cases rule: mha_fwd_outcome[of ex_kernels sm80 ex_q ex_q ex_q ex_q ex_cu_seqlens
          ex_cu_seqlens 20 300 0 1 False False False 1 "ex_world 32"])
    case (ran r params)
    note f = set_params_fprop_Inr[OF ran(3)]
    have d: "params_d params \<le> 128" by (simp add: f)
    show ?thesis
      unfolding ran(4) snd_conv mha_fwd_launch_trace[OF d]
      by (simp add: f reserve_philox_simps)
  qed (use acc in \<open>simp_all add: accepted_def\<close>)
  with acc show ?thesis by simp
qed

text \<open>
  Claim C7 at a failing input. With \<open>zero_tensors\<close> set and a drop probability of 1, every
  check of \<open>mha_fwd\<close> before the pre-fill passes, \<open>out\<close> is zero-filled (line 284), and only
  then the check of line 117, inside \<open>set_params_fprop\<close>, raises: the call fails and the
  caller's \<open>out\<close>, which held the value 5 throughout, holds zeros. \<open>mha_bwd\<close> does the same
  to \<open>dq\<close> (and to \<open>dk\<close> and \<open>dv\<close>) at lines 448 to 450.
\<close>

theorem prefill_precedes_dropout_check:
  "fst (mha_fwd ex_kernels sm80 ex_q ex_q ex_q ex_q ex_cu_seqlens ex_cu_seqlens
          20 300 1 1 True False False 1 (ex_world 32)) = Inl (TorchCheck 117) \<and>
   mem (ex_world 32) B_out = replicate 32 (Num 5) \<and>
   mem (snd (mha_fwd ex_kernels sm80 ex_q ex_q ex_q ex_q ex_cu_seqlens ex_cu_seqlens
          20 300 1 1 True False False 1 (ex_world 32))) B_out = replicate 32 (Num 0) \<and>
   fst (mha_bwd ex_kernels sm80 ex_q ex_q ex_q ex_q ex_q ex_lse ex_q ex_q ex_q
          ex_cu_seqlens ex_cu_seqlens 20 300 1 1 True False 1 (ex_world 32))
     = Inl (TorchCheck 117) \<and>
   mem (ex_world 32) B_dq = replicate 32 (Num 5) \<and>
   mem (snd (mha_bwd ex_kernels sm80 ex_q ex_q ex_q ex_q ex_q ex_lse ex_q ex_q ex_q
          ex_cu_seqlens ex_cu_seqlens 20 300 1 1 True False 1 (ex_world 32))) B_dq
     = replicate 32 (Num 0)"
proof -
  have "mha_fwd ex_kernels sm80 ex_q ex_q ex_q ex_q ex_cu_seqlens ex_cu_seqlens
          20 300 1 1 True False False 1 (ex_world 32)
        = (Inl (TorchCheck 117),
           mha_fwd_alloc True False True 1 2 1 16 32 512 (ex_world 32))"
    by (simp add: mha_fwd_def ex_fwd_validate Let_def set_params_fprop_rejects
        blocksize_c_fwd_def loop_of_def alloc_ok_def)
  moreover have "mha_bwd ex_kernels sm80 ex_q ex_q ex_q ex_q ex_q ex_lse ex_q ex_q ex_q
          ex_cu_seqlens ex_cu_seqlens 20 300 1 1 True False 1 (ex_world 32)
        = (Inl (TorchCheck 117),
           mha_bwd_alloc ex_lse True True 1 2 1 16 32 (ex_world 32))"
    by (simp add: mha_bwd_def ex_bwd_validate Let_def set_params_dgrad_rejects
        blocksize_c_bwd_def loop_of_def alloc_ok_def index_ok_def)
  ultimately show ?thesis
    by (simp add: mha_fwd_alloc_mem mha_bwd_alloc_mem)
qed


text \<open>
  The theorem of claim C2 at the concrete setting: raw lengths 20 and 300, head dimension
  16 on SM80, hence the tile size 256.
\<close>

theorem tiling_parameters_witness:
  "(0::int) \<le> 20 \<and> (20::int) \<le> 2147483392 \<and> (300::int) \<le> 2147483392 \<and>
   accepted (mha_fwd ex_kernels sm80 ex_q ex_q ex_q ex_q ex_cu_seqlens ex_cu_seqlens
     20 300 (1/2) 1 True False True 1 (ex_world 32)) \<and>
   (\<exists>kid p. launched (trace (snd (mha_fwd ex_kernels sm80 ex_q ex_q ex_q ex_q ex_cu_seqlens
                 ex_cu_seqlens 20 300 (1/2) 1 True False True 1 (ex_world 32))))
              = [(kid, False, p)] \<and>
            tiling 256 20 300 (params_seqlen_q p) (params_seqlen_k p)
              (params_o_tmp_ptr p \<noteq> None)) \<and>
   accepted (mha_bwd ex_kernels sm80 ex_q ex_q ex_q ex_q ex_q ex_lse ex_q ex_q ex_q
     ex_cu_seqlens ex_cu_seqlens 20 300 (1/2) 1 True False 1 (ex_world 32)) \<and>
   (\<exists>kid p0 p1. launched (trace (snd (mha_bwd ex_kernels sm80 ex_q ex_q ex_q ex_q ex_q ex_lse
                 ex_q ex_q ex_q ex_cu_seqlens ex_cu_seqlens 20 300 (1/2) 1 True False 1
                 (ex_world 32))))
              = [(kid, True, p0), (kid, False, p1)] \<and>
            tiling 256 20 300 (params_seqlen_q p0) (params_seqlen_k p0)
              (params_o_tmp_ptr p0 \<noteq> None))"
proof -
  have h: "(0::int) \<le> 20" "(20::int) \<le> 2147483392" "(300::int) \<le> 2147483392" by simp_all
  have p: "(1/2::real) < 1" by simp
  note acc = ex_accepted[OF p]
  obtain r1 w1 where e1: "mha_fwd ex_kernels sm80 ex_q ex_q ex_q ex_q ex_cu_seqlens ex_cu_seqlens
     20 300 (1/2) 1 True False True 1 (ex_world 32) = (Inr r1, w1)"
    using accepted_Inr[OF acc(1)] by blast
  obtain r2 w2 where e2: "mha_bwd ex_kernels sm80 ex_q ex_q ex_q ex_q ex_q ex_lse ex_q ex_q ex_q
     ex_cu_seqlens ex_cu_seqlens 20 300 (1/2) 1 True False 1 (ex_world 32) = (Inr r2, w2)"
    using accepted_Inr[OF acc(2)] by blast
  from tiling_parameters[OF h, THEN conjunct1, rule_format, OF e1]
  have a: "\<exists>kid p. launched (trace w1) = [(kid, False, p)] \<and>
            tiling 256 20 300 (params_seqlen_q p) (params_seqlen_k p)
              (params_o_tmp_ptr p \<noteq> None)"
    by simp
  from tiling_parameters[OF h, THEN conjunct2, rule_format, OF e2]
  have b: "\<exists>kid p0 p1. launched (trace w2) = [(kid, True, p0), (kid, False, p1)] \<and>
            tiling 256 20 300 (params_seqlen_q p0) (params_seqlen_k p0)
              (params_o_tmp_ptr p0 \<noteq> None)"
    by (simp add: sm80_def)
  from a b show ?thesis
    by (simp add: e1 e2 accepted_def)
qed

lemma pointed_o_tmp: "params_o_tmp_ptr p = Some b \<Longrightarrow> b \<in> set (pointed p)"
  by (simp add: pointed_def split: option.splits)

text \<open>
  The theorem of claim C4 at the concrete setting, where the plan settles on two splits:
  the execute call sees \<open>dq_tmp\<close> zero-filled, and \<open>dq\<close> ends with what the kernel wrote to
  \<open>dq_tmp\<close>.
\<close>

theorem plan_before_execute_witness:
  "accepted (mha_bwd ex_kernels sm80 ex_q ex_q ex_q ex_q ex_q ex_lse ex_q ex_q ex_q
     ex_cu_seqlens ex_cu_seqlens 20 300 (1/2) 1 True False 1 (ex_world 32)) \<and>
   (\<exists>kid p0 m0 p1 m1.
      trace (snd (mha_bwd ex_kernels sm80 ex_q ex_q ex_q ex_q ex_q ex_lse ex_q ex_q ex_q
         ex_cu_seqlens ex_cu_seqlens 20 300 (1/2) 1 True False 1 (ex_world 32)))
        = [Launch kid True p0 m0, Philox 32, Launch kid False p1 m1] \<and>
      params_num_splits p1 = 2 \<and>
      params_o_tmp_ptr p1 = Some B_dq_tmp \<and>
      m1 B_dq_tmp = replicate 32 (Num 0) \<and>
      mem (snd (mha_bwd ex_kernels sm80 ex_q ex_q ex_q ex_q ex_q ex_lse ex_q ex_q ex_q
         ex_cu_seqlens ex_cu_seqlens 20 300 (1/2) 1 True False 1 (ex_world 32))) B_dq
        = replicate 32 (Num 2))"
proof -
  have p: "(1/2::real) < 1" by simp
  note acc = ex_accepted(2)[OF p]
  obtain r w' where e: "mha_bwd ex_kernels sm80 ex_q ex_q ex_q ex_q ex_q ex_lse ex_q ex_q ex_q
     ex_cu_seqlens ex_cu_seqlens 20 300 (1/2) 1 True False 1 (ex_world 32) = (Inr r, w')"
    using accepted_Inr[OF acc] by blast
  from plan_before_execute[OF e] obtain kid p0 m0 p1 m1 where
    t: "trace w' = [Launch kid True p0 m0, Philox 32, Launch kid False p1 m1]"
    and n: "params_num_splits p1 = 2"
    and z: "params_num_splits p1 > 1 \<longrightarrow>
        params_o_tmp_ptr p1 = Some B_dq_tmp \<and>
        m1 B_dq_tmp = replicate 32 (Num 0) \<and>
        mem w' B_dq_tmp = bwd_run ex_kernels kid p1 (visible p1 m1) B_dq_tmp \<and>
        mem w' B_dq = mem w' B_dq_tmp"
    by (auto simp: ex_kernels_def)
  from n z have o: "params_o_tmp_ptr p1 = Some B_dq_tmp"
    and m: "m1 B_dq_tmp = replicate 32 (Num 0)"
    and q: "mem w' B_dq = bwd_run ex_kernels kid p1 (visible p1 m1) B_dq_tmp"
    by simp_all
  have "params_softmax_lse_ptr p1 = Some (softmax_lse_data_ptr ex_lse (max_seqlen_q_of 20))"
    using t by (intro mha_bwd_exec_lse_ptr[OF e, of "[Launch kid True p0 m0, Philox 32]" kid False p1 m1]) simp
  then have "visible p1 m1 B_dq_tmp = m1 B_dq_tmp"
    using pointed_o_tmp[OF o] by (simp add: visible_def softmax_lse_data_ptr_cases)
  with q m have "mem w' B_dq = replicate 32 (Num 2)"
    by (simp add: ex_kernels_def)
  with t n o m show ?thesis
    by (simp add: e accepted_def)
qed

text \<open>
  The theorem of claim C5 at the concrete setting, with the probability matrix
  requested.
\<close>

theorem prefill_before_launch_witness:
  "accepted (mha_fwd ex_kernels sm80 ex_q ex_q ex_q ex_q ex_cu_seqlens ex_cu_seqlens
     20 300 (1/2) 1 True False True 1 (ex_world 32)) \<and>
   (\<exists>kid p m es.
      trace (snd (mha_fwd ex_kernels sm80 ex_q ex_q ex_q ex_q ex_cu_seqlens ex_cu_seqlens
         20 300 (1/2) 1 True False True 1 (ex_world 32))) = es @ [Launch kid False p m] \<and>
      launched es = [] \<and>
      m B_out = replicate 32 (Num 0) \<and>
      m B_softmax_lse = replicate 32 NegInf \<and>
      m B_s = replicate (nat (32 * params_seqlen_k p)) (Num 0))"
proof -
  have p: "(1/2::real) < 1" by simp
  note acc = ex_accepted(1)[OF p]
  obtain r w' where e: "mha_fwd ex_kernels sm80 ex_q ex_q ex_q ex_q ex_cu_seqlens ex_cu_seqlens
     20 300 (1/2) 1 True False True 1 (ex_world 32) = (Inr r, w')"
    using accepted_Inr[OF acc] by blast
  from prefill_before_launch[OF e] show ?thesis
    by (simp add: e accepted_def)
qed

text \<open>
  The theorem of claim C6 at the drop probability 1.
\<close>

theorem dropout_probability_validated_witness:
  "\<not> (1::real) < 1 \<and>
   \<not> accepted (mha_fwd ex_kernels sm80 ex_q ex_q ex_q ex_q ex_cu_seqlens ex_cu_seqlens
     20 300 1 1 True False True 1 (ex_world 32)) \<and>
   trace (snd (mha_fwd ex_kernels sm80 ex_q ex_q ex_q ex_q ex_cu_seqlens ex_cu_seqlens
     20 300 1 1 True False True 1 (ex_world 32))) = [] \<and>
   \<not> accepted (mha_bwd ex_kernels sm80 ex_q ex_q ex_q ex_q ex_q ex_lse ex_q ex_q ex_q
     ex_cu_seqlens ex_cu_seqlens 20 300 1 1 True False 1 (ex_world 32)) \<and>
   trace (snd (mha_bwd ex_kernels sm80 ex_q ex_q ex_q ex_q ex_q ex_lse ex_q ex_q ex_q
     ex_cu_seqlens ex_cu_seqlens 20 300 1 1 True False 1 (ex_world 32))) = [] \<and>
   \<not> accepted (mha_fwd_block ex_kernels sm80 ex_q ex_q ex_q ex_cu_seqlens ex_cu_seqlens
     ex_blockmask 16 200 1 1 False True (ex_world 32)) \<and>
   trace (snd (mha_fwd_block ex_kernels sm80 ex_q ex_q ex_q ex_cu_seqlens ex_cu_seqlens
     ex_blockmask 16 200 1 1 False True (ex_world 32))) = [] \<and>
   \<not> accepted (mha_bwd_block ex_kernels sm80 ex_q ex_q ex_q ex_q ex_q ex_lse ex_q ex_q
     ex_q ex_cu_seqlens ex_cu_seqlens ex_blockmask 16 200 1 1 False (ex_world 32)) \<and>
   trace (snd (mha_bwd_block ex_kernels sm80 ex_q ex_q ex_q ex_q ex_q ex_lse ex_q ex_q
     ex_q ex_cu_seqlens ex_cu_seqlens ex_blockmask 16 200 1 1 False (ex_world 32))) = []"
proof -
  have h: "\<not> (1::real) < 1" by simp
  from dropout_probability_validated[OF h, of ex_kernels sm80 ex_q ex_q ex_q ex_q ex_cu_seqlens
      ex_cu_seqlens 20 300 1 True False True 1 "ex_world 32" ex_q ex_lse ex_q ex_q ex_q
      ex_blockmask]
  have "\<not> accepted (mha_fwd ex_kernels sm80 ex_q ex_q ex_q ex_q ex_cu_seqlens ex_cu_seqlens
     20 300 1 1 True False True 1 (ex_world 32))"
   "trace (snd (mha_fwd ex_kernels sm80 ex_q ex_q ex_q ex_q ex_cu_seqlens ex_cu_seqlens
     20 300 1 1 True False True 1 (ex_world 32))) = []"
   "\<not> accepted (mha_bwd ex_kernels sm80 ex_q ex_q ex_q ex_q ex_q ex_lse ex_q ex_q ex_q
     ex_cu_seqlens ex_cu_seqlens 20 300 1 1 True False 1 (ex_world 32))"
   "trace (snd (mha_bwd ex_kernels sm80 ex_q ex_q ex_q ex_q ex_q ex_lse ex_q ex_q ex_q
     ex_cu_seqlens ex_cu_seqlens 20 300 1 1 True False 1 (ex_world 32))) = []"
    by simp_all
  moreover
  from dropout_probability_validated[OF h, of ex_kernels sm80 ex_q ex_q ex_q ex_q ex_cu_seqlens
      ex_cu_seqlens 16 200 1 False False True 1 "ex_world 32" ex_q ex_lse ex_q ex_q ex_q
      ex_blockmask]
  have "\<not> accepted (mha_fwd_block ex_kernels sm80 ex_q ex_q ex_q ex_cu_seqlens ex_cu_seqlens
     ex_blockmask 16 200 1 1 False True (ex_world 32))"
   "trace (snd (mha_fwd_block ex_kernels sm80 ex_q ex_q ex_q ex_cu_seqlens ex_cu_seqlens
     ex_blockmask 16 200 1 1 False True (ex_world 32))) = []"
   "\<not> accepted (mha_bwd_block ex_kernels sm80 ex_q ex_q ex_q ex_q ex_q ex_lse ex_q ex_q
     ex_q ex_cu_seqlens ex_cu_seqlens ex_blockmask 16 200 1 1 False (ex_world 32))"
   "trace (snd (mha_bwd_block ex_kernels sm80 ex_q ex_q ex_q ex_q ex_q ex_lse ex_q ex_q
     ex_q ex_cu_seqlens ex_cu_seqlens ex_blockmask 16 200 1 1 False (ex_world 32))) = []"
    by simp_all
  ultimately show ?thesis using h by blast
qed


lemma ex2_dims [simp]:
  "int32 (sizes_at ex_q2 TOTAL_DIM) = 2" "int32 (sizes_at ex_q2 H_DIM) = 2"
  "int32 (sizes_at ex_q2 D_DIM) = 16"
  "3 \<le> length (dims ex_lse2)"
  by (simp_all add: tensor_defs ex_q2_def ex_lse2_def)

lemma ex2_bwd_validate:
  "mha_bwd_validate sm80 ex_q2 ex_q2 ex_q2 ex_q2 ex_q2 ex_lse2 ex_q2 ex_q2 ex_q2 ex_cu_seqlens
     ex_cu_seqlens = None"
  by (simp add: mha_bwd_validate_def Let_def tensor_defs ex_defs ex_q2_def ex_lse2_def
      signed_modulo_int_def)

lemma ex2_accepted:
  "p < 1 \<Longrightarrow> accepted (mha_bwd ex_kernels sm80 ex_q2 ex_q2 ex_q2 ex_q2 ex_q2 ex_lse2 ex_q2 ex_q2
     ex_q2 ex_cu_seqlens ex_cu_seqlens 16 300 p 1 zt False 1 w)"
  by (simp add: mha_bwd_accepted_iff ex2_bwd_validate first_error_None)

lemma ex_lse_shape:
  "length (dims ex_lse2) = 3" "length (dims ex_lse) = 3"
  "\<not> is_contiguous (index_slice_dim2 ex_lse2 16)"
  "is_contiguous (index_slice_dim2 ex_lse 16)"
  by (simp_all add: ex_lse2_def ex_lse_def
      sizes_at_def index_slice_dim2_def slice_len_def is_contiguous_def numel_def sizes_def)

lemma ex_lse_of_forward:
  "lse_of_forward ex_lse2 ex_cu_seqlens ex_q2 16"
  "lse_of_forward ex_lse ex_cu_seqlens ex_q 16"
  by (simp_all add: lse_of_forward_def batch_size_of_def num_heads_of_def)
     (simp_all add: ex_lse2_def ex_lse_def sizes_at_def)

lemma ex_world34:
  "same_but_lse ex_world3 ex_world4"
  "same_but_lse (ex_world 32) ex_world2"
  "mem ex_world3 B_softmax_lse_arg
     = replicate 16 (Num 3) @ replicate 16 (Num 4) @ replicate 16 (Num 5) @ replicate 16 (Num 6)"
  "mem ex_world4 B_softmax_lse_arg
     = replicate 16 (Num 3) @ replicate 16 (Num 9) @ replicate 16 (Num 5) @ replicate 16 (Num 8)"
  "mem ex_world2 B_softmax_lse_arg = replicate 16 (Num 3) @ replicate 16 (Num 9)"
  by (simp_all add: same_but_lse_def ex_world3_def ex_world4_def ex_world2_def)

lemma ex_agree:
  "agree_on_first ex_lse2 16 (mem ex_world3 B_softmax_lse_arg) (mem ex_world4 B_softmax_lse_arg)"
  "agree_on_first ex_lse 16 (mem (ex_world 32) B_softmax_lse_arg) (mem ex_world2 B_softmax_lse_arg)"
  by (auto simp: agree_on_first_def ex_world34 ex_lse2_def ex_lse_def sizes_at_def entry_def
      storage_at_def nth_append less_Suc_eq numeral_2_eq_2)

lemma ex_lse2_rows:
  assumes "first_along_last ex_lse2 16 (mem ex_world3 B_softmax_lse_arg) ys"
  shows "storage_at ys 15 = Num 3 \<and> storage_at ys 16 = Num 5"
proof -
  from assms have a: "\<forall>j<2. \<forall>k<16. storage_at ys (int (j * 16 + k))
      = entry ex_lse2 (mem ex_world3 B_softmax_lse_arg) 0 j k"
    by (simp add: first_along_last_def Let_def ex_lse2_def sizes_at_def)
  from a have "storage_at ys (int (0 * 16 + 15)) = entry ex_lse2 (mem ex_world3 B_softmax_lse_arg) 0 0 15"
    by (elim allE[of _ 0] impE allE[of _ 15]) simp_all
  moreover from a have "storage_at ys (int (1 * 16 + 0)) = entry ex_lse2 (mem ex_world3 B_softmax_lse_arg) 0 1 0"
    by (elim allE[of _ 1] impE allE[of _ 0]) simp_all
  ultimately show ?thesis
    by (simp add: entry_def ex_lse2_def ex_world34 storage_at_def nth_append)
qed


text \<open>
  The theorem of claim C8 at two concrete settings, both with the padded query length 16
  and rows of 32 entries. In the first the LogSumExp has two rows, so that its first
  halves are not contiguous: \<open>mha_bwd\<close> hands the kernel a copy, in which the entry 15 is the
  last of the first half of the first row and the entry 16 the first of the second row.
  In the second the LogSumExp has one row, and \<open>mha_bwd_block\<close> points the kernel into the
  caller's storage. In either setting the second world differs from the first in the
  second halves of the rows, and the call does the same in both.
\<close>

theorem lse_read_only_witness:
  "length (dims ex_lse2) = 3 \<and>
   accepted (mha_bwd ex_kernels sm80 ex_q2 ex_q2 ex_q2 ex_q2 ex_q2 ex_lse2 ex_q2 ex_q2 ex_q2
     ex_cu_seqlens ex_cu_seqlens 16 300 (1/2) 1 True False 1 ex_world3) \<and>
   mem (snd (mha_bwd ex_kernels sm80 ex_q2 ex_q2 ex_q2 ex_q2 ex_q2 ex_lse2 ex_q2 ex_q2 ex_q2
     ex_cu_seqlens ex_cu_seqlens 16 300 (1/2) 1 True False 1 ex_world3)) B_softmax_lse_arg = mem ex_world3 B_softmax_lse_arg \<and>
   (\<exists>kid p0 m0 es p1 m1.
      trace (snd (mha_bwd ex_kernels sm80 ex_q2 ex_q2 ex_q2 ex_q2 ex_q2 ex_lse2 ex_q2 ex_q2 ex_q2
        ex_cu_seqlens ex_cu_seqlens 16 300 (1/2) 1 True False 1 ex_world3))
        = [Launch kid True p0 m0] @ es @ [Launch kid False p1 m1] \<and>
      params_softmax_lse_ptr p1 = Some B_softmax_lse \<and> params_seqlen_q p1 = 16 \<and>
      storage_at (m1 B_softmax_lse) 15 = Num 3 \<and> storage_at (m1 B_softmax_lse) 16 = Num 5) \<and>
   lse_of_forward ex_lse2 ex_cu_seqlens ex_q2 16 \<and>
   same_but_lse ex_world3 ex_world4 \<and>
   agree_on_first ex_lse2 16 (mem ex_world3 B_softmax_lse_arg) (mem ex_world4 B_softmax_lse_arg) \<and>
   mem ex_world4 B_softmax_lse_arg \<noteq> mem ex_world3 B_softmax_lse_arg \<and>
   fst (mha_bwd ex_kernels sm80 ex_q2 ex_q2 ex_q2 ex_q2 ex_q2 ex_lse2 ex_q2 ex_q2 ex_q2
     ex_cu_seqlens ex_cu_seqlens 16 300 (1/2) 1 True False 1 ex_world4) = fst (mha_bwd ex_kernels sm80 ex_q2 ex_q2 ex_q2 ex_q2 ex_q2 ex_lse2 ex_q2 ex_q2 ex_q2
     ex_cu_seqlens ex_cu_seqlens 16 300 (1/2) 1 True False 1 ex_world3) \<and>
   same_but_lse (snd (mha_bwd ex_kernels sm80 ex_q2 ex_q2 ex_q2 ex_q2 ex_q2 ex_lse2 ex_q2 ex_q2 ex_q2
     ex_cu_seqlens ex_cu_seqlens 16 300 (1/2) 1 True False 1 ex_world3)) (snd (mha_bwd ex_kernels sm80 ex_q2 ex_q2 ex_q2 ex_q2 ex_q2 ex_lse2 ex_q2 ex_q2 ex_q2
     ex_cu_seqlens ex_cu_seqlens 16 300 (1/2) 1 True False 1 ex_world4)) \<and>
   length (dims ex_lse) = 3 \<and>
   accepted (mha_bwd_block ex_kernels sm80 ex_q ex_q ex_q ex_q ex_q ex_lse ex_q ex_q
     ex_q ex_cu_seqlens ex_cu_seqlens ex_blockmask 16 200 (1/2) 1 False (ex_world 32)) \<and>
   mem (snd (mha_bwd_block ex_kernels sm80 ex_q ex_q ex_q ex_q ex_q ex_lse ex_q ex_q
     ex_q ex_cu_seqlens ex_cu_seqlens ex_blockmask 16 200 (1/2) 1 False (ex_world 32))) B_softmax_lse_arg = replicate 32 (Num 3) \<and>
   (\<exists>kid es p1 m1.
      trace (snd (mha_bwd_block ex_kernels sm80 ex_q ex_q ex_q ex_q ex_q ex_lse ex_q ex_q
     ex_q ex_cu_seqlens ex_cu_seqlens ex_blockmask 16 200 (1/2) 1 False (ex_world 32))) = es @ [Launch kid False p1 m1] \<and>
      params_softmax_lse_ptr p1 = Some B_softmax_lse_arg \<and> params_seqlen_q p1 = 16) \<and>
   lse_of_forward ex_lse ex_cu_seqlens ex_q 16 \<and>
   same_but_lse (ex_world 32) ex_world2 \<and>
   agree_on_first ex_lse 16 (mem (ex_world 32) B_softmax_lse_arg) (mem ex_world2 B_softmax_lse_arg) \<and>
   mem ex_world2 B_softmax_lse_arg \<noteq> mem (ex_world 32) B_softmax_lse_arg \<and>
   fst (mha_bwd_block ex_kernels sm80 ex_q ex_q ex_q ex_q ex_q ex_lse ex_q ex_q
     ex_q ex_cu_seqlens ex_cu_seqlens ex_blockmask 16 200 (1/2) 1 False ex_world2) = fst (mha_bwd_block ex_kernels sm80 ex_q ex_q ex_q ex_q ex_q ex_lse ex_q ex_q
     ex_q ex_cu_seqlens ex_cu_seqlens ex_blockmask 16 200 (1/2) 1 False (ex_world 32)) \<and>
   same_but_lse (snd (mha_bwd_block ex_kernels sm80 ex_q ex_q ex_q ex_q ex_q ex_lse ex_q ex_q
     ex_q ex_cu_seqlens ex_cu_seqlens ex_blockmask 16 200 (1/2) 1 False (ex_world 32))) (snd (mha_bwd_block ex_kernels sm80 ex_q ex_q ex_q ex_q ex_q ex_lse ex_q ex_q
     ex_q ex_cu_seqlens ex_cu_seqlens ex_blockmask 16 200 (1/2) 1 False ex_world2))"
proof -
  have p: "(1/2::real) < 1" by simp
  have g: "max_seqlen_q_of 16 = 16" by simp
  have acc: "accepted (mha_bwd ex_kernels sm80 ex_q2 ex_q2 ex_q2 ex_q2 ex_q2 ex_lse2 ex_q2 ex_q2 ex_q2
     ex_cu_seqlens ex_cu_seqlens 16 300 (1/2) 1 True False 1 ex_world3)"
    "accepted (mha_bwd_block ex_kernels sm80 ex_q ex_q ex_q ex_q ex_q ex_lse ex_q ex_q
     ex_q ex_cu_seqlens ex_cu_seqlens ex_blockmask 16 200 (1/2) 1 False (ex_world 32))"
    using ex2_accepted[OF p] ex_accepted(4)[OF p] by blast+
  obtain r w' where e: "mha_bwd ex_kernels sm80 ex_q2 ex_q2 ex_q2 ex_q2 ex_q2 ex_lse2 ex_q2 ex_q2 ex_q2
     ex_cu_seqlens ex_cu_seqlens 16 300 (1/2) 1 True False 1 ex_world3 = (Inr r, w')"
    using accepted_Inr[OF acc(1)] by blast
  obtain rb wb' where eb: "mha_bwd_block ex_kernels sm80 ex_q ex_q ex_q ex_q ex_q ex_lse ex_q ex_q
     ex_q ex_cu_seqlens ex_cu_seqlens ex_blockmask 16 200 (1/2) 1 False (ex_world 32) = (Inr rb, wb')"
    using accepted_Inr[OF acc(2)] by blast
  have ne: "mem ex_world4 B_softmax_lse_arg \<noteq> mem ex_world3 B_softmax_lse_arg"
    "mem ex_world2 B_softmax_lse_arg \<noteq> mem (ex_world 32) B_softmax_lse_arg"
  proof -
    have "mem ex_world4 B_softmax_lse_arg ! 16 \<noteq> mem ex_world3 B_softmax_lse_arg ! 16"
      "mem ex_world2 B_softmax_lse_arg ! 16 \<noteq> mem (ex_world 32) B_softmax_lse_arg ! 16"
      by (simp_all add: ex_world34 nth_append)
    then show "mem ex_world4 B_softmax_lse_arg \<noteq> mem ex_world3 B_softmax_lse_arg"
      "mem ex_world2 B_softmax_lse_arg \<noteq> mem (ex_world 32) B_softmax_lse_arg"
      by auto
  qed
  note t1 = lse_read_only[OF ex_lse_shape(1), THEN conjunct1, rule_format, OF e, unfolded g]
  note t2 = lse_read_only[OF ex_lse_shape(2), THEN conjunct2, rule_format, OF eb, unfolded g]
  from t1 have a1: "mem w' B_softmax_lse_arg = mem ex_world3 B_softmax_lse_arg" by blast
  from t1 obtain kid p0 m0 es p1 m1 where
    a2: "trace w' = trace ex_world3 @ [Launch kid True p0 m0] @ es @ [Launch kid False p1 m1]"
      "params_softmax_lse_ptr p1 = Some (softmax_lse_data_ptr ex_lse2 16)"
      "params_seqlen_q p1 = 16"
      "first_along_last ex_lse2 16 (mem ex_world3 B_softmax_lse_arg)
         (m1 (softmax_lse_data_ptr ex_lse2 16))"
    by blast
  from t1 have "\<forall>w2. lse_of_forward ex_lse2 ex_cu_seqlens ex_q2 16 \<and>
                same_but_lse ex_world3 w2 \<and>
                agree_on_first ex_lse2 16 (mem ex_world3 B_softmax_lse_arg) (mem w2 B_softmax_lse_arg)
             \<longrightarrow> (\<exists>w2'. mha_bwd ex_kernels sm80 ex_q2 ex_q2 ex_q2 ex_q2 ex_q2 ex_lse2 ex_q2 ex_q2 ex_q2
     ex_cu_seqlens ex_cu_seqlens 16 300 (1/2) 1 True False 1 w2 = (Inr r, w2') \<and> same_but_lse w' w2')"
    by blast
  then obtain w2' where a3: "mha_bwd ex_kernels sm80 ex_q2 ex_q2 ex_q2 ex_q2 ex_q2 ex_lse2 ex_q2 ex_q2 ex_q2
     ex_cu_seqlens ex_cu_seqlens 16 300 (1/2) 1 True False 1 ex_world4 = (Inr r, w2')" and a4: "same_but_lse w' w2'"
    using ex_lse_of_forward(1) ex_world34(1) ex_agree(1) by blast
  have a5: "trace ex_world3 = []" by (simp add: ex_world3_def)
  from t2 have b1: "mem wb' B_softmax_lse_arg = mem (ex_world 32) B_softmax_lse_arg" by blast
  from t2 obtain kidb esb p1b m1b where
    b2: "trace wb' = trace (ex_world 32) @ esb @ [Launch kidb False p1b m1b]"
      "params_softmax_lse_ptr p1b = Some (softmax_lse_data_ptr ex_lse 16)"
      "params_seqlen_q p1b = 16"
    by blast
  from t2 have "\<forall>w2. lse_of_forward ex_lse ex_cu_seqlens ex_q 16 \<and>
                same_but_lse (ex_world 32) w2 \<and>
                agree_on_first ex_lse 16 (mem (ex_world 32) B_softmax_lse_arg) (mem w2 B_softmax_lse_arg)
             \<longrightarrow> (\<exists>w2'. mha_bwd_block ex_kernels sm80 ex_q ex_q ex_q ex_q ex_q ex_lse ex_q ex_q
     ex_q ex_cu_seqlens ex_cu_seqlens ex_blockmask 16 200 (1/2) 1 False w2 = (Inr rb, w2') \<and> same_but_lse wb' w2')"
    by blast
  then obtain wb2' where b3: "mha_bwd_block ex_kernels sm80 ex_q ex_q ex_q ex_q ex_q ex_lse ex_q ex_q
     ex_q ex_cu_seqlens ex_cu_seqlens ex_blockmask 16 200 (1/2) 1 False ex_world2 = (Inr rb, wb2')" and b4: "same_but_lse wb' wb2'"
    using ex_lse_of_forward(2) ex_world34(2) ex_agree(2) by blast
  have lb: "softmax_lse_data_ptr ex_lse2 16 = B_softmax_lse"
    by (simp add: softmax_lse_data_ptr_cases ex_lse_shape)
  have "\<exists>kid p0 m0 es p1 m1.
      trace w' = [Launch kid True p0 m0] @ es @ [Launch kid False p1 m1] \<and>
      params_softmax_lse_ptr p1 = Some B_softmax_lse \<and> params_seqlen_q p1 = 16 \<and>
      storage_at (m1 B_softmax_lse) 15 = Num 3 \<and> storage_at (m1 B_softmax_lse) 16 = Num 5"
    using a2 a5 ex_lse2_rows[OF a2(4)] unfolding lb by auto
  moreover have "\<exists>kid es p1 m1.
      trace wb' = es @ [Launch kid False p1 m1] \<and>
      params_softmax_lse_ptr p1 = Some B_softmax_lse_arg \<and> params_seqlen_q p1 = 16"
    using b2 by (auto simp: softmax_lse_data_ptr_cases ex_lse_shape)
  ultimately show ?thesis
    using a1 a4 b1 b4 ne ex_lse_shape(1,2) ex_lse_of_forward ex_world34(1,2) ex_agree
    by (simp add: e eb a3 b3 accepted_def)
qed

lemma ex_q24_head: "head_size_of ex_q24 = 24"
  by (simp add: head_size_of_def ex_q24_def tensor_defs)

text \<open>
  The theorem of claim C9 at the head dimension 24.
\<close>

theorem block_sparse_head_dimensions_witness:
  "head_size_of ex_q24 = 24 \<and> head_size_of ex_q24 \<notin> {16, 32, 64, 128} \<and>
   (\<exists>e. mha_fwd_block ex_kernels sm80 ex_q24 ex_q24 ex_q24 ex_cu_seqlens ex_cu_seqlens
          ex_blockmask 16 200 0 1 False True (ex_world 48) = (Inl e, ex_world 48)) \<and>
   (\<exists>e. mha_bwd_block ex_kernels sm80 ex_q24 ex_q24 ex_q24 ex_q24 ex_q24 ex_lse ex_q24 ex_q24
          ex_q24 ex_cu_seqlens ex_cu_seqlens ex_blockmask 16 200 0 1 False (ex_world 48)
        = (Inl e, ex_world 48))"
proof -
  have h: "head_size_of ex_q24 \<notin> {16, 32, 64, 128}" by (simp add: ex_q24_head)
  from block_sparse_head_dimensions[OF h] show ?thesis
    using h by (simp add: ex_q24_head)
qed

text \<open>
  The theorem of claim C10 at the concrete setting: four accepted calls without dropout,
  after which the offset of the generator is still 0.
\<close>

theorem no_dropout_generator_untouched_witness:
  "accepted (mha_fwd ex_kernels sm80 ex_q ex_q ex_q ex_q ex_cu_seqlens ex_cu_seqlens
     20 300 0 1 True False True 1 (ex_world 32)) \<and>
   gen_offset (snd (mha_fwd ex_kernels sm80 ex_q ex_q ex_q ex_q ex_cu_seqlens ex_cu_seqlens
     20 300 0 1 True False True 1 (ex_world 32))) = 0 \<and>
   reserved (trace (snd (mha_fwd ex_kernels sm80 ex_q ex_q ex_q ex_q ex_cu_seqlens
     ex_cu_seqlens 20 300 0 1 True False True 1 (ex_world 32)))) = [] \<and>
   accepted (mha_bwd ex_kernels sm80 ex_q ex_q ex_q ex_q ex_q ex_lse ex_q ex_q ex_q
     ex_cu_seqlens ex_cu_seqlens 20 300 0 1 True False 1 (ex_world 32)) \<and>
   gen_offset (snd (mha_bwd ex_kernels sm80 ex_q ex_q ex_q ex_q ex_q ex_lse ex_q ex_q ex_q
     ex_cu_seqlens ex_cu_seqlens 20 300 0 1 True False 1 (ex_world 32))) = 0 \<and>
   accepted (mha_fwd_block ex_kernels sm80 ex_q ex_q ex_q ex_cu_seqlens ex_cu_seqlens
     ex_blockmask 16 200 0 1 False True (ex_world 32)) \<and>
   gen_offset (snd (mha_fwd_block ex_kernels sm80 ex_q ex_q ex_q ex_cu_seqlens ex_cu_seqlens
     ex_blockmask 16 200 0 1 False True (ex_world 32))) = 0 \<and>
   accepted (mha_bwd_block ex_kernels sm80 ex_q ex_q ex_q ex_q ex_q ex_lse ex_q ex_q
     ex_q ex_cu_seqlens ex_cu_seqlens ex_blockmask 16 200 0 1 False (ex_world 32)) \<and>
   gen_offset (snd (mha_bwd_block ex_kernels sm80 ex_q ex_q ex_q ex_q ex_q ex_lse ex_q ex_q
     ex_q ex_cu_seqlens ex_cu_seqlens ex_blockmask 16 200 0 1 False (ex_world 32))) = 0"
proof -
  have p: "(0::real) < 1" by simp
  note acc = ex_accepted(1-4)[OF p]
  from no_dropout_generator_untouched[of "ex_world 32" ex_kernels sm80 ex_q ex_q ex_q ex_q
      ex_cu_seqlens ex_cu_seqlens 20 300 1 True False True 1 ex_q ex_lse ex_q ex_q ex_q]
  have a: "gen_offset (snd (mha_fwd ex_kernels sm80 ex_q ex_q ex_q ex_q ex_cu_seqlens ex_cu_seqlens
     20 300 0 1 True False True 1 (ex_world 32))) = 0"
   "reserved (trace (snd (mha_fwd ex_kernels sm80 ex_q ex_q ex_q ex_q ex_cu_seqlens
     ex_cu_seqlens 20 300 0 1 True False True 1 (ex_world 32)))) = []"
   "gen_offset (snd (mha_bwd ex_kernels sm80 ex_q ex_q ex_q ex_q ex_q ex_lse ex_q ex_q ex_q
     ex_cu_seqlens ex_cu_seqlens 20 300 0 1 True False 1 (ex_world 32))) = 0"
    by (simp_all add: generator_untouched_def)
  from no_dropout_generator_untouched[of "ex_world 32" ex_kernels sm80 ex_q ex_q ex_q ex_q
      ex_cu_seqlens ex_cu_seqlens 16 200 1 False False True 1 ex_q ex_lse ex_q ex_q ex_q
      ex_blockmask]
  have b: "gen_offset (snd (mha_fwd_block ex_kernels sm80 ex_q ex_q ex_q ex_cu_seqlens ex_cu_seqlens
     ex_blockmask 16 200 0 1 False True (ex_world 32))) = 0"
    "gen_offset (snd (mha_bwd_block ex_kernels sm80 ex_q ex_q ex_q ex_q ex_q ex_lse ex_q ex_q
     ex_q ex_cu_seqlens ex_cu_seqlens ex_blockmask 16 200 0 1 False (ex_world 32))) = 0"
    by (simp_all add: generator_untouched_def)
  show ?thesis using acc a b by blast
qed

end
